theory Spec2Isabelle
  imports Complex_Main "HOL-Library.Sublist"
begin

section \<open>JavaScript values\<close>

text \<open>
  A JavaScript \<open>number\<close> that can be non-finite (configuration values, parsed upstream
  fields, a timestamp handed in by a caller) is modelled by the datatype below; its finite
  values are reals. Timestamps read from \<open>Date.now()\<close> (epoch milliseconds) and measured
  quantities that the code only compares and adds are modelled as \<open>real\<close>.
\<close>

datatype number = Num real | NaN | PosInfinity | NegInfinity

fun isFinite :: "number \<Rightarrow> bool" where
  "isFinite (Num v) = True"
| "isFinite _ = False"

text \<open>\<open>!x\<close> on a number: true for 0 and for \<open>NaN\<close>.\<close>

fun falsy :: "number \<Rightarrow> bool" where
  "falsy (Num v) = (v = 0)"
| "falsy NaN = True"
| "falsy PosInfinity = False"
| "falsy NegInfinity = False"

text \<open>\<open>x - y\<close> on numbers.\<close>

fun js_sub :: "number \<Rightarrow> number \<Rightarrow> number" where
  "js_sub (Num a) (Num b) = Num (a - b)"
| "js_sub (Num a) PosInfinity = NegInfinity"
| "js_sub (Num a) NegInfinity = PosInfinity"
| "js_sub PosInfinity (Num b) = PosInfinity"
| "js_sub PosInfinity NegInfinity = PosInfinity"
| "js_sub PosInfinity PosInfinity = NaN"
| "js_sub NegInfinity (Num b) = NegInfinity"
| "js_sub NegInfinity PosInfinity = NegInfinity"
| "js_sub NegInfinity NegInfinity = NaN"
| "js_sub NaN y = NaN"
| "js_sub x NaN = NaN"

text \<open>\<open>x >= g\<close> for a number \<open>x\<close> and a finite \<open>g\<close>: false when \<open>x\<close> is \<open>NaN\<close>.\<close>

fun js_ge :: "number \<Rightarrow> real \<Rightarrow> bool" where
  "js_ge (Num a) g = (a \<ge> g)"
| "js_ge PosInfinity g = True"
| "js_ge NegInfinity g = False"
| "js_ge NaN g = False"

text \<open>\<open>a ?? b\<close> on an optional value.\<close>

fun orElse :: "'a option \<Rightarrow> 'a \<Rightarrow> 'a" where
  "orElse None d = d"
| "orElse (Some v) d = v"

section \<open>util/hysteresis.ts\<close>

record HysteresisOptions =
  minOnMs :: number
  minOffMs :: number

text \<open>The closure variables of \<open>makeHysteresis\<close>: the two clamped dwell times, the stable
  state and the time of the last flip (\<open>0\<close> when none is recorded).\<close>

record HysteresisState =
  minOn :: real
  minOff :: real
  state :: bool
  lastFlip :: number

text \<open>\<open>clamp\<close>: a non-finite value gives 0, a finite one \<open>Math.max(0, value)\<close>.\<close>

fun clamp :: "number \<Rightarrow> real" where
  "clamp (Num v) = max 0 v"
| "clamp _ = 0"

definition makeHysteresis :: "HysteresisOptions \<Rightarrow> HysteresisState" where
  "makeHysteresis opts =
     \<lparr>minOn = clamp (minOnMs opts), minOff = clamp (minOffMs opts),
      state = False, lastFlip = Num 0\<rparr>"

text \<open>\<open>next(desired, now)\<close>: the gate after the call; the value returned to the caller is
  its \<open>state\<close>. \<open>now\<close> is whatever number the caller passes.\<close>

definition gate_next :: "HysteresisState \<Rightarrow> bool \<Rightarrow> number \<Rightarrow> HysteresisState" where
  "gate_next h desired now =
     (if falsy (lastFlip h) then h\<lparr>lastFlip := now, state := desired\<rparr>
      else if desired = state h then h
      else (let elapsed = js_sub now (lastFlip h);
                gate = (if state h then minOn h else minOff h)
            in if js_ge elapsed gate then h\<lparr>state := desired, lastFlip := now\<rparr> else h))"

definition gate_reset :: "HysteresisState \<Rightarrow> bool \<Rightarrow> HysteresisState" where
  "gate_reset h initial = h\<lparr>state := initial, lastFlip := Num 0\<rparr>"

definition getState :: "HysteresisState \<Rightarrow> bool" where
  "getState h = state h"

text \<open>A sequence of \<open>next\<close> calls on one gate, oldest first.\<close>

fun gate_calls :: "HysteresisState \<Rightarrow> (bool \<times> number) list \<Rightarrow> HysteresisState" where
  "gate_calls h [] = h"
| "gate_calls h ((desired, now) # cs) = gate_calls (gate_next h desired now) cs"

section \<open>types.ts\<close>

datatype PrecipType = Rain | Snow | Sleet | NoPrecip

text \<open>\<open>WeatherNowcast\<close> and \<open>WeatherForecastSlice\<close>; the slice's fields carry the prefix
  \<open>slice_\<close> where a nowcast field has the same name.\<close>

record WeatherNowcast =
  ts :: real
  providerName :: string
  precipMmHr :: real
  pop :: "real option"
  ptype :: PrecipType
  temperatureC :: "real option"

record WeatherForecastSlice =
  slice_ts :: real
  minutesFromNow :: real
  slice_providerName :: string
  slice_precipMmHr :: real
  slice_pop :: "real option"
  slice_type :: PrecipType

text \<open>The errors the code throws, one constructor per message.\<close>

datatype error =
    NoProvidersEnabled
  | TimedOut real
  | BackoffInEffect int
  | AllProvidersFailed
  | ProviderChainNotReady
  | UpstreamError string
  | TypeError

section \<open>providers/provider.ts\<close>

text \<open>The four provider classes. A provider's answers come from the network, so its
  \<open>getNowcast\<close> and \<open>getForecast\<close> are arguments of the chain's operations.\<close>

datatype WeatherProvider =
  WeatherKitProvider | OpenWeatherMapProvider | NwsProvider | TomorrowProvider

fun name :: "WeatherProvider \<Rightarrow> string" where
  "name WeatherKitProvider = ''Apple WeatherKit''"
| "name OpenWeatherMapProvider = ''OpenWeatherMap''"
| "name NwsProvider = ''NOAA/NWS''"
| "name TomorrowProvider = ''Tomorrow.io''"

datatype ProviderMode = ModeAuto | ModeWeatherkit | ModeOpenweathermap | ModeNws | ModeTomorrow

record WeatherKitConfig =
  teamId :: "string option"
  keyId :: "string option"
  privateKey :: "string option"

record ProviderConfig =
  mode :: "ProviderMode option"
  weatherkit :: "WeatherKitConfig option"
  openweathermap_apiKey :: "string option"
  tomorrow_apiKey :: "string option"
  nws_enabled :: "bool option"

record ResolvedLocation =
  lat :: real
  lon :: real
  source :: string

text \<open>Truthiness of an optional string: present and not empty.\<close>

fun truthy :: "string option \<Rightarrow> bool" where
  "truthy None = False"
| "truthy (Some s) = (s \<noteq> [])"

fun isSupported :: "ProviderConfig option \<Rightarrow> ResolvedLocation option \<Rightarrow> WeatherProvider \<Rightarrow> bool" where
  "isSupported cfg location WeatherKitProvider =
     (case cfg of None \<Rightarrow> False
      | Some c \<Rightarrow> (case weatherkit c of None \<Rightarrow> False
          | Some w \<Rightarrow> truthy (teamId w) \<and> truthy (keyId w) \<and> truthy (privateKey w)
                      \<and> location \<noteq> None))"
| "isSupported cfg location OpenWeatherMapProvider =
     (case cfg of None \<Rightarrow> False
      | Some c \<Rightarrow> truthy (openweathermap_apiKey c) \<and> location \<noteq> None)"
| "isSupported cfg location NwsProvider = (location \<noteq> None)"
| "isSupported cfg location TomorrowProvider =
     (case cfg of None \<Rightarrow> False
      | Some c \<Rightarrow> truthy (tomorrow_apiKey c) \<and> location \<noteq> None)"

record ProviderChainOptions =
  timeoutMs :: real
  cacheTtlSeconds :: real
  retryBackoffSeconds :: "real list"

definition DEFAULT_OPTIONS :: ProviderChainOptions where
  "DEFAULT_OPTIONS =
     \<lparr>timeoutMs = 5000, cacheTtlSeconds = 60, retryBackoffSeconds = [30, 60, 120, 300]\<rparr>"

text \<open>The closure variables of \<open>makeProviderChain\<close>. A cache entry is the pair of its
  \<open>data\<close> and its \<open>ts\<close>. \<open>nextAllowedTs\<close> is \<open>None\<close> when the code has stored \<open>NaN\<close> in it
  (an empty backoff schedule indexed at \<open>-1\<close>).\<close>

record ProviderChain =
  opts :: ProviderChainOptions
  providers :: "WeatherProvider list"
  nowcastCache :: "(WeatherNowcast \<times> real) option"
  forecastCache :: "real \<rightharpoonup> (WeatherForecastSlice list \<times> real)"
  backoffIndex :: int
  nextAllowedTs :: "real option"

text \<open>The providers \<open>makeProviderChain\<close> hands to \<open>addProvider\<close>, one per mode test of
  the constructor, in the order of the source. The chain's \<open>options\<close> are the merged
  \<open>opts\<close>; the provider constructors only store their arguments, so the \<open>catch\<close> of
  \<open>addProvider\<close> has no branch here.\<close>

definition candidates :: "ProviderConfig option \<Rightarrow> WeatherProvider list" where
  "candidates cfg =
     (let m = (case cfg of None \<Rightarrow> ModeAuto
               | Some c \<Rightarrow> (case mode c of None \<Rightarrow> ModeAuto | Some m \<Rightarrow> m));
          nwsOn = (case cfg of None \<Rightarrow> True
               | Some c \<Rightarrow> (case nws_enabled c of None \<Rightarrow> True | Some b \<Rightarrow> b))
      in (if m = ModeWeatherkit \<or> m = ModeAuto then [WeatherKitProvider] else [])
       @ (if m = ModeOpenweathermap \<or> m = ModeAuto then [OpenWeatherMapProvider] else [])
       @ (if (m = ModeNws \<or> m = ModeAuto) \<and> nwsOn then [NwsProvider] else [])
       @ (if m = ModeTomorrow \<or> m = ModeAuto then [TomorrowProvider] else []))"

definition makeProviderChain ::
  "ProviderConfig option \<Rightarrow> ResolvedLocation option \<Rightarrow> ProviderChainOptions
     \<Rightarrow> error + ProviderChain" where
  "makeProviderChain cfg location options =
     (let ps = filter (isSupported cfg location) (candidates cfg)
      in if ps = [] then Inl NoProvidersEnabled
         else Inr \<lparr>opts = options, providers = ps, nowcastCache = None,
                   forecastCache = Map.empty, backoffIndex = 0, nextAllowedTs = Some 0\<rparr>)"

text \<open>What a provider call has done by the time the chain's timer fires: resolved,
  rejected, or neither. \<open>withTimeout\<close> turns the last into the timeout error.\<close>

datatype 'a promise = Resolved 'a | Rejected error | Pending

fun withTimeout :: "'a promise \<Rightarrow> real \<Rightarrow> error + 'a" where
  "withTimeout (Resolved v) tmo = Inr v"
| "withTimeout (Rejected e) tmo = Inl e"
| "withTimeout Pending tmo = Inl (TimedOut tmo)"

text \<open>The loop of \<open>pickProvider\<close>: the result or the last error, and the providers
  called, in order.\<close>

fun pickLoop ::
  "real \<Rightarrow> (WeatherProvider \<Rightarrow> 'a promise) \<Rightarrow> WeatherProvider list \<Rightarrow> error option
     \<Rightarrow> (error option + 'a) \<times> WeatherProvider list" where
  "pickLoop tmo fn [] lastError = (Inl lastError, [])"
| "pickLoop tmo fn (p # ps) lastError =
     (case withTimeout (fn p) tmo of
        Inr result \<Rightarrow> (Inr result, [p])
      | Inl e \<Rightarrow> (case pickLoop tmo fn ps (Some e) of (r, called) \<Rightarrow> (r, p # called)))"

text \<open>\<open>retryBackoffSeconds[i]\<close>: \<open>undefined\<close> out of range.\<close>

definition scheduleAt :: "real list \<Rightarrow> int \<Rightarrow> real option" where
  "scheduleAt xs i = (if 0 \<le> i \<and> i < int (length xs) then Some (xs ! nat i) else None)"

text \<open>The backoff advance shared by \<open>pickProvider\<close> and \<open>markFailure\<close>; \<open>now\<close> is
  \<open>Date.now()\<close> at that moment.\<close>

definition advanceBackoff :: "ProviderChain \<Rightarrow> real \<Rightarrow> ProviderChain" where
  "advanceBackoff c now =
     (let idx = min (backoffIndex c + 1) (int (length (retryBackoffSeconds (opts c))) - 1)
      in c\<lparr>backoffIndex := idx,
            nextAllowedTs := (case scheduleAt (retryBackoffSeconds (opts c)) idx of
                                None \<Rightarrow> None
                              | Some s \<Rightarrow> Some (now + s * 1000))\<rparr>)"

definition pickProvider ::
  "ProviderChain \<Rightarrow> (WeatherProvider \<Rightarrow> 'a promise) \<Rightarrow> real
     \<Rightarrow> (error + 'a) \<times> ProviderChain \<times> WeatherProvider list" where
  "pickProvider c fn now =
     (case pickLoop (timeoutMs (opts c)) fn (providers c) None of
        (Inr result, called) \<Rightarrow>
          (Inr result, c\<lparr>backoffIndex := 0, nextAllowedTs := Some 0\<rparr>, called)
      | (Inl lastError, called) \<Rightarrow>
          (Inl (case lastError of Some e \<Rightarrow> e | None \<Rightarrow> AllProvidersFailed),
           advanceBackoff c now, called))"

definition isCacheValid :: "ProviderChainOptions \<Rightarrow> real \<Rightarrow> ('a \<times> real) option \<Rightarrow> bool" where
  "isCacheValid options now entry =
     (case entry of None \<Rightarrow> False
      | Some (d, t) \<Rightarrow> now - t < cacheTtlSeconds options * 1000)"

text \<open>\<open>nextAllowedTs && Date.now() < nextAllowedTs\<close>.\<close>

definition backoffActive :: "ProviderChain \<Rightarrow> real \<Rightarrow> bool" where
  "backoffActive c now =
     (case nextAllowedTs c of None \<Rightarrow> False | Some t \<Rightarrow> t \<noteq> 0 \<and> now < t)"

text \<open>\<open>Math.round\<close>: the nearest integer, a half rounded up.\<close>

definition Math_round :: "real \<Rightarrow> int" where
  "Math_round x = \<lfloor>x + 1 / 2\<rfloor>"

definition backoffError :: "ProviderChain \<Rightarrow> real \<Rightarrow> error" where
  "backoffError c now =
     (let wait = max 0 ((case nextAllowedTs c of None \<Rightarrow> 0 | Some t \<Rightarrow> t) - now)
      in BackoffInEffect (Math_round (wait / 1000)))"

text \<open>\<open>getNowcast(force)\<close>. \<open>now\<close> is \<open>Date.now()\<close> while the cache and the backoff window
  are tested, \<open>later\<close> is \<open>Date.now()\<close> once the providers have answered. The result is
  what the promise settles to, the chain afterwards, and the providers called. Where the
  source reads \<open>nowcastCache!.data\<close> after \<open>isCacheValid\<close>, the empty cache is a branch
  that \<open>isCacheValid\<close> excludes.\<close>

definition getNowcast ::
  "ProviderChain \<Rightarrow> bool \<Rightarrow> (WeatherProvider \<Rightarrow> WeatherNowcast promise) \<Rightarrow> real \<Rightarrow> real
     \<Rightarrow> (error + WeatherNowcast) \<times> ProviderChain \<times> WeatherProvider list" where
  "getNowcast c force fn now later =
     (if \<not> force \<and> isCacheValid (opts c) now (nowcastCache c)
      then (case nowcastCache c of Some (d, t) \<Rightarrow> (Inr d, c, [])
            | None \<Rightarrow> (Inl AllProvidersFailed, c, []))
      else if backoffActive c now
      then (case nowcastCache c of
              Some (d, t) \<Rightarrow>
                if isCacheValid (opts c) now (nowcastCache c) then (Inr d, c, [])
                else (Inl (backoffError c now), c, [])
            | None \<Rightarrow> (Inl (backoffError c now), c, []))
      else (case pickProvider c fn later of
              (Inr d, c', called) \<Rightarrow> (Inr d, c'\<lparr>nowcastCache := Some (d, later)\<rparr>, called)
            | (Inl e, c', called) \<Rightarrow> (Inl e, c', called)))"

definition roundLookahead :: "real \<Rightarrow> real" where
  "roundLookahead lookaheadMinutes = max 5 (of_int \<lceil>lookaheadMinutes / 5\<rceil> * 5)"

text \<open>\<open>getForecast(lookaheadMinutes, force)\<close>; the provider is asked for the rounded
  lookahead.\<close>

definition getForecast ::
  "ProviderChain \<Rightarrow> real \<Rightarrow> bool \<Rightarrow> (WeatherProvider \<Rightarrow> real \<Rightarrow> WeatherForecastSlice list promise)
     \<Rightarrow> real \<Rightarrow> real
     \<Rightarrow> (error + WeatherForecastSlice list) \<times> ProviderChain \<times> WeatherProvider list" where
  "getForecast c lookaheadMinutes force fn now later =
     (let rounded = roundLookahead lookaheadMinutes;
          cacheEntry = forecastCache c rounded
      in if \<not> force \<and> isCacheValid (opts c) now cacheEntry
         then (case cacheEntry of Some (d, t) \<Rightarrow> (Inr d, c, [])
               | None \<Rightarrow> (Inl AllProvidersFailed, c, []))
         else if backoffActive c now
         then (case cacheEntry of
                 Some (d, t) \<Rightarrow>
                   if isCacheValid (opts c) now cacheEntry then (Inr d, c, [])
                   else (Inl (backoffError c now), c, [])
               | None \<Rightarrow> (Inl (backoffError c now), c, []))
         else (case pickProvider c (\<lambda>p. fn p rounded) later of
                 (Inr d, c', called) \<Rightarrow>
                   (Inr d, c'\<lparr>forecastCache := (forecastCache c')(rounded \<mapsto> (d, later))\<rparr>, called)
               | (Inl e, c', called) \<Rightarrow> (Inl e, c', called)))"

fun join :: "string \<Rightarrow> string list \<Rightarrow> string" where
  "join sep [] = []"
| "join sep [x] = x"
| "join sep (x # y # ys) = x @ sep @ join sep (y # ys)"

definition describe :: "ProviderChain \<Rightarrow> string" where
  "describe c = join '' -> '' (map name (providers c))"

definition markFailure :: "ProviderChain \<Rightarrow> real \<Rightarrow> ProviderChain" where
  "markFailure c now = advanceBackoff c now"

section \<open>Provider adapters: the precipitation type\<close>

text \<open>\<open>toLowerCase\<close> and \<open>String.includes\<close> on strings of ASCII characters: the upper-case letters
  A to Z are lowered, every other character is kept.\<close>

definition toLowerChar :: "char \<Rightarrow> char" where
  "toLowerChar ch =
     (case map_of (zip ''ABCDEFGHIJKLMNOPQRSTUVWXYZ'' ''abcdefghijklmnopqrstuvwxyz'') ch of
        Some l \<Rightarrow> l
      | None \<Rightarrow> ch)"

definition toLowerCase :: "string \<Rightarrow> string" where
  "toLowerCase s = map toLowerChar s"

fun includesStr :: "string \<Rightarrow> string \<Rightarrow> bool" where
  "includesStr [] needle = (needle = [])"
| "includesStr (c # cs) needle = (prefix needle (c # cs) \<or> includesStr cs needle)"

text \<open>providers/nws.ts: an entry of a weather value, and \<open>determineWeatherType\<close> with its
  loop over the entries.\<close>

record NwsCondition =
  c_weather :: "string option"
  c_coverage :: "string option"

definition conditionText :: "NwsCondition \<Rightarrow> string" where
  "conditionText condition =
     toLowerCase (orElse (c_weather condition) (orElse (c_coverage condition) []))"

fun conditionsLoop :: "NwsCondition list \<Rightarrow> PrecipType" where
  "conditionsLoop [] = NoPrecip"
| "conditionsLoop (condition # rest) =
     (if includesStr (conditionText condition) ''snow'' then Snow
      else if includesStr (conditionText condition) ''rain''
              \<or> includesStr (conditionText condition) ''showers''
              \<or> includesStr (conditionText condition) ''rain showers'' then Rain
      else conditionsLoop rest)"

text \<open>An entry that names neither snow nor rain: the loop goes on to the next entry.\<close>

definition silent :: "NwsCondition \<Rightarrow> bool" where
  "silent condition =
     (\<not> includesStr (conditionText condition) ''snow''
      \<and> \<not> includesStr (conditionText condition) ''rain''
      \<and> \<not> includesStr (conditionText condition) ''showers''
      \<and> \<not> includesStr (conditionText condition) ''rain showers'')"

definition determineWeatherType :: "NwsCondition list option \<Rightarrow> PrecipType" where
  "determineWeatherType v =
     (case v of None \<Rightarrow> NoPrecip
      | Some conditions \<Rightarrow> if conditions = [] then NoPrecip else conditionsLoop conditions)"

text \<open>providers/openweathermap.ts: \<open>resolveType(weather, rain, snow)\<close>.\<close>

record OwmWeatherEntry =
  owm_main :: "string option"
  owm_description :: "string option"

definition resolveType ::
  "OwmWeatherEntry list option \<Rightarrow> real option \<Rightarrow> real option \<Rightarrow> PrecipType" where
  "resolveType weatherEntries rain snow =
     (if orElse snow 0 > 1 / 100 then Snow
      else if orElse rain 0 > 1 / 100 then Rain
      else (let txt = toLowerCase
                  (case weatherEntries of
                     Some (entry # rest) \<Rightarrow> orElse (owm_main entry) (orElse (owm_description entry) [])
                   | _ \<Rightarrow> [])
            in if includesStr txt ''snow'' then Snow
               else if includesStr txt ''rain'' \<or> includesStr txt ''drizzle'' \<or> includesStr txt ''shower''
               then Rain
               else NoPrecip))"

text \<open>providers/weatherkit.ts: \<open>resolvePrecipType(value)\<close>.\<close>

definition resolvePrecipType :: "string option \<Rightarrow> PrecipType" where
  "resolvePrecipType v =
     (case v of
        None \<Rightarrow> NoPrecip
      | Some s \<Rightarrow>
          if s = [] then NoPrecip
          else (let normalized = toLowerCase s
                in if includesStr normalized ''snow'' then Snow
                   else if includesStr normalized ''sleet'' \<or> includesStr normalized ''mix'' then Sleet
                   else if includesStr normalized ''rain'' \<or> includesStr normalized ''drizzle''
                           \<or> includesStr normalized ''showers'' then Rain
                   else NoPrecip))"

text \<open>providers/tomorrow.ts: \<open>mapPrecipitationType(value)\<close>, a numeric code.\<close>

definition mapPrecipitationType :: "real option \<Rightarrow> PrecipType" where
  "mapPrecipitationType v =
     (if v = Some 1 then Rain
      else if v = Some 2 then Snow
      else if v = Some 3 \<or> v = Some 4 then Sleet
      else NoPrecip)"

section \<open>util/geo.ts\<close>

datatype LocationMode = LocExplicit | LocAuto | LocGeocode

record LocationConfig =
  cfg_lat :: "number option"
  cfg_lon :: "number option"
  address :: "string option"
  loc_mode :: "LocationMode option"

record LocationCacheEntry =
  entry_lat :: real
  entry_lon :: real
  entry_source :: string
  entry_ts :: real

type_synonym LocationCache = "string \<rightharpoonup> LocationCacheEntry"

text \<open>What \<open>JSON.parse\<close> of the cache file gives, which \<open>loadCache\<close> returns unchecked: an
  object (its keys mapped to entries), \<open>null\<close>, a primitive (a number, a string or a
  boolean) or an array.\<close>

datatype cacheValue = CacheObject LocationCache | CacheNull | CachePrimitive | CacheArray

text \<open>\<open>cache[key]\<close> read: a \<open>TypeError\<close> on \<open>null\<close>, \<open>undefined\<close> on a primitive or an array
  (the keys used are \<open>explicit\<close>, \<open>auto\<close> and \<open>addr:...\<close>).\<close>

fun cacheGet :: "cacheValue \<Rightarrow> string \<Rightarrow> error + LocationCacheEntry option" where
  "cacheGet (CacheObject m) k = Inr (m k)"
| "cacheGet CacheNull k = Inl TypeError"
| "cacheGet CachePrimitive k = Inr None"
| "cacheGet CacheArray k = Inr None"

text \<open>\<open>cache[key] = entry\<close>: a \<open>TypeError\<close> on \<open>null\<close> and, the module being strict, on a
  primitive; on an array the property is set but \<open>JSON.stringify\<close> leaves it out.\<close>

fun cacheSet :: "cacheValue \<Rightarrow> string \<Rightarrow> LocationCacheEntry \<Rightarrow> error + cacheValue" where
  "cacheSet (CacheObject m) k e = Inr (CacheObject (m(k \<mapsto> e)))"
| "cacheSet CacheNull k e = Inl TypeError"
| "cacheSet CachePrimitive k e = Inl TypeError"
| "cacheSet CacheArray k e = Inr CacheArray"

text \<open>The two places the cache file can be, and what a read finds there: no file, a
  file that cannot be read or parsed, or a file holding a JSON value. \<open>writable\<close> tells
  whether \<open>mkdir\<close> and \<open>writeFile\<close> succeed.\<close>

datatype cachePath = LegacyCacheFile | StorageCacheFile string

datatype fileState = Missing | Unreadable | Holds cacheValue

record FileSystem =
  files :: "cachePath \<Rightarrow> fileState"
  writable :: bool

definition getCacheFile :: "string option \<Rightarrow> cachePath" where
  "getCacheFile storagePath =
     (if truthy storagePath then StorageCacheFile (the storagePath) else LegacyCacheFile)"

text \<open>\<open>saveCache\<close>: a failing write is ignored.\<close>

definition saveCache :: "FileSystem \<Rightarrow> string option \<Rightarrow> cacheValue \<Rightarrow> FileSystem" where
  "saveCache fs storagePath cache =
     (if writable fs then fs\<lparr>files := (files fs)(getCacheFile storagePath := Holds cache)\<rparr>
      else fs)"

text \<open>\<open>loadCache\<close>: the value read and the file system afterwards (a legacy file is
  copied to the storage path). A read or parse error gives the empty object.\<close>

definition loadCache :: "FileSystem \<Rightarrow> string option \<Rightarrow> cacheValue \<times> FileSystem" where
  "loadCache fs storagePath =
     (case files fs (getCacheFile storagePath) of
        Holds cache \<Rightarrow> (cache, fs)
      | Unreadable \<Rightarrow> (CacheObject Map.empty, fs)
      | Missing \<Rightarrow>
          if truthy storagePath
          then (case files fs LegacyCacheFile of
                  Holds legacyCache \<Rightarrow> (legacyCache, saveCache fs storagePath legacyCache)
                | Unreadable \<Rightarrow> (CacheObject Map.empty, fs)
                | Missing \<Rightarrow> (CacheObject Map.empty, fs))
          else (CacheObject Map.empty, fs))"

fun isFiniteCoordinate :: "number option \<Rightarrow> bool" where
  "isFiniteCoordinate (Some (Num v)) = True"
| "isFiniteCoordinate _ = False"

text \<open>The value of a number known to be finite.\<close>

fun numberValue :: "number \<Rightarrow> real" where
  "numberValue (Num v) = v"
| "numberValue _ = 0"

text \<open>The two services \<open>fetchJson\<close> is called on: the geocoder's answer for an address
  (each hit's \<open>lat\<close> and \<open>lon\<close> after \<open>parseFloat\<close>) and the IP lookup's answer. \<open>Inl\<close> is
  a thrown error.\<close>

record IpApiResponse =
  ip_latitude :: "number option"
  ip_longitude :: "number option"
  ip_lat :: "number option"
  ip_lon :: "number option"

record Network =
  geocode :: "string \<Rightarrow> error + (number \<times> number) list"
  ipapi :: "error + IpApiResponse"

datatype request = GeocodeRequest string | IpLookupRequest

definition entryLocation :: "LocationCacheEntry \<Rightarrow> ResolvedLocation" where
  "entryLocation e = \<lparr>lat = entry_lat e, lon = entry_lon e, source = entry_source e\<rparr>"

text \<open>The last step of \<open>resolveLocation\<close>: a cached \<open>explicit\<close> entry, or \<open>null\<close>. The
  result of every step is what the promise settles to (\<open>Inl\<close> a thrown error), the file
  system afterwards and the requests sent, in order.\<close>

definition explicitFallback ::
  "cacheValue \<Rightarrow> FileSystem \<Rightarrow> request list
     \<Rightarrow> (error + ResolvedLocation option) \<times> FileSystem \<times> request list" where
  "explicitFallback cache fs reqs =
     (case cacheGet cache ''explicit'' of
        Inl err \<Rightarrow> (Inl err, fs, reqs)
      | Inr (Some e) \<Rightarrow> (Inr (Some (entryLocation e)), fs, reqs)
      | Inr None \<Rightarrow> (Inr None, fs, reqs))"

text \<open>The IP lookup of the automatic step, reached when the \<open>auto\<close> entry is missing or
  older than 7 days. The assignment to the cache is inside the \<open>try\<close>: when it throws,
  the step falls through.\<close>

definition ipLookup ::
  "cacheValue \<Rightarrow> FileSystem \<Rightarrow> string option \<Rightarrow> Network \<Rightarrow> real \<Rightarrow> request list
     \<Rightarrow> (error + ResolvedLocation option) \<times> FileSystem \<times> request list" where
  "ipLookup cache fs storagePath net now reqs =
     (case ipapi net of
        Inl e \<Rightarrow> explicitFallback cache fs (reqs @ [IpLookupRequest])
      | Inr d \<Rightarrow>
          (let la = (case ip_latitude d of Some v \<Rightarrow> Some v | None \<Rightarrow> ip_lat d);
               lo = (case ip_longitude d of Some v \<Rightarrow> Some v | None \<Rightarrow> ip_lon d)
           in if isFiniteCoordinate la \<and> isFiniteCoordinate lo
              then (case cacheSet cache ''auto''
                           \<lparr>entry_lat = numberValue (the la), entry_lon = numberValue (the lo),
                            entry_source = ''ip'', entry_ts = now\<rparr> of
                      Inl err \<Rightarrow> explicitFallback cache fs (reqs @ [IpLookupRequest])
                    | Inr cache' \<Rightarrow>
                        (Inr (Some \<lparr>lat = numberValue (the la), lon = numberValue (the lo),
                                     source = ''ip''\<rparr>),
                         saveCache fs storagePath cache', reqs @ [IpLookupRequest]))
              else explicitFallback cache fs (reqs @ [IpLookupRequest])))"

text \<open>The step for \<open>mode === 'auto'\<close> or no configuration; the read of the \<open>auto\<close> entry
  is outside the \<open>try\<close>.\<close>

definition autoStep ::
  "LocationConfig option \<Rightarrow> cacheValue \<Rightarrow> FileSystem \<Rightarrow> string option \<Rightarrow> Network \<Rightarrow> real
     \<Rightarrow> request list \<Rightarrow> (error + ResolvedLocation option) \<times> FileSystem \<times> request list" where
  "autoStep cfg cache fs storagePath net now reqs =
     (if (case cfg of None \<Rightarrow> True | Some c \<Rightarrow> loc_mode c = Some LocAuto)
      then (case cacheGet cache ''auto'' of
              Inl err \<Rightarrow> (Inl err, fs, reqs)
            | Inr (Some e) \<Rightarrow>
                if now - entry_ts e < 7 * 24 * 60 * 60 * 1000
                then (Inr (Some (entryLocation e)), fs, reqs)
                else ipLookup cache fs storagePath net now reqs
            | Inr None \<Rightarrow> ipLookup cache fs storagePath net now reqs)
      else explicitFallback cache fs reqs)"

text \<open>The step for a configured address; the read of the address entry is outside the
  \<open>try\<close>, the assignment after a geocoder hit inside it.\<close>

definition addressStep ::
  "LocationConfig option \<Rightarrow> cacheValue \<Rightarrow> FileSystem \<Rightarrow> string option \<Rightarrow> Network \<Rightarrow> real
     \<Rightarrow> (error + ResolvedLocation option) \<times> FileSystem \<times> request list" where
  "addressStep cfg cache fs storagePath net now =
     (case cfg of
        None \<Rightarrow> autoStep cfg cache fs storagePath net now []
      | Some c \<Rightarrow>
          if \<not> truthy (address c) then autoStep cfg cache fs storagePath net now []
          else (let addr = the (address c); key = ''addr:'' @ toLowerCase addr
                in case cacheGet cache key of
                     Inl err \<Rightarrow> (Inl err, fs, [])
                   | Inr (Some e) \<Rightarrow> (Inr (Some (entryLocation e)), fs, [])
                   | Inr None \<Rightarrow>
                       (case geocode net addr of
                          Inl e \<Rightarrow> autoStep cfg cache fs storagePath net now [GeocodeRequest addr]
                        | Inr [] \<Rightarrow> autoStep cfg cache fs storagePath net now [GeocodeRequest addr]
                        | Inr ((la, lo) # rest) \<Rightarrow>
                            if isFinite la \<and> isFinite lo
                            then (case cacheSet cache key
                                         \<lparr>entry_lat = numberValue la, entry_lon = numberValue lo,
                                          entry_source = ''geocode'', entry_ts = now\<rparr> of
                                    Inl err \<Rightarrow>
                                      autoStep cfg cache fs storagePath net now [GeocodeRequest addr]
                                  | Inr cache' \<Rightarrow>
                                      (Inr (Some \<lparr>lat = numberValue la, lon = numberValue lo,
                                                   source = ''geocode''\<rparr>),
                                       saveCache fs storagePath cache', [GeocodeRequest addr]))
                            else autoStep cfg cache fs storagePath net now [GeocodeRequest addr])))"

text \<open>\<open>resolveLocation(log, cfg, storagePath, timeoutMs)\<close> on a file system and a network;
  \<open>now\<close> is \<open>Date.now()\<close>. The assignment of the \<open>explicit\<close> entry is outside any \<open>try\<close>.\<close>

definition resolveLocation ::
  "FileSystem \<Rightarrow> Network \<Rightarrow> LocationConfig option \<Rightarrow> string option \<Rightarrow> real
     \<Rightarrow> (error + ResolvedLocation option) \<times> FileSystem \<times> request list" where
  "resolveLocation fs net cfg storagePath now =
     (case loadCache fs storagePath of
        (cache, fs1) \<Rightarrow>
          (case cfg of
             None \<Rightarrow> addressStep cfg cache fs1 storagePath net now
           | Some c \<Rightarrow>
               if isFiniteCoordinate (cfg_lat c) \<and> isFiniteCoordinate (cfg_lon c)
               then (case cacheSet cache ''explicit''
                            \<lparr>entry_lat = numberValue (the (cfg_lat c)),
                             entry_lon = numberValue (the (cfg_lon c)),
                             entry_source = ''config'', entry_ts = now\<rparr> of
                       Inl err \<Rightarrow> (Inl err, fs1, [])
                     | Inr cache' \<Rightarrow>
                         (Inr (Some \<lparr>lat = numberValue (the (cfg_lat c)),
                                      lon = numberValue (the (cfg_lon c)), source = ''config''\<rparr>),
                          saveCache fs1 storagePath cache', []))
               else addressStep cfg cache fs1 storagePath net now))"

section \<open>platform.ts\<close>

record QuietHoursConfig =
  qh_start :: "string option"
  qh_end :: "string option"

text \<open>The parsed quiet schedule \<open>{start, end}\<close>, in minutes of the day.\<close>

record QuietSchedule =
  q_start :: nat
  q_end :: nat

definition isDigit :: "char \<Rightarrow> bool" where
  "isDigit ch = (48 \<le> (of_char ch :: nat) \<and> (of_char ch :: nat) \<le> 57)"

text \<open>\<open>String.prototype.trim\<close> on strings of code units below 256: the white space and
  line terminators there are the code units 9 to 13, 32 and 160 (the no-break space).\<close>

definition isSpace :: "char \<Rightarrow> bool" where
  "isSpace ch =
     ((of_char ch :: nat) = 32 \<or> (9 \<le> (of_char ch :: nat) \<and> (of_char ch :: nat) \<le> 13)
      \<or> (of_char ch :: nat) = 160)"

definition trim :: "string \<Rightarrow> string" where
  "trim s = rev (dropWhile isSpace (rev (dropWhile isSpace s)))"

text \<open>\<open>parseInt(digits, 10)\<close> on a string of decimal digits.\<close>

definition parseInt :: "string \<Rightarrow> nat" where
  "parseInt ds = foldl (\<lambda>n ch. 10 * n + ((of_char ch :: nat) - 48)) 0 ds"

text \<open>The regular expression \<open>/^(\d{1,2}):(\d{2})$/\<close>: the two groups of a match.\<close>

fun matchTime :: "string \<Rightarrow> (string \<times> string) option" where
  "matchTime [h1, c, m1, m2] =
     (if isDigit h1 \<and> c = CHR '':'' \<and> isDigit m1 \<and> isDigit m2
      then Some ([h1], [m1, m2]) else None)"
| "matchTime [h1, h2, c, m1, m2] =
     (if isDigit h1 \<and> isDigit h2 \<and> c = CHR '':'' \<and> isDigit m1 \<and> isDigit m2
      then Some ([h1, h2], [m1, m2]) else None)"
| "matchTime _ = None"

definition parseTimeString :: "string \<Rightarrow> nat option" where
  "parseTimeString v =
     (case matchTime (trim v) of
        None \<Rightarrow> None
      | Some (hs, ms) \<Rightarrow>
          (let hours = parseInt hs; minutes = parseInt ms
           in if hours \<ge> 24 \<or> minutes \<ge> 60 then None else Some (hours * 60 + minutes)))"

definition parseQuietHours :: "QuietHoursConfig option \<Rightarrow> QuietSchedule option" where
  "parseQuietHours quietHours =
     (case quietHours of
        None \<Rightarrow> None
      | Some q \<Rightarrow>
          if \<not> truthy (qh_start q) \<or> \<not> truthy (qh_end q) then None
          else (case (parseTimeString (the (qh_start q)), parseTimeString (the (qh_end q))) of
                  (Some s, Some e) \<Rightarrow> Some \<lparr>q_start = s, q_end = e\<rparr>
                | _ \<Rightarrow> None))"

text \<open>The fields of \<open>RainSwitchPlatform\<close> that its accessories read.\<close>

record RainSwitchPlatform =
  p_minOnMs :: number
  p_minOffMs :: number
  p_overrideMinutes :: "real option"
  quietSchedule :: "QuietSchedule option"

text \<open>\<open>isWithinQuietHours(now)\<close>; \<open>hours\<close> and \<open>mins\<close> are \<open>getHours()\<close> and \<open>getMinutes()\<close>
  of \<open>new Date(now)\<close>, the host's local wall-clock time.\<close>

definition isWithinQuietHours :: "RainSwitchPlatform \<Rightarrow> nat \<Rightarrow> nat \<Rightarrow> bool" where
  "isWithinQuietHours pf hours mins =
     (case quietSchedule pf of
        None \<Rightarrow> False
      | Some q \<Rightarrow>
          (let minutes = hours * 60 + mins
           in if q_start q \<le> q_end q then minutes \<ge> q_start q \<and> minutes < q_end q
              else minutes \<ge> q_start q \<or> minutes < q_end q))"

definition getHysteresisConfig :: "RainSwitchPlatform \<Rightarrow> HysteresisOptions" where
  "getHysteresisConfig pf = \<lparr>minOnMs = p_minOnMs pf, minOffMs = p_minOffMs pf\<rparr>"

section \<open>rainAccessory.ts\<close>

datatype AccessoryType = RainNow | RainSoon | SnowMode

record RainAccessoryConfig =
  atype :: AccessoryType
  thresholdMmPerHr :: "real option"
  lookaheadMinutes :: "real option"
  popThreshold :: "real option"
  intensityThresholdMmPerHr :: "real option"

record AccessoryMetadata =
  lastUpdate :: real
  md_providerName :: string
  md_precipMmHr :: real
  md_probability :: "real option"

record ForecastResult =
  triggeredSlice :: "WeatherForecastSlice option"
  shouldActivate :: bool

text \<open>The fields of a \<open>RainAccessory\<close>. \<open>characteristicOn\<close> and \<open>statusFault\<close> are the last
  values handed to the switch's \<open>On\<close> and \<open>StatusFault\<close> characteristics; log lines and the
  four diagnostic characteristics written by \<open>publishMetadata\<close> go to the host framework
  and are not part of this state.\<close>

record RainAccessory =
  platform :: RainSwitchPlatform
  config :: RainAccessoryConfig
  hysteresis :: HysteresisState
  overrideMinutes :: "real option"
  currentState :: bool
  overrideState :: "bool option"
  overrideUntil :: real
  faulted :: bool
  metadata :: AccessoryMetadata
  characteristicOn :: bool
  statusFault :: bool

definition DEFAULT_RAIN_THRESHOLD :: real where "DEFAULT_RAIN_THRESHOLD = 0.05"
definition DEFAULT_SNOW_THRESHOLD :: real where "DEFAULT_SNOW_THRESHOLD = 0.05"
definition DEFAULT_LOOKAHEAD_MINUTES :: real where "DEFAULT_LOOKAHEAD_MINUTES = 60"
definition DEFAULT_POP_THRESHOLD :: real where "DEFAULT_POP_THRESHOLD = 40"
definition DEFAULT_INTENSITY_THRESHOLD :: real where "DEFAULT_INTENSITY_THRESHOLD = 0.2"

definition newRainAccessory :: "RainSwitchPlatform \<Rightarrow> RainAccessoryConfig \<Rightarrow> RainAccessory" where
  "newRainAccessory pf cfg =
     \<lparr>platform = pf, config = cfg, hysteresis = makeHysteresis (getHysteresisConfig pf),
      overrideMinutes = p_overrideMinutes pf, currentState = False, overrideState = None,
      overrideUntil = 0, faulted = False,
      metadata = \<lparr>lastUpdate = 0, md_providerName = [], md_precipMmHr = 0,
                   md_probability = None\<rparr>,
      characteristicOn = False, statusFault = False\<rparr>"

definition isRain :: "WeatherNowcast \<Rightarrow> bool" where
  "isRain weather = (ptype weather = Rain \<or> ptype weather = Sleet)"

definition updateState :: "RainAccessory \<Rightarrow> bool \<Rightarrow> RainAccessory" where
  "updateState a st =
     (if currentState a = st then a\<lparr>characteristicOn := st\<rparr>
      else a\<lparr>currentState := st, characteristicOn := st\<rparr>)"

definition clearFault :: "RainAccessory \<Rightarrow> RainAccessory" where
  "clearFault a = a\<lparr>faulted := False, statusFault := False\<rparr>"

definition markFault :: "RainAccessory \<Rightarrow> RainAccessory" where
  "markFault a = a\<lparr>faulted := True, statusFault := True\<rparr>"

datatype ForecastTarget = TargetRain | TargetSnow

text \<open>The test the loop of \<open>evaluateForecast\<close> applies to a slice: none of its \<open>continue\<close>
  branches is taken.\<close>

definition sliceTriggers ::
  "ForecastTarget \<Rightarrow> real \<Rightarrow> real \<Rightarrow> real \<Rightarrow> WeatherForecastSlice \<Rightarrow> bool" where
  "sliceTriggers target lookahead popThr intensityThr slice =
     (\<not> (minutesFromNow slice < 0 \<or> minutesFromNow slice > lookahead)
      \<and> (if target = TargetRain then slice_type slice = Rain else slice_type slice = Snow)
      \<and> \<not> (orElse (slice_pop slice) 0 < popThr)
      \<and> \<not> (slice_precipMmHr slice < intensityThr))"

text \<open>\<open>evaluateForecast(target)\<close>; \<open>forecast\<close> is \<open>platform.getForecast\<close>, which can throw.\<close>

definition evaluateForecast ::
  "RainAccessory \<Rightarrow> (real \<Rightarrow> error + WeatherForecastSlice list) \<Rightarrow> ForecastTarget
     \<Rightarrow> error + ForecastResult" where
  "evaluateForecast a forecast target =
     (let lookahead = orElse (lookaheadMinutes (config a)) DEFAULT_LOOKAHEAD_MINUTES;
          popThr = orElse (popThreshold (config a)) DEFAULT_POP_THRESHOLD;
          intensityThr = orElse (intensityThresholdMmPerHr (config a)) DEFAULT_INTENSITY_THRESHOLD
      in case forecast lookahead of
           Inl e \<Rightarrow> Inl e
         | Inr slices \<Rightarrow>
             (case find (sliceTriggers target lookahead popThr intensityThr) slices of
                None \<Rightarrow> Inr \<lparr>triggeredSlice = None, shouldActivate = False\<rparr>
              | Some slice \<Rightarrow> Inr \<lparr>triggeredSlice = Some slice, shouldActivate = True\<rparr>))"

text \<open>The \<open>desired\<close> signal of \<open>evaluate\<close>, by accessory type.\<close>

definition desiredSignal ::
  "RainAccessory \<Rightarrow> (real \<Rightarrow> error + WeatherForecastSlice list) \<Rightarrow> WeatherNowcast
     \<Rightarrow> error + bool" where
  "desiredSignal a forecast weather =
     (case atype (config a) of
        RainNow \<Rightarrow>
          Inr (isRain weather
               \<and> precipMmHr weather \<ge> orElse (thresholdMmPerHr (config a)) DEFAULT_RAIN_THRESHOLD)
      | RainSoon \<Rightarrow>
          (case evaluateForecast a forecast TargetRain of
             Inl e \<Rightarrow> Inl e
           | Inr outcome \<Rightarrow> Inr (shouldActivate outcome))
      | SnowMode \<Rightarrow>
          (let threshold = orElse (thresholdMmPerHr (config a)) DEFAULT_SNOW_THRESHOLD;
               nowActive = (ptype weather = Snow \<and> precipMmHr weather \<ge> threshold)
           in case evaluateForecast a forecast TargetSnow of
                Inl e \<Rightarrow> Inl e
              | Inr outcome \<Rightarrow> Inr (nowActive \<or> shouldActivate outcome)))"

text \<open>The assignment to \<open>this.metadata\<close> at the head of \<open>evaluate\<close>.\<close>

definition stamp :: "RainAccessory \<Rightarrow> WeatherNowcast \<Rightarrow> real \<Rightarrow> RainAccessory" where
  "stamp a weather now =
     a\<lparr>metadata := \<lparr>lastUpdate = now, md_providerName = providerName weather,
                      md_precipMmHr = precipMmHr weather, md_probability = pop weather\<rparr>\<rparr>"

text \<open>\<open>evaluate(weather)\<close>, run with no other handler of the accessory in between.
  \<open>now\<close> is \<open>Date.now()\<close>, \<open>hours\<close> and \<open>mins\<close> its local wall-clock time. The result is
  \<open>Inl\<close> when the forecast call throws; the accessory returned is the state the call
  leaves behind either way. For a rain-now accessory the body has no \<open>await\<close>, so this is
  the only way it runs.\<close>

definition evaluate ::
  "RainAccessory \<Rightarrow> (real \<Rightarrow> error + WeatherForecastSlice list) \<Rightarrow> WeatherNowcast
     \<Rightarrow> real \<Rightarrow> nat \<Rightarrow> nat \<Rightarrow> (error + unit) \<times> RainAccessory" where
  "evaluate a forecast weather now hours mins =
     (let quiet = isWithinQuietHours (platform a) hours mins;
          a1 = stamp a weather now
      in if overrideUntil a1 \<noteq> 0 \<and> now < overrideUntil a1 \<and> overrideState a1 \<noteq> None
         then (Inr (), clearFault (updateState a1 (the (overrideState a1))))
         else
           (let a2 = (if overrideUntil a1 \<noteq> 0 \<and> now \<ge> overrideUntil a1
                      then a1\<lparr>overrideUntil := 0, overrideState := None,
                              hysteresis := gate_reset (hysteresis a1) (currentState a1)\<rparr>
                      else a1)
            in case desiredSignal a2 forecast weather of
                 Inl e \<Rightarrow> (Inl e, a2)
               | Inr desired \<Rightarrow>
                   if quiet then (Inr (), clearFault a2)
                   else (let h = gate_next (hysteresis a2) desired (Num now)
                         in (Inr (), clearFault (updateState (a2\<lparr>hysteresis := h\<rparr>) (state h))))))"

text \<open>The value a HomeKit controller writes to the \<open>On\<close> characteristic.\<close>

datatype CharacteristicValue = BoolValue bool | NumberValue real | OtherValue

text \<open>\<open>handleSetOn(value)\<close>; \<open>now\<close> is \<open>Date.now()\<close>.\<close>

definition handleSetOn :: "RainAccessory \<Rightarrow> CharacteristicValue \<Rightarrow> real \<Rightarrow> RainAccessory" where
  "handleSetOn a v now =
     (let desired = (v = BoolValue True \<or> v = NumberValue 1);
          a1 = a\<lparr>currentState := desired, characteristicOn := desired\<rparr>
      in case overrideMinutes a1 of
           None \<Rightarrow> a1\<lparr>hysteresis := gate_reset (hysteresis a1) desired\<rparr>
         | Some m \<Rightarrow>
             if m \<noteq> 0 \<and> m > 0
             then a1\<lparr>overrideState := Some desired, overrideUntil := now + m * 60000,
                     hysteresis := gate_reset (hysteresis a1) desired\<rparr>
             else a1\<lparr>hysteresis := gate_reset (hysteresis a1) desired\<rparr>)"

text \<open>The part of \<open>evaluate\<close> that runs once \<open>await this.evaluateForecast(...)\<close> has
  settled, on the accessory as it is then: \<open>quiet\<close>, \<open>now\<close> and \<open>weather\<close> are the locals
  taken before the \<open>await\<close>.\<close>

definition finishEvaluate ::
  "RainAccessory \<Rightarrow> (real \<Rightarrow> error + WeatherForecastSlice list) \<Rightarrow> WeatherNowcast
     \<Rightarrow> bool \<Rightarrow> real \<Rightarrow> (error + unit) \<times> RainAccessory" where
  "finishEvaluate a2 forecast weather quiet now =
     (case desiredSignal a2 forecast weather of
        Inl e \<Rightarrow> (Inl e, a2)
      | Inr desired \<Rightarrow>
          if quiet then (Inr (), clearFault a2)
          else (let h = gate_next (hysteresis a2) desired (Num now)
                in (Inr (), clearFault (updateState (a2\<lparr>hysteresis := h\<rparr>) (state h)))))"

text \<open>\<open>evaluate(weather)\<close> begun at \<open>now\<close> with \<open>handleSetOn(v)\<close> arriving at \<open>toggled\<close>. A
  rain-soon or snow-mode accessory that is not in an active override is waiting for its
  forecast then: the toggle runs on the accessory as \<open>evaluate\<close> left it at the \<open>await\<close>,
  and \<open>evaluate\<close> resumes on what the toggle leaves. Otherwise \<open>evaluate\<close> has returned
  before the toggle runs.\<close>

definition evaluateInterrupted ::
  "RainAccessory \<Rightarrow> (real \<Rightarrow> error + WeatherForecastSlice list) \<Rightarrow> WeatherNowcast
     \<Rightarrow> real \<Rightarrow> nat \<Rightarrow> nat \<Rightarrow> CharacteristicValue \<Rightarrow> real
     \<Rightarrow> (error + unit) \<times> RainAccessory" where
  "evaluateInterrupted a forecast weather now hours mins v toggled =
     (let quiet = isWithinQuietHours (platform a) hours mins;
          a1 = stamp a weather now
      in if (overrideUntil a1 \<noteq> 0 \<and> now < overrideUntil a1 \<and> overrideState a1 \<noteq> None)
            \<or> atype (config a) = RainNow
         then (fst (evaluate a forecast weather now hours mins),
               handleSetOn (snd (evaluate a forecast weather now hours mins)) v toggled)
         else
           (let a2 = (if overrideUntil a1 \<noteq> 0 \<and> now \<ge> overrideUntil a1
                      then a1\<lparr>overrideUntil := 0, overrideState := None,
                              hysteresis := gate_reset (hysteresis a1) (currentState a1)\<rparr>
                      else a1)
            in finishEvaluate (handleSetOn a2 v toggled) forecast weather quiet now))"

text \<open>Evaluations of one accessory in sequence, oldest first: each is the forecast
  source, the nowcast, the time and its wall-clock hours and minutes.\<close>

fun evaluations ::
  "RainAccessory
     \<Rightarrow> ((real \<Rightarrow> error + WeatherForecastSlice list) \<times> WeatherNowcast \<times> real \<times> nat \<times> nat) list
     \<Rightarrow> RainAccessory" where
  "evaluations a [] = a"
| "evaluations a ((forecast, weather, now, hours, mins) # es) =
     evaluations (snd (evaluate a forecast weather now hours mins)) es"

fun evalTime ::
  "((real \<Rightarrow> error + WeatherForecastSlice list) \<times> WeatherNowcast \<times> real \<times> nat \<times> nat) \<Rightarrow> real" where
  "evalTime (forecast, weather, now, hours, mins) = now"

section \<open>Properties of the hysteresis gate\<close>

lemma gate_next_minOn [simp]: "minOn (gate_next h d t) = minOn h"
  by (simp add: gate_next_def Let_def)

lemma gate_next_minOff [simp]: "minOff (gate_next h d t) = minOff h"
  by (simp add: gate_next_def Let_def)

lemma gate_calls_minOn [simp]: "minOn (gate_calls h cs) = minOn h"
  by (induction h cs rule: gate_calls.induct) simp_all

lemma gate_calls_minOff [simp]: "minOff (gate_calls h cs) = minOff h"
  by (induction h cs rule: gate_calls.induct) simp_all

lemma gate_next_lastFlip_cases:
  "lastFlip (gate_next h d t)
     = (if falsy (lastFlip h) \<or> state (gate_next h d t) \<noteq> state h then t else lastFlip h)"
  by (auto simp: gate_next_def Let_def)

lemma gate_next_lastFlip_truthy:
  "\<not> falsy t \<Longrightarrow> \<not> falsy (lastFlip (gate_next h d t))"
  by (auto simp: gate_next_def Let_def)

lemma gate_calls_snoc:
  "gate_calls h (cs @ [(d, t)]) = gate_next (gate_calls h cs) d t"
  by (induction h cs rule: gate_calls.induct) simp_all

lemma gate_calls_lastFlip_truthy:
  "cs \<noteq> [] \<Longrightarrow> \<forall>c \<in> set cs. \<not> falsy (snd c) \<Longrightarrow> \<not> falsy (lastFlip (gate_calls h cs))"
proof (induction cs arbitrary: h rule: rev_induct)
  case Nil
  then show ?case by simp
next
  case (snoc c cs)
  obtain d t where c: "c = (d, t)" by (cases c)
  with snoc.prems have "\<not> falsy t" by simp
  then show ?case
    unfolding c gate_calls_snoc by (rule gate_next_lastFlip_truthy)
qed

lemma gate_calls_lastFlip_from_trace:
  "lastFlip (gate_calls h cs) = lastFlip h \<or> lastFlip (gate_calls h cs) \<in> snd ` set cs"
proof (induction cs arbitrary: h rule: rev_induct)
  case Nil
  then show ?case by simp
next
  case (snoc c cs)
  obtain d t where c: "c = (d, t)" by (cases c)
  have "lastFlip (gate_next (gate_calls h cs) d t) = t
      \<or> lastFlip (gate_next (gate_calls h cs) d t) = lastFlip (gate_calls h cs)"
    by (simp add: gate_next_lastFlip_cases)
  with snoc.IH [of h] show ?case
    unfolding c gate_calls_snoc by force
qed

lemma gate_next_flip_needs_dwell:
  "\<not> falsy (lastFlip h) \<Longrightarrow> state (gate_next h d t) \<noteq> state h \<Longrightarrow>
     js_ge (js_sub t (lastFlip h)) (if state h then minOn h else minOff h)"
  by (auto simp: gate_next_def Let_def split: if_splits)

text \<open>
  Claim C1, as the code has it. A gate made by \<open>makeHysteresis\<close> adopts \<open>desired\<close> on its
  very first call whatever the dwell times and the timestamp are, and records that call's
  time as the flip time. After any sequence of calls, as long as the gate holds a recorded
  flip time (its flip clock is neither 0 nor \<open>NaN\<close>, which the gate cannot tell from "no
  flip recorded"), a call changes the stable state only if the time elapsed since the
  recorded flip is at least the dwell of the state being left: the clamped \<open>minOnMs\<close> when
  the gate is ON, the clamped \<open>minOffMs\<close> when it is OFF; for finite times this is the
  inequality of the reals. The flip clock is 0 or the timestamp of an earlier call, and a
  call sets it to its own timestamp exactly when the gate bootstraps or flips; so it is a
  recorded flip time whenever every call so far carried a timestamp other than 0 and
  \<open>NaN\<close>.
\<close>

theorem hysteresis_flip_needs_dwell:
  "state (gate_next (makeHysteresis options) d0 t0) = d0
 \<and> lastFlip (gate_next (makeHysteresis options) d0 t0) = t0
 \<and> (\<not> falsy (lastFlip (gate_calls (makeHysteresis options) pre))
      \<and> state (gate_next (gate_calls (makeHysteresis options) pre) d t)
          \<noteq> state (gate_calls (makeHysteresis options) pre) \<longrightarrow>
        js_ge (js_sub t (lastFlip (gate_calls (makeHysteresis options) pre)))
              (if state (gate_calls (makeHysteresis options) pre)
               then clamp (minOnMs options) else clamp (minOffMs options)))
 \<and> (lastFlip (gate_calls (makeHysteresis options) pre) = Num l \<and> l \<noteq> 0 \<and> t = Num tn
      \<and> state (gate_next (gate_calls (makeHysteresis options) pre) d t)
          \<noteq> state (gate_calls (makeHysteresis options) pre) \<longrightarrow>
        tn - l \<ge> (if state (gate_calls (makeHysteresis options) pre)
                   then clamp (minOnMs options) else clamp (minOffMs options)))
 \<and> lastFlip (gate_next (gate_calls (makeHysteresis options) pre) d t)
      = (if falsy (lastFlip (gate_calls (makeHysteresis options) pre))
            \<or> state (gate_next (gate_calls (makeHysteresis options) pre) d t)
                \<noteq> state (gate_calls (makeHysteresis options) pre)
         then t else lastFlip (gate_calls (makeHysteresis options) pre))
 \<and> (lastFlip (gate_calls (makeHysteresis options) pre) = Num 0
      \<or> lastFlip (gate_calls (makeHysteresis options) pre) \<in> snd ` set pre)
 \<and> (pre \<noteq> [] \<and> (\<forall>c \<in> set pre. \<not> falsy (snd c)) \<longrightarrow>
        \<not> falsy (lastFlip (gate_calls (makeHysteresis options) pre)))"
proof -
  let ?fresh = "makeHysteresis options"
  let ?g = "gate_calls ?fresh pre"
  have boot: "state (gate_next ?fresh d0 t0) = d0" "lastFlip (gate_next ?fresh d0 t0) = t0"
    by (simp_all add: gate_next_def makeHysteresis_def)
  have mins: "minOn ?g = clamp (minOnMs options)" "minOff ?g = clamp (minOffMs options)"
    by (simp_all add: makeHysteresis_def)
  have dwell: "\<not> falsy (lastFlip ?g) \<and> state (gate_next ?g d t) \<noteq> state ?g \<longrightarrow>
      js_ge (js_sub t (lastFlip ?g))
            (if state ?g then clamp (minOnMs options) else clamp (minOffMs options))"
    using gate_next_flip_needs_dwell [of ?g d t] mins by auto
  have finite: "lastFlip ?g = Num l \<and> l \<noteq> 0 \<and> t = Num tn
      \<and> state (gate_next ?g d t) \<noteq> state ?g \<longrightarrow>
        tn - l \<ge> (if state ?g then clamp (minOnMs options) else clamp (minOffMs options))"
  proof
    assume h: "lastFlip ?g = Num l \<and> l \<noteq> 0 \<and> t = Num tn
      \<and> state (gate_next ?g d t) \<noteq> state ?g"
    then have "\<not> falsy (lastFlip ?g)" by simp
    with dwell h have "js_ge (js_sub t (lastFlip ?g))
            (if state ?g then clamp (minOnMs options) else clamp (minOffMs options))"
      by blast
    with h show "tn - l \<ge> (if state ?g then clamp (minOnMs options) else clamp (minOffMs options))"
      by simp
  qed
  have clock: "lastFlip (gate_next ?g d t)
      = (if falsy (lastFlip ?g) \<or> state (gate_next ?g d t) \<noteq> state ?g
         then t else lastFlip ?g)"
    by (rule gate_next_lastFlip_cases)
  have trace: "lastFlip ?g = Num 0 \<or> lastFlip ?g \<in> snd ` set pre"
    using gate_calls_lastFlip_from_trace [of ?fresh pre] by (simp add: makeHysteresis_def)
  have recorded: "pre \<noteq> [] \<and> (\<forall>c \<in> set pre. \<not> falsy (snd c)) \<longrightarrow> \<not> falsy (lastFlip ?g)"
    using gate_calls_lastFlip_truthy [of pre ?fresh] by blast
  from boot dwell finite clock trace recorded show ?thesis by (intro conjI)
qed

theorem hysteresis_flip_needs_dwell_witness:
  "\<not> falsy (lastFlip (gate_calls (makeHysteresis \<lparr>minOnMs = Num 1000, minOffMs = Num 2000\<rparr>)
            [(True, Num 100), (True, Num 0), (False, Num 600)]))
   \<and> lastFlip (gate_calls (makeHysteresis \<lparr>minOnMs = Num 1000, minOffMs = Num 2000\<rparr>)
            [(True, Num 100), (True, Num 0), (False, Num 600)]) = Num 100
   \<and> state (gate_calls (makeHysteresis \<lparr>minOnMs = Num 1000, minOffMs = Num 2000\<rparr>)
            [(True, Num 100), (True, Num 0), (False, Num 600)]) = True
   \<and> state (gate_next (gate_calls (makeHysteresis \<lparr>minOnMs = Num 1000, minOffMs = Num 2000\<rparr>)
            [(True, Num 100), (True, Num 0), (False, Num 600)]) False (Num 1100)) = False
   \<and> (1100::real) - 100 \<ge> clamp (Num 1000)"
proof -
  let ?o = "\<lparr>minOnMs = Num 1000, minOffMs = Num 2000\<rparr>"
  let ?pre = "[(True, Num 100), (True, Num 0), (False, Num 600)]"
  let ?g = "gate_calls (makeHysteresis ?o) ?pre"
  have g: "?g = \<lparr>minOn = 1000, minOff = 2000, state = True, lastFlip = Num 100\<rparr>"
    by (simp add: gate_next_def makeHysteresis_def Let_def)
  have flips: "state (gate_next ?g False (Num 1100)) = False"
    unfolding g by (simp add: gate_next_def Let_def)
  have h: "lastFlip ?g = Num 100 \<and> (100::real) \<noteq> 0 \<and> Num 1100 = Num 1100
      \<and> state (gate_next ?g False (Num 1100)) \<noteq> state ?g"
    using flips unfolding g by simp
  note T = hysteresis_flip_needs_dwell
             [where options = ?o and pre = ?pre and d = False and t = "Num 1100"
                and l = 100 and tn = 1100 and ?d0.0 = True and ?t0.0 = "Num 100"]
  from T have "lastFlip ?g = Num 100 \<and> (100::real) \<noteq> 0 \<and> Num 1100 = Num 1100
      \<and> state (gate_next ?g False (Num 1100)) \<noteq> state ?g \<longrightarrow>
        (1100::real) - 100 \<ge> (if state ?g then clamp (minOnMs ?o) else clamp (minOffMs ?o))"
    by blast
  from this [THEN mp, OF h] have e: "(1100::real) - 100 \<ge> clamp (Num 1000)"
    unfolding g by simp
  have a: "\<not> falsy (lastFlip ?g)" "lastFlip ?g = Num 100" "state ?g = True"
    unfolding g by simp_all
  from a flips e show ?thesis by (intro conjI)
qed

text \<open>
  The claim as worded, for every sequence of calls, fails when a call carries the
  timestamp 0 or \<open>NaN\<close>: the first call records it as the flip time, the second call is
  taken for a first call again and flips after 5 ms although the ON dwell is 1000 ms.
\<close>

theorem hysteresis_zero_timestamp_counterexample:
  "\<not> (state (gate_next (gate_calls (makeHysteresis \<lparr>minOnMs = Num 1000, minOffMs = Num 1000\<rparr>)
                 [(True, Num 0)]) False (Num 5))
          \<noteq> state (gate_calls (makeHysteresis \<lparr>minOnMs = Num 1000, minOffMs = Num 1000\<rparr>)
                 [(True, Num 0)])
        \<longrightarrow> js_ge (js_sub (Num 5)
                 (lastFlip (gate_calls (makeHysteresis \<lparr>minOnMs = Num 1000, minOffMs = Num 1000\<rparr>)
                    [(True, Num 0)])))
              (if state (gate_calls (makeHysteresis \<lparr>minOnMs = Num 1000, minOffMs = Num 1000\<rparr>)
                 [(True, Num 0)]) then clamp (Num 1000) else clamp (Num 1000)))
   \<and> \<not> (state (gate_next (gate_calls (makeHysteresis \<lparr>minOnMs = Num 1000, minOffMs = Num 1000\<rparr>)
                 [(True, NaN)]) False (Num 5))
          \<noteq> state (gate_calls (makeHysteresis \<lparr>minOnMs = Num 1000, minOffMs = Num 1000\<rparr>)
                 [(True, NaN)])
        \<longrightarrow> js_ge (js_sub (Num 5)
                 (lastFlip (gate_calls (makeHysteresis \<lparr>minOnMs = Num 1000, minOffMs = Num 1000\<rparr>)
                    [(True, NaN)])))
              (if state (gate_calls (makeHysteresis \<lparr>minOnMs = Num 1000, minOffMs = Num 1000\<rparr>)
                 [(True, NaN)]) then clamp (Num 1000) else clamp (Num 1000)))"
  by (simp add: gate_next_def makeHysteresis_def Let_def)

section \<open>Properties of the provider chain\<close>

lemma pickLoop_all_fail:
  "\<forall>p \<in> set ps. \<exists>e. withTimeout (fn p) tmo = Inl e \<Longrightarrow>
     pickLoop tmo fn ps lastError
       = (Inl (if ps = [] then lastError
               else (case withTimeout (fn (last ps)) tmo of Inl e \<Rightarrow> Some e | Inr r \<Rightarrow> None)), ps)"
proof (induction ps arbitrary: lastError)
  case Nil
  then show ?case by simp
next
  case (Cons p ps)
  then obtain e where e: "withTimeout (fn p) tmo = Inl e" by auto
  from Cons.prems have "\<forall>q \<in> set ps. \<exists>e. withTimeout (fn q) tmo = Inl e" by simp
  from Cons.IH [OF this, of "Some e"] show ?case
    using e by simp
qed

lemma pickLoop_first_success:
  "\<forall>p \<in> set pre. \<exists>e. withTimeout (fn p) tmo = Inl e \<Longrightarrow>
   withTimeout (fn q) tmo = Inr r \<Longrightarrow>
     pickLoop tmo fn (pre @ q # post) lastError = (Inr r, pre @ [q])"
proof (induction pre arbitrary: lastError)
  case Nil
  then show ?case by simp
next
  case (Cons p pre)
  then obtain e where e: "withTimeout (fn p) tmo = Inl e" by auto
  from Cons.prems have "\<forall>x \<in> set pre. \<exists>e. withTimeout (fn x) tmo = Inl e" by simp
  from Cons.IH [OF this Cons.prems(2), of "Some e"] show ?case
    using e by simp
qed

lemma pickLoop_cases:
  "(\<exists>r pre q post. ps = pre @ q # post \<and> (\<forall>p \<in> set pre. \<exists>e. withTimeout (fn p) tmo = Inl e)
       \<and> withTimeout (fn q) tmo = Inr r \<and> pickLoop tmo fn ps lastError = (Inr r, pre @ [q]))
   \<or> ((\<forall>p \<in> set ps. \<exists>e. withTimeout (fn p) tmo = Inl e) \<and> (\<exists>le. pickLoop tmo fn ps lastError = (Inl le, ps)))"
proof (induction ps arbitrary: lastError)
  case Nil
  then show ?case by simp
next
  case (Cons p ps)
  show ?case
  proof (cases "withTimeout (fn p) tmo")
    case (Inr r)
    then have "p # ps = [] @ p # ps \<and> (\<forall>x \<in> set []. \<exists>e. withTimeout (fn x) tmo = Inl e)
       \<and> withTimeout (fn p) tmo = Inr r \<and> pickLoop tmo fn (p # ps) lastError = (Inr r, [] @ [p])"
      by simp
    then show ?thesis by blast
  next
    case (Inl e)
    from Cons.IH [of "Some e"] show ?thesis
    proof
      assume "\<exists>r pre q post. ps = pre @ q # post \<and> (\<forall>p \<in> set pre. \<exists>e. withTimeout (fn p) tmo = Inl e)
       \<and> withTimeout (fn q) tmo = Inr r \<and> pickLoop tmo fn ps (Some e) = (Inr r, pre @ [q])"
      then obtain r pre q post where h: "ps = pre @ q # post"
        "\<forall>p \<in> set pre. \<exists>e. withTimeout (fn p) tmo = Inl e"
        "withTimeout (fn q) tmo = Inr r" "pickLoop tmo fn ps (Some e) = (Inr r, pre @ [q])" by blast
      have "p # ps = (p # pre) @ q # post \<and> (\<forall>x \<in> set (p # pre). \<exists>e. withTimeout (fn x) tmo = Inl e)
       \<and> withTimeout (fn q) tmo = Inr r \<and> pickLoop tmo fn (p # ps) lastError = (Inr r, (p # pre) @ [q])"
        using h Inl by simp
      then show ?thesis by blast
    next
      assume "(\<forall>p \<in> set ps. \<exists>e. withTimeout (fn p) tmo = Inl e) \<and> (\<exists>le. pickLoop tmo fn ps (Some e) = (Inl le, ps))"
      then show ?thesis using Inl by auto
    qed
  qed
qed

lemma pickLoop_some_success:
  assumes "\<exists>p \<in> set ps. \<not> isl (withTimeout (fn p) tmo)"
  shows "\<exists>r called. pickLoop tmo fn ps lastError = (Inr r, called) \<and> called \<noteq> []"
proof -
  from pickLoop_cases [of ps fn tmo lastError] show ?thesis
  proof
    assume "\<exists>r pre q post. ps = pre @ q # post \<and> (\<forall>p \<in> set pre. \<exists>e. withTimeout (fn p) tmo = Inl e)
       \<and> withTimeout (fn q) tmo = Inr r \<and> pickLoop tmo fn ps lastError = (Inr r, pre @ [q])"
    then show ?thesis by auto
  next
    assume "(\<forall>p \<in> set ps. \<exists>e. withTimeout (fn p) tmo = Inl e) \<and> (\<exists>le. pickLoop tmo fn ps lastError = (Inl le, ps))"
    with assms show ?thesis by auto
  qed
qed

lemma all_fail_iff: "(\<forall>p \<in> set ps. isl (withTimeout (fn p) tmo)) \<Longrightarrow> \<forall>p \<in> set ps. \<exists>e. withTimeout (fn p) tmo = Inl e"
  by (auto simp: isl_def)

lemma pickProvider_exhausted:
  assumes "providers c \<noteq> []"
    and "\<forall>p \<in> set (providers c). isl (withTimeout (fn p) (timeoutMs (opts c)))"
    and "withTimeout (fn (last (providers c))) (timeoutMs (opts c)) = Inl e"
  shows "pickProvider c fn now = (Inl e, advanceBackoff c now, providers c)"
  using pickLoop_all_fail [OF all_fail_iff [OF assms(2)], of None] assms(1,3)
  by (simp add: pickProvider_def)

lemma pickProvider_first_success:
  assumes "providers c = pre @ q # post"
    and "\<forall>p \<in> set pre. isl (withTimeout (fn p) (timeoutMs (opts c)))"
    and "withTimeout (fn q) (timeoutMs (opts c)) = Inr r"
  shows "pickProvider c fn now = (Inr r, c\<lparr>backoffIndex := 0, nextAllowedTs := Some 0\<rparr>, pre @ [q])"
  using pickLoop_first_success [OF all_fail_iff [OF assms(2)] assms(3), of post None] assms(1)
  by (simp add: pickProvider_def)

lemma pickProvider_some_success:
  assumes "\<exists>p \<in> set (providers c). \<not> isl (withTimeout (fn p) (timeoutMs (opts c)))"
  shows "\<exists>r called. pickProvider c fn now = (Inr r, c\<lparr>backoffIndex := 0, nextAllowedTs := Some 0\<rparr>, called) \<and> called \<noteq> []"
proof -
  from pickLoop_some_success [OF assms, of None] obtain r called
    where "pickLoop (timeoutMs (opts c)) fn (providers c) None = (Inr r, called)" "called \<noteq> []"
    by blast
  then show ?thesis by (simp add: pickProvider_def)
qed

lemma advanceBackoff_saturates:
  assumes "retryBackoffSeconds (opts c) \<noteq> []" and "0 \<le> backoffIndex c"
  shows "advanceBackoff c now =
     c\<lparr>backoffIndex := min (backoffIndex c + 1) (int (length (retryBackoffSeconds (opts c))) - 1),
       nextAllowedTs := Some (now + retryBackoffSeconds (opts c)
          ! nat (min (backoffIndex c + 1) (int (length (retryBackoffSeconds (opts c))) - 1)) * 1000)\<rparr>"
proof -
  have "0 < length (retryBackoffSeconds (opts c))" using assms(1) by simp
  then show ?thesis using assms(2)
    by (simp add: advanceBackoff_def scheduleAt_def Let_def min_def)
qed

lemma backoffActive_window:
  "nextAllowedTs c = Some t \<Longrightarrow> 0 \<le> now \<Longrightarrow> now < t \<Longrightarrow> backoffActive c now"
  by (simp add: backoffActive_def)

lemma backoffError_window:
  "nextAllowedTs c = Some t \<Longrightarrow> now < t \<Longrightarrow>
     backoffError c now = BackoffInEffect (Math_round ((t - now) / 1000))"
  by (simp add: backoffError_def Let_def max_def)

lemma getNowcast_backoff:
  assumes "backoffActive c now" and "\<not> isCacheValid (opts c) now (nowcastCache c)"
  shows "getNowcast c force fn now later = (Inl (backoffError c now), c, [])"
  using assms by (cases "nowcastCache c") (auto simp: getNowcast_def)

lemma getForecast_backoff:
  assumes "backoffActive c now"
    and "\<not> isCacheValid (opts c) now (forecastCache c (roundLookahead l))"
  shows "getForecast c l force fn now later = (Inl (backoffError c now), c, [])"
  using assms by (cases "forecastCache c (roundLookahead l)") (auto simp: getForecast_def Let_def)

lemma getNowcast_attempt:
  assumes "force \<or> \<not> isCacheValid (opts c) now (nowcastCache c)" and "\<not> backoffActive c now"
  shows "getNowcast c force fn now later =
     (case pickProvider c fn later of
        (Inr d, c', called) \<Rightarrow> (Inr d, c'\<lparr>nowcastCache := Some (d, later)\<rparr>, called)
      | (Inl e, c', called) \<Rightarrow> (Inl e, c', called))"
  using assms by (auto simp: getNowcast_def)

lemma getForecast_attempt:
  assumes "force \<or> \<not> isCacheValid (opts c) now (forecastCache c (roundLookahead l))"
    and "\<not> backoffActive c now"
  shows "getForecast c l force fn now later =
     (case pickProvider c (\<lambda>p. fn p (roundLookahead l)) later of
        (Inr d, c', called) \<Rightarrow>
           (Inr d, c'\<lparr>forecastCache := (forecastCache c')(roundLookahead l \<mapsto> (d, later))\<rparr>, called)
      | (Inl e, c', called) \<Rightarrow> (Inl e, c', called))"
  using assms by (auto simp: getForecast_def Let_def)

text \<open>
  Claim C2. While the shared backoff window is active (\<open>now\<close> before the next-allowed
  timestamp) and the cache holds no valid entry, \<open>getNowcast\<close> and \<open>getForecast\<close> fail with
  the backoff error, which carries the remaining wait in rounded seconds, call no provider
  and leave the chain as it is. When a call reaches the providers and every one fails, the
  backoff index goes up by one but not beyond the last index of the schedule, the
  next-allowed timestamp becomes the time of the failure plus the schedule's entry at the
  new index (seconds, stored as milliseconds), every provider has been called, and the
  caller gets the error of the last provider. When a call reaches the providers and one of
  them succeeds, the call succeeds, the index is 0 again and the window is cleared.
\<close>

theorem chain_backoff_window_and_exhaustion:
  "(nextAllowedTs c = Some t \<and> 0 \<le> now \<and> now < t \<longrightarrow>
      (\<not> isCacheValid (opts c) now (nowcastCache c) \<longrightarrow>
         getNowcast c force nfn now later
           = (Inl (BackoffInEffect (Math_round ((t - now) / 1000))), c, []))
    \<and> (\<not> isCacheValid (opts c) now (forecastCache c (roundLookahead l)) \<longrightarrow>
         getForecast c l force ffn now later
           = (Inl (BackoffInEffect (Math_round ((t - now) / 1000))), c, [])))
 \<and> (providers c \<noteq> [] \<and> retryBackoffSeconds (opts c) \<noteq> [] \<and> 0 \<le> backoffIndex c
      \<and> \<not> backoffActive c now \<longrightarrow>
      ((force \<or> \<not> isCacheValid (opts c) now (nowcastCache c))
        \<and> (\<forall>p \<in> set (providers c). isl (withTimeout (nfn p) (timeoutMs (opts c))))
        \<and> withTimeout (nfn (last (providers c))) (timeoutMs (opts c)) = Inl e \<longrightarrow>
         getNowcast c force nfn now later
           = (Inl e,
              c\<lparr>backoffIndex :=
                   min (backoffIndex c + 1) (int (length (retryBackoffSeconds (opts c))) - 1),
                nextAllowedTs := Some (later + retryBackoffSeconds (opts c)
                   ! nat (min (backoffIndex c + 1)
                            (int (length (retryBackoffSeconds (opts c))) - 1)) * 1000)\<rparr>,
              providers c))
    \<and> ((force \<or> \<not> isCacheValid (opts c) now (forecastCache c (roundLookahead l)))
        \<and> (\<forall>p \<in> set (providers c).
              isl (withTimeout (ffn p (roundLookahead l)) (timeoutMs (opts c))))
        \<and> withTimeout (ffn (last (providers c)) (roundLookahead l)) (timeoutMs (opts c)) = Inl e' \<longrightarrow>
         getForecast c l force ffn now later
           = (Inl e',
              c\<lparr>backoffIndex :=
                   min (backoffIndex c + 1) (int (length (retryBackoffSeconds (opts c))) - 1),
                nextAllowedTs := Some (later + retryBackoffSeconds (opts c)
                   ! nat (min (backoffIndex c + 1)
                            (int (length (retryBackoffSeconds (opts c))) - 1)) * 1000)\<rparr>,
              providers c)))
 \<and> (\<not> backoffActive c now \<longrightarrow>
      ((force \<or> \<not> isCacheValid (opts c) now (nowcastCache c))
        \<and> (\<exists>p \<in> set (providers c). \<not> isl (withTimeout (nfn p) (timeoutMs (opts c)))) \<longrightarrow>
         \<not> isl (fst (getNowcast c force nfn now later))
         \<and> backoffIndex (fst (snd (getNowcast c force nfn now later))) = 0
         \<and> nextAllowedTs (fst (snd (getNowcast c force nfn now later))) = Some 0)
    \<and> ((force \<or> \<not> isCacheValid (opts c) now (forecastCache c (roundLookahead l)))
        \<and> (\<exists>p \<in> set (providers c).
              \<not> isl (withTimeout (ffn p (roundLookahead l)) (timeoutMs (opts c)))) \<longrightarrow>
         \<not> isl (fst (getForecast c l force ffn now later))
         \<and> backoffIndex (fst (snd (getForecast c l force ffn now later))) = 0
         \<and> nextAllowedTs (fst (snd (getForecast c l force ffn now later))) = Some 0))"
proof (intro conjI impI)
  assume w: "nextAllowedTs c = Some t \<and> 0 \<le> now \<and> now < t"
  then have act: "backoffActive c now" by (simp add: backoffActive_window)
  from w have err: "backoffError c now = BackoffInEffect (Math_round ((t - now) / 1000))"
    by (simp add: backoffError_window)
  {
    assume "\<not> isCacheValid (opts c) now (nowcastCache c)"
    from getNowcast_backoff [OF act this] err
    show "getNowcast c force nfn now later
           = (Inl (BackoffInEffect (Math_round ((t - now) / 1000))), c, [])" by simp
  }
  {
    assume "\<not> isCacheValid (opts c) now (forecastCache c (roundLookahead l))"
    from getForecast_backoff [OF act this] err
    show "getForecast c l force ffn now later
           = (Inl (BackoffInEffect (Math_round ((t - now) / 1000))), c, [])" by simp
  }
next
  assume inv: "providers c \<noteq> [] \<and> retryBackoffSeconds (opts c) \<noteq> [] \<and> 0 \<le> backoffIndex c
      \<and> \<not> backoffActive c now"
  then have adv: "advanceBackoff c later =
     c\<lparr>backoffIndex := min (backoffIndex c + 1) (int (length (retryBackoffSeconds (opts c))) - 1),
       nextAllowedTs := Some (later + retryBackoffSeconds (opts c)
          ! nat (min (backoffIndex c + 1) (int (length (retryBackoffSeconds (opts c))) - 1)) * 1000)\<rparr>"
    by (simp add: advanceBackoff_saturates)
  {
    assume h: "(force \<or> \<not> isCacheValid (opts c) now (nowcastCache c))
        \<and> (\<forall>p \<in> set (providers c). isl (withTimeout (nfn p) (timeoutMs (opts c))))
        \<and> withTimeout (nfn (last (providers c))) (timeoutMs (opts c)) = Inl e"
    then have "pickProvider c nfn later = (Inl e, advanceBackoff c later, providers c)"
      using inv by (simp add: pickProvider_exhausted)
    moreover have "getNowcast c force nfn now later =
     (case pickProvider c nfn later of
        (Inr d, c', called) \<Rightarrow> (Inr d, c'\<lparr>nowcastCache := Some (d, later)\<rparr>, called)
      | (Inl e, c', called) \<Rightarrow> (Inl e, c', called))"
      using h inv by (simp add: getNowcast_attempt)
    ultimately show "getNowcast c force nfn now later
           = (Inl e,
              c\<lparr>backoffIndex :=
                   min (backoffIndex c + 1) (int (length (retryBackoffSeconds (opts c))) - 1),
                nextAllowedTs := Some (later + retryBackoffSeconds (opts c)
                   ! nat (min (backoffIndex c + 1)
                            (int (length (retryBackoffSeconds (opts c))) - 1)) * 1000)\<rparr>,
              providers c)"
      using adv by simp
  }
  {
    assume h: "(force \<or> \<not> isCacheValid (opts c) now (forecastCache c (roundLookahead l)))
        \<and> (\<forall>p \<in> set (providers c).
              isl (withTimeout (ffn p (roundLookahead l)) (timeoutMs (opts c))))
        \<and> withTimeout (ffn (last (providers c)) (roundLookahead l)) (timeoutMs (opts c)) = Inl e'"
    then have "pickProvider c (\<lambda>p. ffn p (roundLookahead l)) later
                 = (Inl e', advanceBackoff c later, providers c)"
      using inv by (simp add: pickProvider_exhausted)
    moreover have "getForecast c l force ffn now later =
     (case pickProvider c (\<lambda>p. ffn p (roundLookahead l)) later of
        (Inr d, c', called) \<Rightarrow>
           (Inr d, c'\<lparr>forecastCache := (forecastCache c')(roundLookahead l \<mapsto> (d, later))\<rparr>, called)
      | (Inl e, c', called) \<Rightarrow> (Inl e, c', called))"
      using h inv by (simp add: getForecast_attempt)
    ultimately show "getForecast c l force ffn now later
           = (Inl e',
              c\<lparr>backoffIndex :=
                   min (backoffIndex c + 1) (int (length (retryBackoffSeconds (opts c))) - 1),
                nextAllowedTs := Some (later + retryBackoffSeconds (opts c)
                   ! nat (min (backoffIndex c + 1)
                            (int (length (retryBackoffSeconds (opts c))) - 1)) * 1000)\<rparr>,
              providers c)"
      using adv by simp
  }
next
  assume na: "\<not> backoffActive c now"
  {
    assume h: "(force \<or> \<not> isCacheValid (opts c) now (nowcastCache c))
        \<and> (\<exists>p \<in> set (providers c). \<not> isl (withTimeout (nfn p) (timeoutMs (opts c))))"
    then obtain r called where
      "pickProvider c nfn later = (Inr r, c\<lparr>backoffIndex := 0, nextAllowedTs := Some 0\<rparr>, called)"
      using pickProvider_some_success [of c nfn later] by blast
    moreover have "getNowcast c force nfn now later =
     (case pickProvider c nfn later of
        (Inr d, c', called) \<Rightarrow> (Inr d, c'\<lparr>nowcastCache := Some (d, later)\<rparr>, called)
      | (Inl e, c', called) \<Rightarrow> (Inl e, c', called))"
      using h na by (simp add: getNowcast_attempt)
    ultimately have g: "getNowcast c force nfn now later
       = (Inr r, c\<lparr>backoffIndex := 0, nextAllowedTs := Some 0, nowcastCache := Some (r, later)\<rparr>, called)"
      by simp
    show "\<not> isl (fst (getNowcast c force nfn now later))" by (simp add: g)
    show "backoffIndex (fst (snd (getNowcast c force nfn now later))) = 0" by (simp add: g)
    show "nextAllowedTs (fst (snd (getNowcast c force nfn now later))) = Some 0" by (simp add: g)
  }
  {
    assume h: "(force \<or> \<not> isCacheValid (opts c) now (forecastCache c (roundLookahead l)))
        \<and> (\<exists>p \<in> set (providers c).
              \<not> isl (withTimeout (ffn p (roundLookahead l)) (timeoutMs (opts c))))"
    then obtain r called where
      "pickProvider c (\<lambda>p. ffn p (roundLookahead l)) later
         = (Inr r, c\<lparr>backoffIndex := 0, nextAllowedTs := Some 0\<rparr>, called)"
      using pickProvider_some_success [of c "\<lambda>p. ffn p (roundLookahead l)" later] by blast
    moreover have "getForecast c l force ffn now later =
     (case pickProvider c (\<lambda>p. ffn p (roundLookahead l)) later of
        (Inr d, c', called) \<Rightarrow>
           (Inr d, c'\<lparr>forecastCache := (forecastCache c')(roundLookahead l \<mapsto> (d, later))\<rparr>, called)
      | (Inl e, c', called) \<Rightarrow> (Inl e, c', called))"
      using h na by (simp add: getForecast_attempt)
    ultimately have g: "getForecast c l force ffn now later
       = (Inr r, c\<lparr>backoffIndex := 0, nextAllowedTs := Some 0,
                    forecastCache := (forecastCache c)(roundLookahead l \<mapsto> (r, later))\<rparr>, called)"
      by simp
    show "\<not> isl (fst (getForecast c l force ffn now later))" by (simp add: g)
    show "backoffIndex (fst (snd (getForecast c l force ffn now later))) = 0" by (simp add: g)
    show "nextAllowedTs (fst (snd (getForecast c l force ffn now later))) = Some 0" by (simp add: g)
  }
qed

theorem chain_backoff_window_and_exhaustion_witness:
  "getNowcast
      \<lparr>opts = DEFAULT_OPTIONS, providers = [OpenWeatherMapProvider, NwsProvider],
       nowcastCache = None, forecastCache = Map.empty, backoffIndex = 3,
       nextAllowedTs = Some 0\<rparr>
      False (\<lambda>p. Rejected (UpstreamError (name p))) 1000 1200
    = (Inl (UpstreamError ''NOAA/NWS''),
       \<lparr>opts = DEFAULT_OPTIONS, providers = [OpenWeatherMapProvider, NwsProvider],
        nowcastCache = None, forecastCache = Map.empty, backoffIndex = 3,
        nextAllowedTs = Some 301200\<rparr>,
       [OpenWeatherMapProvider, NwsProvider])
   \<and> getForecast
      \<lparr>opts = DEFAULT_OPTIONS, providers = [OpenWeatherMapProvider, NwsProvider],
       nowcastCache = None, forecastCache = Map.empty, backoffIndex = 0,
       nextAllowedTs = Some 0\<rparr>
      62 False (\<lambda>p l. Pending) 1000 6000
    = (Inl (TimedOut 5000),
       \<lparr>opts = DEFAULT_OPTIONS, providers = [OpenWeatherMapProvider, NwsProvider],
        nowcastCache = None, forecastCache = Map.empty, backoffIndex = 1,
        nextAllowedTs = Some 66000\<rparr>,
       [OpenWeatherMapProvider, NwsProvider])
   \<and> getNowcast
      \<lparr>opts = DEFAULT_OPTIONS, providers = [OpenWeatherMapProvider, NwsProvider],
       nowcastCache = None, forecastCache = Map.empty, backoffIndex = 1,
       nextAllowedTs = Some 66000\<rparr>
      True (\<lambda>p. Resolved \<lparr>ts = 0, providerName = name p, precipMmHr = 1, pop = None,
                              ptype = Rain, temperatureC = None\<rparr>) 7000 7100
    = (Inl (BackoffInEffect 59),
       \<lparr>opts = DEFAULT_OPTIONS, providers = [OpenWeatherMapProvider, NwsProvider],
        nowcastCache = None, forecastCache = Map.empty, backoffIndex = 1,
        nextAllowedTs = Some 66000\<rparr>, [])
   \<and> backoffIndex (fst (snd (getNowcast
      \<lparr>opts = DEFAULT_OPTIONS, providers = [OpenWeatherMapProvider, NwsProvider],
       nowcastCache = None, forecastCache = Map.empty, backoffIndex = 1,
       nextAllowedTs = Some 66000\<rparr>
      False (\<lambda>p. if p = NwsProvider
                  then Resolved \<lparr>ts = 0, providerName = name p, precipMmHr = 1, pop = None,
                                  ptype = Rain, temperatureC = None\<rparr>
                  else Rejected (UpstreamError (name p))) 66000 66100))) = 0
   \<and> nextAllowedTs (fst (snd (getNowcast
      \<lparr>opts = DEFAULT_OPTIONS, providers = [OpenWeatherMapProvider, NwsProvider],
       nowcastCache = None, forecastCache = Map.empty, backoffIndex = 1,
       nextAllowedTs = Some 66000\<rparr>
      False (\<lambda>p. if p = NwsProvider
                  then Resolved \<lparr>ts = 0, providerName = name p, precipMmHr = 1, pop = None,
                                  ptype = Rain, temperatureC = None\<rparr>
                  else Rejected (UpstreamError (name p))) 66000 66100))) = Some 0"
proof -
  let ?ps = "[OpenWeatherMapProvider, NwsProvider]"
  let ?c3 = "\<lparr>opts = DEFAULT_OPTIONS, providers = ?ps,
       nowcastCache = None, forecastCache = Map.empty, backoffIndex = 3,
       nextAllowedTs = Some 0\<rparr>"
  let ?c0 = "\<lparr>opts = DEFAULT_OPTIONS, providers = ?ps,
       nowcastCache = None, forecastCache = Map.empty, backoffIndex = 0,
       nextAllowedTs = Some 0\<rparr>"
  let ?c1 = "\<lparr>opts = DEFAULT_OPTIONS, providers = ?ps,
       nowcastCache = None, forecastCache = Map.empty, backoffIndex = 1,
       nextAllowedTs = Some 66000\<rparr>"
  let ?ok = "\<lambda>p. Resolved \<lparr>ts = 0, providerName = name p, precipMmHr = 1, pop = None,
                              ptype = Rain, temperatureC = None\<rparr>"
  let ?nws = "\<lambda>p. if p = NwsProvider
                  then Resolved \<lparr>ts = 0, providerName = name p, precipMmHr = 1, pop = None,
                                  ptype = Rain, temperatureC = None\<rparr>
                  else Rejected (UpstreamError (name p))"
  have a: "getNowcast ?c3 False (\<lambda>p. Rejected (UpstreamError (name p))) 1000 1200
    = (Inl (UpstreamError ''NOAA/NWS''), ?c3\<lparr>nextAllowedTs := Some 301200\<rparr>, ?ps)"
    using chain_backoff_window_and_exhaustion
            [of ?c3 0 1000 False "\<lambda>p. Rejected (UpstreamError (name p))" 1200 0
                "\<lambda>p l. Pending" "UpstreamError ''NOAA/NWS''" "TimedOut 5000"]
    by (simp add: DEFAULT_OPTIONS_def backoffActive_def isCacheValid_def)
  have b: "getForecast ?c0 62 False (\<lambda>p l. Pending) 1000 6000
    = (Inl (TimedOut 5000), ?c0\<lparr>backoffIndex := 1, nextAllowedTs := Some 66000\<rparr>, ?ps)"
    using chain_backoff_window_and_exhaustion
            [of ?c0 0 1000 False "\<lambda>p. Rejected (UpstreamError (name p))" 6000 62
                "\<lambda>p l. Pending" "UpstreamError ''NOAA/NWS''" "TimedOut 5000"]
    by (simp add: DEFAULT_OPTIONS_def backoffActive_def isCacheValid_def)
  have c: "getNowcast ?c1 True ?ok 7000 7100 = (Inl (BackoffInEffect 59), ?c1, [])"
    using chain_backoff_window_and_exhaustion
            [of ?c1 66000 7000 True ?ok 7100 62 "\<lambda>p l. Pending"]
    by (simp add: DEFAULT_OPTIONS_def isCacheValid_def Math_round_def)
  have d: "backoffIndex (fst (snd (getNowcast ?c1 False ?nws 66000 66100))) = 0
         \<and> nextAllowedTs (fst (snd (getNowcast ?c1 False ?nws 66000 66100))) = Some 0"
    using chain_backoff_window_and_exhaustion
            [of ?c1 0 66000 False ?nws 66100 62 "\<lambda>p l. Pending"]
    by (simp add: DEFAULT_OPTIONS_def backoffActive_def isCacheValid_def)
  from a b c d show ?thesis by simp
qed

lemma describe_unchanged_by_call:
  "providers c' = providers c \<Longrightarrow> describe c' = describe c"
  by (simp add: describe_def)

text \<open>
  Claim C3. When a call of \<open>getNowcast\<close> reaches the providers, the providers before one
  of them all fail and that one succeeds, the call returns the successful provider's
  result and not an error, the providers called are exactly those up to the successful
  one, the backoff index is 0 and no window is set afterwards, the result is cached, and
  \<open>describe()\<close> afterwards is still the names of all the chain's providers, in their
  order, joined by \<open>" -> "\<close>. The providers of a chain built by \<open>makeProviderChain\<close> are
  the supported candidates in priority order.
\<close>

theorem chain_falls_back_to_later_provider:
  "(providers c = pre @ q # post
     \<and> (\<forall>p \<in> set pre. isl (withTimeout (nfn p) (timeoutMs (opts c))))
     \<and> withTimeout (nfn q) (timeoutMs (opts c)) = Inr r
     \<and> (force \<or> \<not> isCacheValid (opts c) now (nowcastCache c))
     \<and> \<not> backoffActive c now \<longrightarrow>
       getNowcast c force nfn now later
         = (Inr r, c\<lparr>backoffIndex := 0, nextAllowedTs := Some 0,
                      nowcastCache := Some (r, later)\<rparr>, pre @ [q])
     \<and> \<not> backoffActive (fst (snd (getNowcast c force nfn now later))) later'
     \<and> describe (fst (snd (getNowcast c force nfn now later)))
         = join '' -> '' (map name (pre @ q # post)))
 \<and> (makeProviderChain cfg location options = Inr c0 \<longrightarrow>
       providers c0 = filter (isSupported cfg location) (candidates cfg)
     \<and> backoffIndex c0 = 0 \<and> nextAllowedTs c0 = Some 0 \<and> nowcastCache c0 = None
     \<and> \<not> backoffActive c0 now \<and> \<not> isCacheValid (opts c0) now (nowcastCache c0))"
proof (intro conjI impI)
  assume h: "providers c = pre @ q # post
     \<and> (\<forall>p \<in> set pre. isl (withTimeout (nfn p) (timeoutMs (opts c))))
     \<and> withTimeout (nfn q) (timeoutMs (opts c)) = Inr r
     \<and> (force \<or> \<not> isCacheValid (opts c) now (nowcastCache c))
     \<and> \<not> backoffActive c now"
  then have "pickProvider c nfn later
       = (Inr r, c\<lparr>backoffIndex := 0, nextAllowedTs := Some 0\<rparr>, pre @ [q])"
    by (simp add: pickProvider_first_success)
  moreover have "getNowcast c force nfn now later =
     (case pickProvider c nfn later of
        (Inr d, c', called) \<Rightarrow> (Inr d, c'\<lparr>nowcastCache := Some (d, later)\<rparr>, called)
      | (Inl e, c', called) \<Rightarrow> (Inl e, c', called))"
    using h by (simp add: getNowcast_attempt)
  ultimately show g: "getNowcast c force nfn now later
         = (Inr r, c\<lparr>backoffIndex := 0, nextAllowedTs := Some 0,
                      nowcastCache := Some (r, later)\<rparr>, pre @ [q])"
    by simp
  show "\<not> backoffActive (fst (snd (getNowcast c force nfn now later))) later'"
    by (simp add: g backoffActive_def)
  show "describe (fst (snd (getNowcast c force nfn now later)))
         = join '' -> '' (map name (pre @ q # post))"
    using h by (simp add: g describe_def)
next
  assume m: "makeProviderChain cfg location options = Inr c0"
  then have c0: "c0 = \<lparr>opts = options,
        providers = filter (isSupported cfg location) (candidates cfg), nowcastCache = None,
        forecastCache = Map.empty, backoffIndex = 0, nextAllowedTs = Some 0\<rparr>"
    by (simp add: makeProviderChain_def Let_def split: if_splits)
  show "providers c0 = filter (isSupported cfg location) (candidates cfg)" by (simp add: c0)
  show "backoffIndex c0 = 0" by (simp add: c0)
  show "nextAllowedTs c0 = Some 0" by (simp add: c0)
  show "nowcastCache c0 = None" by (simp add: c0)
  show "\<not> backoffActive c0 now" by (simp add: c0 backoffActive_def)
  show "\<not> isCacheValid (opts c0) now (nowcastCache c0)" by (simp add: c0 isCacheValid_def)
qed

theorem chain_falls_back_to_later_provider_witness:
  "makeProviderChain
      (Some \<lparr>mode = None, weatherkit = None, openweathermap_apiKey = Some ''key'',
             tomorrow_apiKey = None, nws_enabled = None\<rparr>)
      (Some \<lparr>lat = 40, lon = -73, source = ''config''\<rparr>) DEFAULT_OPTIONS
    = Inr \<lparr>opts = DEFAULT_OPTIONS, providers = [OpenWeatherMapProvider, NwsProvider],
           nowcastCache = None, forecastCache = Map.empty, backoffIndex = 0,
           nextAllowedTs = Some 0\<rparr>
   \<and> getNowcast
        \<lparr>opts = DEFAULT_OPTIONS, providers = [OpenWeatherMapProvider, NwsProvider],
         nowcastCache = None, forecastCache = Map.empty, backoffIndex = 0,
         nextAllowedTs = Some 0\<rparr>
        False
        (\<lambda>p. if p = NwsProvider
              then Resolved \<lparr>ts = 5, providerName = name p, precipMmHr = 1, pop = None,
                              ptype = Rain, temperatureC = None\<rparr>
              else Rejected (UpstreamError ''HTTP 500'')) 1000 1200
    = (Inr \<lparr>ts = 5, providerName = ''NOAA/NWS'', precipMmHr = 1, pop = None,
            ptype = Rain, temperatureC = None\<rparr>,
       \<lparr>opts = DEFAULT_OPTIONS, providers = [OpenWeatherMapProvider, NwsProvider],
        nowcastCache = Some (\<lparr>ts = 5, providerName = ''NOAA/NWS'', precipMmHr = 1,
                               pop = None, ptype = Rain, temperatureC = None\<rparr>, 1200),
        forecastCache = Map.empty, backoffIndex = 0, nextAllowedTs = Some 0\<rparr>,
       [OpenWeatherMapProvider, NwsProvider])
   \<and> describe (fst (snd (getNowcast
        \<lparr>opts = DEFAULT_OPTIONS, providers = [OpenWeatherMapProvider, NwsProvider],
         nowcastCache = None, forecastCache = Map.empty, backoffIndex = 0,
         nextAllowedTs = Some 0\<rparr>
        False
        (\<lambda>p. if p = NwsProvider
              then Resolved \<lparr>ts = 5, providerName = name p, precipMmHr = 1, pop = None,
                              ptype = Rain, temperatureC = None\<rparr>
              else Rejected (UpstreamError ''HTTP 500'')) 1000 1200)))
    = ''OpenWeatherMap -> NOAA/NWS''"
proof -
  let ?cfg = "Some \<lparr>mode = None, weatherkit = None, openweathermap_apiKey = Some ''key'',
             tomorrow_apiKey = None, nws_enabled = None\<rparr>"
  let ?loc = "Some \<lparr>lat = 40, lon = -73, source = ''config''\<rparr>"
  let ?c = "\<lparr>opts = DEFAULT_OPTIONS, providers = [OpenWeatherMapProvider, NwsProvider],
         nowcastCache = None, forecastCache = Map.empty, backoffIndex = 0,
         nextAllowedTs = Some 0\<rparr>"
  let ?r = "\<lparr>ts = 5, providerName = ''NOAA/NWS'', precipMmHr = 1, pop = None,
            ptype = Rain, temperatureC = None\<rparr>"
  let ?fn = "\<lambda>p. if p = NwsProvider
              then Resolved \<lparr>ts = 5, providerName = name p, precipMmHr = 1, pop = None,
                              ptype = Rain, temperatureC = None\<rparr>
              else Rejected (UpstreamError ''HTTP 500'')"
  have mk: "makeProviderChain ?cfg ?loc DEFAULT_OPTIONS = Inr ?c"
    by (simp add: makeProviderChain_def candidates_def Let_def)
  note T = chain_falls_back_to_later_provider
            [of ?c "[OpenWeatherMapProvider]" NwsProvider "[]" ?fn ?r False 1000 1200 0
                ?cfg ?loc DEFAULT_OPTIONS ?c]
  have hyp: "providers ?c = [OpenWeatherMapProvider] @ NwsProvider # []
     \<and> (\<forall>p \<in> set [OpenWeatherMapProvider]. isl (withTimeout (?fn p) (timeoutMs (opts ?c))))
     \<and> withTimeout (?fn NwsProvider) (timeoutMs (opts ?c)) = Inr ?r
     \<and> (False \<or> \<not> isCacheValid (opts ?c) 1000 (nowcastCache ?c))
     \<and> \<not> backoffActive ?c 1000"
    by (simp add: backoffActive_def isCacheValid_def)
  note R = T [THEN conjunct1, THEN mp, OF hyp]
  from R [THEN conjunct1]
  have run: "getNowcast ?c False ?fn 1000 1200
       = (Inr ?r, ?c\<lparr>nowcastCache := Some (?r, 1200)\<rparr>, [OpenWeatherMapProvider, NwsProvider])"
    by simp
  from R [THEN conjunct2, THEN conjunct2]
  have descr: "describe (fst (snd (getNowcast ?c False ?fn 1000 1200)))
         = ''OpenWeatherMap -> NOAA/NWS''"
    by simp
  from T [THEN conjunct2, THEN mp, OF mk]
  have "providers ?c = filter (isSupported ?cfg ?loc) (candidates ?cfg)" by blast
  from mk run descr show ?thesis by simp
qed

section \<open>Properties of the quiet hours\<close>

text \<open>
  Claim C5. With a quiet schedule whose start minute is after its end minute, a
  wall-clock time is quiet exactly when its minute of the day is at or after the start or
  before the end; with start at or before end, exactly when it is at or after the start
  and before the end. The configuration \<open>22:00\<close> to \<open>06:00\<close> parses to the minutes 1320 and
  360, and with it 23:30 is quiet, 12:00 is not, and 05:59 is.
\<close>

theorem quiet_hours_wrap_midnight:
  "(quietSchedule pf = Some q \<and> q_start q > q_end q \<longrightarrow>
      isWithinQuietHours pf hours mins
        = (hours * 60 + mins \<ge> q_start q \<or> hours * 60 + mins < q_end q))
 \<and> (quietSchedule pf = Some q \<and> q_start q \<le> q_end q \<longrightarrow>
      isWithinQuietHours pf hours mins
        = (q_start q \<le> hours * 60 + mins \<and> hours * 60 + mins < q_end q))
 \<and> parseQuietHours (Some \<lparr>qh_start = Some ''22:00'', qh_end = Some ''06:00''\<rparr>)
      = Some \<lparr>q_start = 1320, q_end = 360\<rparr>
 \<and> (quietSchedule pf
        = parseQuietHours (Some \<lparr>qh_start = Some ''22:00'', qh_end = Some ''06:00''\<rparr>) \<longrightarrow>
      isWithinQuietHours pf 23 30 \<and> \<not> isWithinQuietHours pf 12 0
      \<and> isWithinQuietHours pf 5 59)"
proof -
  have p: "parseQuietHours (Some \<lparr>qh_start = Some ''22:00'', qh_end = Some ''06:00''\<rparr>)
      = Some \<lparr>q_start = 1320, q_end = 360\<rparr>"
    by (simp add: parseQuietHours_def parseTimeString_def trim_def isSpace_def isDigit_def
        parseInt_def)
  have wrap: "quietSchedule pf = Some q \<and> q_start q > q_end q \<longrightarrow>
      isWithinQuietHours pf hours mins
        = (hours * 60 + mins \<ge> q_start q \<or> hours * 60 + mins < q_end q)"
    by (auto simp: isWithinQuietHours_def Let_def)
  have plain: "quietSchedule pf = Some q \<and> q_start q \<le> q_end q \<longrightarrow>
      isWithinQuietHours pf hours mins
        = (q_start q \<le> hours * 60 + mins \<and> hours * 60 + mins < q_end q)"
    by (auto simp: isWithinQuietHours_def Let_def)
  have ex: "quietSchedule pf
        = parseQuietHours (Some \<lparr>qh_start = Some ''22:00'', qh_end = Some ''06:00''\<rparr>) \<longrightarrow>
      isWithinQuietHours pf 23 30 \<and> \<not> isWithinQuietHours pf 12 0
      \<and> isWithinQuietHours pf 5 59"
    unfolding p by (simp add: isWithinQuietHours_def Let_def)
  from wrap plain p ex show ?thesis by blast
qed

theorem quiet_hours_wrap_midnight_witness:
  "isWithinQuietHours \<lparr>p_minOnMs = Num 300000, p_minOffMs = Num 300000,
        p_overrideMinutes = None,
        quietSchedule = parseQuietHours (Some \<lparr>qh_start = Some ''22:00'', qh_end = Some ''06:00''\<rparr>)\<rparr>
      23 30
   \<and> \<not> isWithinQuietHours \<lparr>p_minOnMs = Num 300000, p_minOffMs = Num 300000,
        p_overrideMinutes = None,
        quietSchedule = parseQuietHours (Some \<lparr>qh_start = Some ''22:00'', qh_end = Some ''06:00''\<rparr>)\<rparr>
      12 0
   \<and> isWithinQuietHours \<lparr>p_minOnMs = Num 300000, p_minOffMs = Num 300000,
        p_overrideMinutes = None,
        quietSchedule = parseQuietHours (Some \<lparr>qh_start = Some ''22:00'', qh_end = Some ''06:00''\<rparr>)\<rparr>
      5 59
   \<and> isWithinQuietHours \<lparr>p_minOnMs = Num 300000, p_minOffMs = Num 300000,
        p_overrideMinutes = None, quietSchedule = Some \<lparr>q_start = 1320, q_end = 360\<rparr>\<rparr> 0 0
   \<and> \<not> isWithinQuietHours \<lparr>p_minOnMs = Num 300000, p_minOffMs = Num 300000,
        p_overrideMinutes = None, quietSchedule = Some \<lparr>q_start = 540, q_end = 1020\<rparr>\<rparr> 17 0"
proof -
  let ?pf = "\<lparr>p_minOnMs = Num 300000, p_minOffMs = Num 300000,
        p_overrideMinutes = None,
        quietSchedule = parseQuietHours (Some \<lparr>qh_start = Some ''22:00'', qh_end = Some ''06:00''\<rparr>)\<rparr>"
  let ?pw = "\<lparr>p_minOnMs = Num 300000, p_minOffMs = Num 300000,
        p_overrideMinutes = None, quietSchedule = Some \<lparr>q_start = 1320, q_end = 360\<rparr>\<rparr>"
  let ?pd = "\<lparr>p_minOnMs = Num 300000, p_minOffMs = Num 300000,
        p_overrideMinutes = None, quietSchedule = Some \<lparr>q_start = 540, q_end = 1020\<rparr>\<rparr>"
  have a: "isWithinQuietHours ?pf 23 30 \<and> \<not> isWithinQuietHours ?pf 12 0
      \<and> isWithinQuietHours ?pf 5 59"
  proof -
    have "quietSchedule ?pf
        = parseQuietHours (Some \<lparr>qh_start = Some ''22:00'', qh_end = Some ''06:00''\<rparr>)"
      by simp
    with quiet_hours_wrap_midnight [of ?pf "\<lparr>q_start = 1320, q_end = 360\<rparr>" 0 0]
    show ?thesis by blast
  qed
  have b: "isWithinQuietHours ?pw 0 0"
    using quiet_hours_wrap_midnight [of ?pw "\<lparr>q_start = 1320, q_end = 360\<rparr>" 0 0] by simp
  have c: "\<not> isWithinQuietHours ?pd 17 0"
    using quiet_hours_wrap_midnight [of ?pd "\<lparr>q_start = 540, q_end = 1020\<rparr>" 17 0] by simp
  from a b c show ?thesis by simp
qed

section \<open>Properties of the accessory\<close>

lemma desiredSignal_config:
  "config a' = config a \<Longrightarrow> desiredSignal a' forecast weather = desiredSignal a forecast weather"
  by (cases "atype (config a)") (simp_all add: desiredSignal_def evaluateForecast_def)

lemma evaluate_no_override:
  assumes "overrideUntil a = 0"
  shows "evaluate a forecast weather now hours mins =
     (case desiredSignal a forecast weather of
        Inl e \<Rightarrow> (Inl e, stamp a weather now)
      | Inr desired \<Rightarrow>
          if isWithinQuietHours (platform a) hours mins
          then (Inr (), clearFault (stamp a weather now))
          else (Inr (), clearFault (updateState
                  ((stamp a weather now)\<lparr>hysteresis := gate_next (hysteresis a) desired (Num now)\<rparr>)
                  (state (gate_next (hysteresis a) desired (Num now))))))"
proof -
  have "desiredSignal (stamp a weather now) forecast weather = desiredSignal a forecast weather"
    by (rule desiredSignal_config) (simp add: stamp_def)
  then show ?thesis
    using assms unfolding evaluate_def Let_def
    by (simp add: stamp_def split: sum.splits)
qed

lemma evaluate_in_window:
  assumes "overrideUntil a \<noteq> 0" and "now < overrideUntil a" and "overrideState a = Some d"
  shows "evaluate a forecast weather now hours mins =
     (Inr (), (stamp a weather now)\<lparr>currentState := d, characteristicOn := d,
                                     faulted := False, statusFault := False\<rparr>)"
  using assms unfolding evaluate_def Let_def
  by (simp add: stamp_def updateState_def clearFault_def)

lemma evaluate_expired:
  assumes "overrideUntil a \<noteq> 0" and "now \<ge> overrideUntil a"
  shows "evaluate a forecast weather now hours mins =
     evaluate (a\<lparr>overrideUntil := 0, overrideState := None,
                 hysteresis := gate_reset (hysteresis a) (currentState a)\<rparr>)
       forecast weather now hours mins"
proof -
  let ?b = "a\<lparr>overrideUntil := 0, overrideState := None,
                 hysteresis := gate_reset (hysteresis a) (currentState a)\<rparr>"
  have d1: "desiredSignal ((stamp a weather now)\<lparr>overrideUntil := 0, overrideState := None,
                 hysteresis := gate_reset (hysteresis (stamp a weather now))
                                 (currentState (stamp a weather now))\<rparr>) forecast weather
          = desiredSignal a forecast weather"
    by (rule desiredSignal_config) (simp add: stamp_def)
  have d2: "desiredSignal (stamp ?b weather now) forecast weather
          = desiredSignal a forecast weather"
    by (rule desiredSignal_config) (simp add: stamp_def)
  show ?thesis
  proof (cases "desiredSignal a forecast weather")
    case (Inl e)
    with d1 d2 assms show ?thesis
      unfolding evaluate_def Let_def by (cases a) (simp add: stamp_def)
  next
    case (Inr d)
    with d1 d2 assms show ?thesis
      unfolding evaluate_def Let_def
      by (cases a) (simp add: stamp_def clearFault_def updateState_def)
  qed
qed

lemma evaluate_bootstrap:
  assumes "overrideUntil a = 0" and "lastFlip (hysteresis a) = Num 0"
    and "\<not> isWithinQuietHours (platform a) hours mins"
    and "desiredSignal a forecast weather = Inr d"
  shows "evaluate a forecast weather now hours mins =
     (Inr (), (stamp a weather now)\<lparr>hysteresis := (hysteresis a)\<lparr>lastFlip := Num now, state := d\<rparr>,
                 currentState := d, characteristicOn := d,
                 faulted := False, statusFault := False\<rparr>)"
proof -
  have g: "gate_next (hysteresis a) d (Num now) = (hysteresis a)\<lparr>lastFlip := Num now, state := d\<rparr>"
    using assms(2) by (simp add: gate_next_def)
  show ?thesis
    unfolding evaluate_no_override [OF assms(1)] assms(4)
    using assms(3) g by (cases a) (simp add: stamp_def updateState_def clearFault_def)
qed

lemma newRainAccessory_fresh:
  "overrideUntil (newRainAccessory pf cfg) = 0"
  "lastFlip (hysteresis (newRainAccessory pf cfg)) = Num 0"
  "platform (newRainAccessory pf cfg) = pf"
  "config (newRainAccessory pf cfg) = cfg"
  "currentState (newRainAccessory pf cfg) = False"
  by (simp_all add: newRainAccessory_def makeHysteresis_def)

lemma evaluate_fresh_adopts:
  assumes "\<not> isWithinQuietHours pf hours mins"
    and "desiredSignal (newRainAccessory pf cfg) forecast weather = Inr d"
  shows "currentState (snd (evaluate (newRainAccessory pf cfg) forecast weather now hours mins)) = d"
proof -
  have q: "\<not> isWithinQuietHours (platform (newRainAccessory pf cfg)) hours mins"
    using assms(1) by (simp add: newRainAccessory_fresh)
  show ?thesis
    unfolding evaluate_bootstrap [OF newRainAccessory_fresh(1,2) q assms(2)] by simp
qed

text \<open>
  Claim C7. For a rain-now accessory whose threshold is 0.05 mm/h (configured, or the
  default when none is configured), the desired signal is true for a nowcast of type rain
  at 0.06 mm/h, false for rain at 0.04 mm/h, and false for snow at any intensity. On a
  newly created accessory outside quiet hours, the first evaluation makes that signal the
  accessory's state.
\<close>

theorem rain_now_desired_signal:
  "atype (config a) = RainNow
   \<and> orElse (thresholdMmPerHr (config a)) DEFAULT_RAIN_THRESHOLD = 5 / 100 \<longrightarrow>
      desiredSignal a forecast (w\<lparr>ptype := Rain, precipMmHr := 6 / 100\<rparr>) = Inr True
    \<and> desiredSignal a forecast (w\<lparr>ptype := Rain, precipMmHr := 4 / 100\<rparr>) = Inr False
    \<and> desiredSignal a forecast (w\<lparr>ptype := Snow, precipMmHr := x\<rparr>) = Inr False
    \<and> (a = newRainAccessory pf cfg \<and> \<not> isWithinQuietHours pf hours mins \<longrightarrow>
         currentState (snd (evaluate a forecast (w\<lparr>ptype := Rain, precipMmHr := 6 / 100\<rparr>)
                              now hours mins)) = True
       \<and> currentState (snd (evaluate a forecast (w\<lparr>ptype := Rain, precipMmHr := 4 / 100\<rparr>)
                              now hours mins)) = False
       \<and> currentState (snd (evaluate a forecast (w\<lparr>ptype := Snow, precipMmHr := x\<rparr>)
                              now hours mins)) = False)"
proof (intro impI)
  assume h: "atype (config a) = RainNow
   \<and> orElse (thresholdMmPerHr (config a)) DEFAULT_RAIN_THRESHOLD = 5 / 100"
  have r6: "desiredSignal a forecast (w\<lparr>ptype := Rain, precipMmHr := 6 / 100\<rparr>) = Inr True"
    using h by (simp add: desiredSignal_def isRain_def)
  have r4: "desiredSignal a forecast (w\<lparr>ptype := Rain, precipMmHr := 4 / 100\<rparr>) = Inr False"
    using h by (simp add: desiredSignal_def isRain_def)
  have s: "desiredSignal a forecast (w\<lparr>ptype := Snow, precipMmHr := x\<rparr>) = Inr False"
    using h by (simp add: desiredSignal_def isRain_def)
  have ev: "a = newRainAccessory pf cfg \<and> \<not> isWithinQuietHours pf hours mins \<longrightarrow>
         currentState (snd (evaluate a forecast (w\<lparr>ptype := Rain, precipMmHr := 6 / 100\<rparr>)
                              now hours mins)) = True
       \<and> currentState (snd (evaluate a forecast (w\<lparr>ptype := Rain, precipMmHr := 4 / 100\<rparr>)
                              now hours mins)) = False
       \<and> currentState (snd (evaluate a forecast (w\<lparr>ptype := Snow, precipMmHr := x\<rparr>)
                              now hours mins)) = False"
  proof (intro impI conjI)
    assume f: "a = newRainAccessory pf cfg \<and> \<not> isWithinQuietHours pf hours mins"
    then have q: "\<not> isWithinQuietHours pf hours mins" and a: "a = newRainAccessory pf cfg"
      by simp_all
    show "currentState (snd (evaluate a forecast (w\<lparr>ptype := Rain, precipMmHr := 6 / 100\<rparr>)
                              now hours mins)) = True"
      using r6 unfolding a by (rule evaluate_fresh_adopts [OF q])
    show "currentState (snd (evaluate a forecast (w\<lparr>ptype := Rain, precipMmHr := 4 / 100\<rparr>)
                              now hours mins)) = False"
      using r4 unfolding a by (rule evaluate_fresh_adopts [OF q])
    show "currentState (snd (evaluate a forecast (w\<lparr>ptype := Snow, precipMmHr := x\<rparr>)
                              now hours mins)) = False"
      using s unfolding a by (rule evaluate_fresh_adopts [OF q])
  qed
  show "desiredSignal a forecast (w\<lparr>ptype := Rain, precipMmHr := 6 / 100\<rparr>) = Inr True
    \<and> desiredSignal a forecast (w\<lparr>ptype := Rain, precipMmHr := 4 / 100\<rparr>) = Inr False
    \<and> desiredSignal a forecast (w\<lparr>ptype := Snow, precipMmHr := x\<rparr>) = Inr False
    \<and> (a = newRainAccessory pf cfg \<and> \<not> isWithinQuietHours pf hours mins \<longrightarrow>
         currentState (snd (evaluate a forecast (w\<lparr>ptype := Rain, precipMmHr := 6 / 100\<rparr>)
                              now hours mins)) = True
       \<and> currentState (snd (evaluate a forecast (w\<lparr>ptype := Rain, precipMmHr := 4 / 100\<rparr>)
                              now hours mins)) = False
       \<and> currentState (snd (evaluate a forecast (w\<lparr>ptype := Snow, precipMmHr := x\<rparr>)
                              now hours mins)) = False)"
    using r6 r4 s ev by (intro conjI)
qed

theorem rain_now_desired_signal_witness:
  "currentState (snd (evaluate
      (newRainAccessory
         \<lparr>p_minOnMs = Num 300000, p_minOffMs = Num 300000, p_overrideMinutes = None,
          quietSchedule = None\<rparr>
         \<lparr>atype = RainNow, thresholdMmPerHr = Some (5 / 100), lookaheadMinutes = None,
          popThreshold = None, intensityThresholdMmPerHr = None\<rparr>)
      (\<lambda>l. Inr [])
      \<lparr>ts = 1000, providerName = ''NOAA/NWS'', precipMmHr = 6 / 100, pop = None,
       ptype = Rain, temperatureC = None\<rparr> 1000 12 0)) = True
   \<and> currentState (snd (evaluate
      (newRainAccessory
         \<lparr>p_minOnMs = Num 300000, p_minOffMs = Num 300000, p_overrideMinutes = None,
          quietSchedule = None\<rparr>
         \<lparr>atype = RainNow, thresholdMmPerHr = Some (5 / 100), lookaheadMinutes = None,
          popThreshold = None, intensityThresholdMmPerHr = None\<rparr>)
      (\<lambda>l. Inr [])
      \<lparr>ts = 1000, providerName = ''NOAA/NWS'', precipMmHr = 4 / 100, pop = None,
       ptype = Rain, temperatureC = None\<rparr> 1000 12 0)) = False
   \<and> currentState (snd (evaluate
      (newRainAccessory
         \<lparr>p_minOnMs = Num 300000, p_minOffMs = Num 300000, p_overrideMinutes = None,
          quietSchedule = None\<rparr>
         \<lparr>atype = RainNow, thresholdMmPerHr = Some (5 / 100), lookaheadMinutes = None,
          popThreshold = None, intensityThresholdMmPerHr = None\<rparr>)
      (\<lambda>l. Inr [])
      \<lparr>ts = 1000, providerName = ''NOAA/NWS'', precipMmHr = 10, pop = None,
       ptype = Snow, temperatureC = None\<rparr> 1000 12 0)) = False"
proof -
  let ?pf = "\<lparr>p_minOnMs = Num 300000, p_minOffMs = Num 300000, p_overrideMinutes = None,
          quietSchedule = None\<rparr>"
  let ?cfg = "\<lparr>atype = RainNow, thresholdMmPerHr = Some (5 / 100), lookaheadMinutes = None,
          popThreshold = None, intensityThresholdMmPerHr = None\<rparr>"
  let ?w = "\<lparr>ts = 1000, providerName = ''NOAA/NWS'', precipMmHr = 0, pop = None,
       ptype = NoPrecip, temperatureC = None\<rparr>"
  have h: "atype (config (newRainAccessory ?pf ?cfg)) = RainNow
     \<and> orElse (thresholdMmPerHr (config (newRainAccessory ?pf ?cfg))) DEFAULT_RAIN_THRESHOLD
         = 5 / 100"
    by (simp add: newRainAccessory_fresh)
  have q: "newRainAccessory ?pf ?cfg = newRainAccessory ?pf ?cfg
     \<and> \<not> isWithinQuietHours ?pf 12 0"
    by (simp add: isWithinQuietHours_def)
  from rain_now_desired_signal
         [of "newRainAccessory ?pf ?cfg" "\<lambda>l. Inr []" ?w 10 ?pf ?cfg 12 0 1000,
          THEN mp, OF h, THEN conjunct2, THEN conjunct2, THEN conjunct2, THEN mp, OF q]
  show ?thesis by simp
qed

text \<open>
  Claim C10. For a rain-now accessory a nowcast of type sleet is treated as one of type
  rain: the desired signal is true exactly when the nowcast's intensity is at least the
  configured threshold (0.05 mm/h when none is configured), the same signal as for the
  same nowcast with type rain. On a newly created accessory outside quiet hours, the
  first evaluation makes that signal the accessory's state.
\<close>

theorem rain_now_sleet_counts_as_rain:
  "atype (config a) = RainNow \<longrightarrow>
      desiredSignal a forecast (w\<lparr>ptype := Sleet\<rparr>)
        = Inr (precipMmHr w \<ge> orElse (thresholdMmPerHr (config a)) DEFAULT_RAIN_THRESHOLD)
    \<and> desiredSignal a forecast (w\<lparr>ptype := Sleet\<rparr>)
        = desiredSignal a forecast (w\<lparr>ptype := Rain\<rparr>)
    \<and> (a = newRainAccessory pf cfg \<and> \<not> isWithinQuietHours pf hours mins \<longrightarrow>
         currentState (snd (evaluate a forecast (w\<lparr>ptype := Sleet\<rparr>) now hours mins))
           = (precipMmHr w \<ge> orElse (thresholdMmPerHr cfg) DEFAULT_RAIN_THRESHOLD))"
proof (intro impI)
  assume h: "atype (config a) = RainNow"
  have sl: "desiredSignal a forecast (w\<lparr>ptype := Sleet\<rparr>)
        = Inr (precipMmHr w \<ge> orElse (thresholdMmPerHr (config a)) DEFAULT_RAIN_THRESHOLD)"
    using h by (simp add: desiredSignal_def isRain_def)
  have rn: "desiredSignal a forecast (w\<lparr>ptype := Rain\<rparr>)
        = Inr (precipMmHr w \<ge> orElse (thresholdMmPerHr (config a)) DEFAULT_RAIN_THRESHOLD)"
    using h by (simp add: desiredSignal_def isRain_def)
  have ev: "a = newRainAccessory pf cfg \<and> \<not> isWithinQuietHours pf hours mins \<longrightarrow>
         currentState (snd (evaluate a forecast (w\<lparr>ptype := Sleet\<rparr>) now hours mins))
           = (precipMmHr w \<ge> orElse (thresholdMmPerHr cfg) DEFAULT_RAIN_THRESHOLD)"
  proof (intro impI)
    assume f: "a = newRainAccessory pf cfg \<and> \<not> isWithinQuietHours pf hours mins"
    then have q: "\<not> isWithinQuietHours pf hours mins" and a: "a = newRainAccessory pf cfg"
      by simp_all
    have c: "config a = cfg" unfolding a by (rule newRainAccessory_fresh)
    show "currentState (snd (evaluate a forecast (w\<lparr>ptype := Sleet\<rparr>) now hours mins))
           = (precipMmHr w \<ge> orElse (thresholdMmPerHr cfg) DEFAULT_RAIN_THRESHOLD)"
      using sl unfolding c unfolding a by (rule evaluate_fresh_adopts [OF q])
  qed
  show "desiredSignal a forecast (w\<lparr>ptype := Sleet\<rparr>)
        = Inr (precipMmHr w \<ge> orElse (thresholdMmPerHr (config a)) DEFAULT_RAIN_THRESHOLD)
    \<and> desiredSignal a forecast (w\<lparr>ptype := Sleet\<rparr>)
        = desiredSignal a forecast (w\<lparr>ptype := Rain\<rparr>)
    \<and> (a = newRainAccessory pf cfg \<and> \<not> isWithinQuietHours pf hours mins \<longrightarrow>
         currentState (snd (evaluate a forecast (w\<lparr>ptype := Sleet\<rparr>) now hours mins))
           = (precipMmHr w \<ge> orElse (thresholdMmPerHr cfg) DEFAULT_RAIN_THRESHOLD))"
    using sl rn ev by simp
qed

theorem rain_now_sleet_counts_as_rain_witness:
  "currentState (snd (evaluate
      (newRainAccessory
         \<lparr>p_minOnMs = Num 300000, p_minOffMs = Num 300000, p_overrideMinutes = None,
          quietSchedule = None\<rparr>
         \<lparr>atype = RainNow, thresholdMmPerHr = None, lookaheadMinutes = None,
          popThreshold = None, intensityThresholdMmPerHr = None\<rparr>)
      (\<lambda>l. Inr [])
      \<lparr>ts = 1000, providerName = ''Tomorrow.io'', precipMmHr = 6 / 100, pop = None,
       ptype = Sleet, temperatureC = None\<rparr> 1000 12 0)) = True
   \<and> currentState (snd (evaluate
      (newRainAccessory
         \<lparr>p_minOnMs = Num 300000, p_minOffMs = Num 300000, p_overrideMinutes = None,
          quietSchedule = None\<rparr>
         \<lparr>atype = RainNow, thresholdMmPerHr = None, lookaheadMinutes = None,
          popThreshold = None, intensityThresholdMmPerHr = None\<rparr>)
      (\<lambda>l. Inr [])
      \<lparr>ts = 1000, providerName = ''Tomorrow.io'', precipMmHr = 4 / 100, pop = None,
       ptype = Sleet, temperatureC = None\<rparr> 1000 12 0)) = False"
proof -
  let ?pf = "\<lparr>p_minOnMs = Num 300000, p_minOffMs = Num 300000, p_overrideMinutes = None,
          quietSchedule = None\<rparr>"
  let ?cfg = "\<lparr>atype = RainNow, thresholdMmPerHr = None, lookaheadMinutes = None,
          popThreshold = None, intensityThresholdMmPerHr = None\<rparr>"
  let ?w6 = "\<lparr>ts = 1000, providerName = ''Tomorrow.io'', precipMmHr = 6 / 100, pop = None,
       ptype = NoPrecip, temperatureC = None\<rparr>"
  let ?w4 = "\<lparr>ts = 1000, providerName = ''Tomorrow.io'', precipMmHr = 4 / 100, pop = None,
       ptype = NoPrecip, temperatureC = None\<rparr>"
  have h: "atype (config (newRainAccessory ?pf ?cfg)) = RainNow"
    by (simp add: newRainAccessory_fresh)
  have q: "newRainAccessory ?pf ?cfg = newRainAccessory ?pf ?cfg
     \<and> \<not> isWithinQuietHours ?pf 12 0"
    by (simp add: isWithinQuietHours_def)
  from rain_now_sleet_counts_as_rain
         [of "newRainAccessory ?pf ?cfg" "\<lambda>l. Inr []" ?w6 ?pf ?cfg 12 0 1000,
          THEN mp, OF h, THEN conjunct2, THEN conjunct2, THEN mp, OF q]
  have a: "currentState (snd (evaluate (newRainAccessory ?pf ?cfg) (\<lambda>l. Inr [])
              (?w6\<lparr>ptype := Sleet\<rparr>) 1000 12 0)) = True"
    by (simp add: DEFAULT_RAIN_THRESHOLD_def)
  from rain_now_sleet_counts_as_rain
         [of "newRainAccessory ?pf ?cfg" "\<lambda>l. Inr []" ?w4 ?pf ?cfg 12 0 1000,
          THEN mp, OF h, THEN conjunct2, THEN conjunct2, THEN mp, OF q]
  have b: "currentState (snd (evaluate (newRainAccessory ?pf ?cfg) (\<lambda>l. Inr [])
              (?w4\<lparr>ptype := Sleet\<rparr>) 1000 12 0)) = False"
    by (simp add: DEFAULT_RAIN_THRESHOLD_def)
  from a b show ?thesis by simp
qed

lemma handleSetOn_override:
  assumes "overrideMinutes a = Some m" and "m > 0"
  shows "handleSetOn a v t0 =
     a\<lparr>currentState := (v = BoolValue True \<or> v = NumberValue 1),
       characteristicOn := (v = BoolValue True \<or> v = NumberValue 1),
       overrideState := Some (v = BoolValue True \<or> v = NumberValue 1),
       overrideUntil := t0 + m * 60000,
       hysteresis := (hysteresis a)
                       \<lparr>state := (v = BoolValue True \<or> v = NumberValue 1), lastFlip := Num 0\<rparr>\<rparr>"
  using assms by (simp add: handleSetOn_def gate_reset_def Let_def)

lemma handleSetOn_plain:
  assumes "overrideMinutes a = None \<or> (overrideMinutes a = Some m \<and> m \<le> 0)"
  shows "handleSetOn a v t0 =
     a\<lparr>currentState := (v = BoolValue True \<or> v = NumberValue 1),
       characteristicOn := (v = BoolValue True \<or> v = NumberValue 1),
       hysteresis := (hysteresis a)
                       \<lparr>state := (v = BoolValue True \<or> v = NumberValue 1), lastFlip := Num 0\<rparr>\<rparr>"
  using assms by (auto simp: handleSetOn_def gate_reset_def Let_def)

lemma evaluations_in_window:
  assumes "overrideUntil a \<noteq> 0" and "overrideState a = Some d"
    and "\<forall>e \<in> set es. evalTime e < overrideUntil a"
  shows "overrideUntil (evaluations a es) = overrideUntil a
       \<and> overrideState (evaluations a es) = Some d
       \<and> hysteresis (evaluations a es) = hysteresis a
       \<and> (es \<noteq> [] \<or> currentState a = d \<longrightarrow> currentState (evaluations a es) = d)
       \<and> (es \<noteq> [] \<or> characteristicOn a = d \<longrightarrow> characteristicOn (evaluations a es) = d)"
  using assms
proof (induction es arbitrary: a)
  case Nil
  then show ?case by simp
next
  case (Cons e es)
  obtain forecast weather now hours mins where e: "e = (forecast, weather, now, hours, mins)"
    by (cases e)
  let ?b = "(stamp a weather now)\<lparr>currentState := d, characteristicOn := d,
                                     faulted := False, statusFault := False\<rparr>"
  from Cons.prems e have t: "now < overrideUntil a" by simp
  have step: "evaluate a forecast weather now hours mins = (Inr (), ?b)"
    by (rule evaluate_in_window [OF Cons.prems(1) t Cons.prems(2)])
  have b: "overrideUntil ?b = overrideUntil a" "overrideState ?b = Some d"
    "hysteresis ?b = hysteresis a" "currentState ?b = d" "characteristicOn ?b = d"
    using Cons.prems(2) by (simp_all add: stamp_def)
  have "overrideUntil ?b \<noteq> 0" "\<forall>e \<in> set es. evalTime e < overrideUntil ?b"
    using Cons.prems by (simp_all add: b)
  from Cons.IH [OF this(1) b(2) this(2)] b
  show ?case by (simp add: e step)
qed

lemma evaluate_no_override_fields:
  assumes "overrideUntil a = 0"
  shows "overrideUntil (snd (evaluate a forecast weather now hours mins)) = 0
       \<and> overrideState (snd (evaluate a forecast weather now hours mins)) = overrideState a"
  unfolding evaluate_no_override [OF assms]
  using assms
  by (cases "desiredSignal a forecast weather")
     (simp_all add: stamp_def clearFault_def updateState_def)

lemma evaluate_expired_resumes:
  assumes "overrideUntil b \<noteq> 0" and "now \<ge> overrideUntil b"
    and "\<not> isWithinQuietHours (platform b) hours mins"
    and "desiredSignal b forecast weather = Inr x"
  shows "currentState (snd (evaluate b forecast weather now hours mins)) = x
       \<and> hysteresis (snd (evaluate b forecast weather now hours mins))
           = (hysteresis b)\<lparr>state := x, lastFlip := Num now\<rparr>"
proof -
  let ?c = "b\<lparr>overrideUntil := 0, overrideState := None,
              hysteresis := (hysteresis b)\<lparr>state := currentState b, lastFlip := Num 0\<rparr>\<rparr>"
  have c: "overrideUntil ?c = 0" "lastFlip (hysteresis ?c) = Num 0"
    "\<not> isWithinQuietHours (platform ?c) hours mins"
    using assms(3) by (simp_all add: gate_reset_def)
  have "desiredSignal ?c forecast weather = desiredSignal b forecast weather"
    by (rule desiredSignal_config) simp
  then have d: "desiredSignal ?c forecast weather = Inr x" using assms(4) by simp
  have "hysteresis (snd (evaluate ?c forecast weather now hours mins))
           = (hysteresis b)\<lparr>state := x, lastFlip := Num now\<rparr>"
    unfolding evaluate_bootstrap [OF c d]
    by (cases b, cases "hysteresis b") (simp add: gate_reset_def stamp_def)
  moreover have "currentState (snd (evaluate ?c forecast weather now hours mins)) = x"
    unfolding evaluate_bootstrap [OF c d] by simp
  ultimately show ?thesis
    unfolding evaluate_expired [OF assms(1,2)] gate_reset_def by simp
qed

text \<open>
  Handlers that run one after the other. A manual toggle on an accessory whose override
  duration is configured and positive sets the state to the toggled value, starts an
  override that ends at the toggle time plus the duration, and leaves the hysteresis gate
  with the toggled value as its state and no flip recorded. Every evaluation that begins
  before the expiry leaves the state and the \<open>On\<close> characteristic at the toggled value,
  leaves the gate and the override untouched, and does not depend on the forecast or on
  the nowcast's precipitation. The first evaluation at or after the expiry is the normal
  evaluation of the accessory with the override cleared and the gate set to the current
  state with no flip recorded; it leaves no override behind, and outside quiet hours that
  gate adopts the desired signal at once. A toggle on an accessory with no override
  duration, or one that is not positive, sets the state, leaves the gate with the toggled
  value and no flip recorded, and leaves the override fields as they were.
\<close>

theorem manual_override_between_evaluations:
  "(overrideMinutes a = Some m \<and> m > 0 \<and> 0 \<le> t0
      \<and> d = (v = BoolValue True \<or> v = NumberValue 1) \<longrightarrow>
      currentState (handleSetOn a v t0) = d
    \<and> overrideState (handleSetOn a v t0) = Some d
    \<and> overrideUntil (handleSetOn a v t0) = t0 + m * 60000
    \<and> hysteresis (handleSetOn a v t0)
        = (hysteresis a)\<lparr>state := d, lastFlip := Num 0\<rparr>
    \<and> ((\<forall>e \<in> set es. evalTime e < t0 + m * 60000) \<longrightarrow>
          currentState (evaluations (handleSetOn a v t0) es) = d
        \<and> characteristicOn (evaluations (handleSetOn a v t0) es) = d
        \<and> hysteresis (evaluations (handleSetOn a v t0) es)
            = (hysteresis a)\<lparr>state := d, lastFlip := Num 0\<rparr>
        \<and> overrideState (evaluations (handleSetOn a v t0) es) = Some d
        \<and> overrideUntil (evaluations (handleSetOn a v t0) es) = t0 + m * 60000))
 \<and> (overrideUntil b \<noteq> 0 \<and> now < overrideUntil b \<and> overrideState b = Some d' \<longrightarrow>
      evaluate b forecast weather now hours mins
        = (Inr (), (stamp b weather now)\<lparr>currentState := d', characteristicOn := d',
                                         faulted := False, statusFault := False\<rparr>))
 \<and> (overrideUntil b \<noteq> 0 \<and> now \<ge> overrideUntil b \<longrightarrow>
      evaluate b forecast weather now hours mins
        = evaluate (b\<lparr>overrideUntil := 0, overrideState := None,
                      hysteresis := (hysteresis b)\<lparr>state := currentState b, lastFlip := Num 0\<rparr>\<rparr>)
            forecast weather now hours mins
    \<and> overrideUntil (snd (evaluate b forecast weather now hours mins)) = 0
    \<and> overrideState (snd (evaluate b forecast weather now hours mins)) = None
    \<and> (\<not> isWithinQuietHours (platform b) hours mins
        \<and> desiredSignal b forecast weather = Inr x \<longrightarrow>
          currentState (snd (evaluate b forecast weather now hours mins)) = x
        \<and> hysteresis (snd (evaluate b forecast weather now hours mins))
            = (hysteresis b)\<lparr>state := x, lastFlip := Num now\<rparr>))
 \<and> (overrideMinutes a = None \<or> (overrideMinutes a = Some m \<and> m \<le> 0) \<longrightarrow>
      handleSetOn a v t0 =
        a\<lparr>currentState := (v = BoolValue True \<or> v = NumberValue 1),
          characteristicOn := (v = BoolValue True \<or> v = NumberValue 1),
          hysteresis := (hysteresis a)
                          \<lparr>state := (v = BoolValue True \<or> v = NumberValue 1), lastFlip := Num 0\<rparr>\<rparr>
    \<and> overrideUntil (handleSetOn a v t0) = overrideUntil a
    \<and> overrideState (handleSetOn a v t0) = overrideState a)"
proof -
  have toggle: "overrideMinutes a = Some m \<and> m > 0 \<and> 0 \<le> t0
      \<and> d = (v = BoolValue True \<or> v = NumberValue 1) \<longrightarrow>
      currentState (handleSetOn a v t0) = d
    \<and> overrideState (handleSetOn a v t0) = Some d
    \<and> overrideUntil (handleSetOn a v t0) = t0 + m * 60000
    \<and> hysteresis (handleSetOn a v t0)
        = (hysteresis a)\<lparr>state := d, lastFlip := Num 0\<rparr>
    \<and> ((\<forall>e \<in> set es. evalTime e < t0 + m * 60000) \<longrightarrow>
          currentState (evaluations (handleSetOn a v t0) es) = d
        \<and> characteristicOn (evaluations (handleSetOn a v t0) es) = d
        \<and> hysteresis (evaluations (handleSetOn a v t0) es)
            = (hysteresis a)\<lparr>state := d, lastFlip := Num 0\<rparr>
        \<and> overrideState (evaluations (handleSetOn a v t0) es) = Some d
        \<and> overrideUntil (evaluations (handleSetOn a v t0) es) = t0 + m * 60000)"
  proof (intro impI)
    assume h: "overrideMinutes a = Some m \<and> m > 0 \<and> 0 \<le> t0
      \<and> d = (v = BoolValue True \<or> v = NumberValue 1)"
    let ?t = "handleSetOn a v t0"
    have eq: "?t = a\<lparr>currentState := d, characteristicOn := d, overrideState := Some d,
                     overrideUntil := t0 + m * 60000,
                     hysteresis := (hysteresis a)\<lparr>state := d, lastFlip := Num 0\<rparr>\<rparr>"
      using h handleSetOn_override [of a m v t0] by simp
    have f: "currentState ?t = d" "characteristicOn ?t = d" "overrideState ?t = Some d"
      "overrideUntil ?t = t0 + m * 60000" "hysteresis ?t
          = (hysteresis a)\<lparr>state := d, lastFlip := Num 0\<rparr>"
      by (simp_all add: eq)
    have pos: "overrideUntil ?t \<noteq> 0"
    proof -
      have "0 < m * 60000" using h by simp
      then have "0 < t0 + m * 60000" using h by linarith
      then show ?thesis by (simp add: f)
    qed
    have win: "(\<forall>e \<in> set es. evalTime e < t0 + m * 60000) \<longrightarrow>
          currentState (evaluations ?t es) = d
        \<and> characteristicOn (evaluations ?t es) = d
        \<and> hysteresis (evaluations ?t es)
            = (hysteresis a)\<lparr>state := d, lastFlip := Num 0\<rparr>
        \<and> overrideState (evaluations ?t es) = Some d
        \<and> overrideUntil (evaluations ?t es) = t0 + m * 60000"
    proof
      assume "\<forall>e \<in> set es. evalTime e < t0 + m * 60000"
      then have "\<forall>e \<in> set es. evalTime e < overrideUntil ?t" by (simp add: f)
      from evaluations_in_window [OF pos f(3) this] f
      show "currentState (evaluations ?t es) = d
        \<and> characteristicOn (evaluations ?t es) = d
        \<and> hysteresis (evaluations ?t es)
            = (hysteresis a)\<lparr>state := d, lastFlip := Num 0\<rparr>
        \<and> overrideState (evaluations ?t es) = Some d
        \<and> overrideUntil (evaluations ?t es) = t0 + m * 60000"
        by simp
    qed
    from f win show "currentState ?t = d
    \<and> overrideState ?t = Some d
    \<and> overrideUntil ?t = t0 + m * 60000
    \<and> hysteresis ?t = (hysteresis a)\<lparr>state := d, lastFlip := Num 0\<rparr>
    \<and> ((\<forall>e \<in> set es. evalTime e < t0 + m * 60000) \<longrightarrow>
          currentState (evaluations ?t es) = d
        \<and> characteristicOn (evaluations ?t es) = d
        \<and> hysteresis (evaluations ?t es)
            = (hysteresis a)\<lparr>state := d, lastFlip := Num 0\<rparr>
        \<and> overrideState (evaluations ?t es) = Some d
        \<and> overrideUntil (evaluations ?t es) = t0 + m * 60000)"
      by (intro conjI)
  qed
  have inside: "overrideUntil b \<noteq> 0 \<and> now < overrideUntil b \<and> overrideState b = Some d' \<longrightarrow>
      evaluate b forecast weather now hours mins
        = (Inr (), (stamp b weather now)\<lparr>currentState := d', characteristicOn := d',
                                         faulted := False, statusFault := False\<rparr>)"
    using evaluate_in_window [of b now d' forecast weather hours mins] by blast
  have expiry: "overrideUntil b \<noteq> 0 \<and> now \<ge> overrideUntil b \<longrightarrow>
      evaluate b forecast weather now hours mins
        = evaluate (b\<lparr>overrideUntil := 0, overrideState := None,
                      hysteresis := (hysteresis b)\<lparr>state := currentState b, lastFlip := Num 0\<rparr>\<rparr>)
            forecast weather now hours mins
    \<and> overrideUntil (snd (evaluate b forecast weather now hours mins)) = 0
    \<and> overrideState (snd (evaluate b forecast weather now hours mins)) = None
    \<and> (\<not> isWithinQuietHours (platform b) hours mins
        \<and> desiredSignal b forecast weather = Inr x \<longrightarrow>
          currentState (snd (evaluate b forecast weather now hours mins)) = x
        \<and> hysteresis (snd (evaluate b forecast weather now hours mins))
            = (hysteresis b)\<lparr>state := x, lastFlip := Num now\<rparr>)"
  proof (intro impI)
    assume h: "overrideUntil b \<noteq> 0 \<and> now \<ge> overrideUntil b"
    let ?c = "b\<lparr>overrideUntil := 0, overrideState := None,
                hysteresis := (hysteresis b)\<lparr>state := currentState b, lastFlip := Num 0\<rparr>\<rparr>"
    have e: "evaluate b forecast weather now hours mins
               = evaluate ?c forecast weather now hours mins"
      using h by (simp add: evaluate_expired gate_reset_def)
    have "overrideUntil ?c = 0" by simp
    from evaluate_no_override_fields [OF this, of forecast weather now hours mins]
    have g: "overrideUntil (snd (evaluate b forecast weather now hours mins)) = 0"
      "overrideState (snd (evaluate b forecast weather now hours mins)) = None"
      unfolding e by simp_all
    have r: "\<not> isWithinQuietHours (platform b) hours mins
        \<and> desiredSignal b forecast weather = Inr x \<longrightarrow>
          currentState (snd (evaluate b forecast weather now hours mins)) = x
        \<and> hysteresis (snd (evaluate b forecast weather now hours mins))
            = (hysteresis b)\<lparr>state := x, lastFlip := Num now\<rparr>"
      using h evaluate_expired_resumes [of b now hours mins forecast weather x] by blast
    from e g r show "evaluate b forecast weather now hours mins
        = evaluate ?c forecast weather now hours mins
    \<and> overrideUntil (snd (evaluate b forecast weather now hours mins)) = 0
    \<and> overrideState (snd (evaluate b forecast weather now hours mins)) = None
    \<and> (\<not> isWithinQuietHours (platform b) hours mins
        \<and> desiredSignal b forecast weather = Inr x \<longrightarrow>
          currentState (snd (evaluate b forecast weather now hours mins)) = x
        \<and> hysteresis (snd (evaluate b forecast weather now hours mins))
            = (hysteresis b)\<lparr>state := x, lastFlip := Num now\<rparr>)"
      by (intro conjI)
  qed
  have plain: "overrideMinutes a = None \<or> (overrideMinutes a = Some m \<and> m \<le> 0) \<longrightarrow>
      handleSetOn a v t0 =
        a\<lparr>currentState := (v = BoolValue True \<or> v = NumberValue 1),
          characteristicOn := (v = BoolValue True \<or> v = NumberValue 1),
          hysteresis := (hysteresis a)
                          \<lparr>state := (v = BoolValue True \<or> v = NumberValue 1), lastFlip := Num 0\<rparr>\<rparr>
    \<and> overrideUntil (handleSetOn a v t0) = overrideUntil a
    \<and> overrideState (handleSetOn a v t0) = overrideState a"
  proof
    assume h: "overrideMinutes a = None \<or> (overrideMinutes a = Some m \<and> m \<le> 0)"
    from handleSetOn_plain [OF h, of v t0]
    show "handleSetOn a v t0 =
        a\<lparr>currentState := (v = BoolValue True \<or> v = NumberValue 1),
          characteristicOn := (v = BoolValue True \<or> v = NumberValue 1),
          hysteresis := (hysteresis a)
                          \<lparr>state := (v = BoolValue True \<or> v = NumberValue 1), lastFlip := Num 0\<rparr>\<rparr>
    \<and> overrideUntil (handleSetOn a v t0) = overrideUntil a
    \<and> overrideState (handleSetOn a v t0) = overrideState a"
      by simp
  qed
  from toggle inside expiry plain show ?thesis by (intro conjI)
qed

lemma evaluate_keeps_config:
  "config (snd (evaluate a forecast weather now hours mins)) = config a
   \<and> platform (snd (evaluate a forecast weather now hours mins)) = platform a"
proof (cases "overrideUntil a = 0")
  case True
  show ?thesis
    unfolding evaluate_no_override [OF True]
    by (cases "desiredSignal a forecast weather")
       (simp_all add: stamp_def clearFault_def updateState_def)
next
  case nz: False
  show ?thesis
  proof (cases "now < overrideUntil a \<and> overrideState a \<noteq> None")
    case True
    then obtain d where "overrideState a = Some d" by auto
    with True nz show ?thesis
      by (simp add: evaluate_in_window stamp_def)
  next
    case False
    show ?thesis
    proof (cases "now < overrideUntil a")
      case True
      with False have "overrideState a = None" by simp
      with True nz show ?thesis
        unfolding evaluate_def Let_def
        by (cases "desiredSignal (stamp a weather now) forecast weather")
           (simp_all add: stamp_def clearFault_def updateState_def)
    next
      case False
      then have ge: "now \<ge> overrideUntil a" by simp
      let ?c = "a\<lparr>overrideUntil := 0, overrideState := None,
                hysteresis := gate_reset (hysteresis a) (currentState a)\<rparr>"
      have z: "overrideUntil ?c = 0" by simp
      show ?thesis
        unfolding evaluate_expired [OF nz ge] evaluate_no_override [OF z]
        by (cases "desiredSignal ?c forecast weather")
           (simp_all add: stamp_def clearFault_def updateState_def)
    qed
  qed
qed

lemma evaluations_keep_config:
  "config (evaluations a es) = config a \<and> platform (evaluations a es) = platform a"
proof (induction es arbitrary: a)
  case Nil
  then show ?case by simp
next
  case (Cons e es)
  obtain forecast weather now hours mins where e: "e = (forecast, weather, now, hours, mins)"
    by (cases e)
  show ?case
    unfolding e by (simp add: Cons.IH evaluate_keeps_config)
qed

theorem manual_override_between_evaluations_witness:
  "currentState (evaluations
      (handleSetOn
         (newRainAccessory
            \<lparr>p_minOnMs = Num 300000, p_minOffMs = Num 300000, p_overrideMinutes = Some 30,
             quietSchedule = None\<rparr>
            \<lparr>atype = RainNow, thresholdMmPerHr = None, lookaheadMinutes = None,
             popThreshold = None, intensityThresholdMmPerHr = None\<rparr>)
         (BoolValue True) 1000000)
      [(\<lambda>l. Inr [],
        \<lparr>ts = 1600000, providerName = ''NOAA/NWS'', precipMmHr = 0, pop = None,
         ptype = NoPrecip, temperatureC = None\<rparr>, 1600000, 12, 10),
       (\<lambda>l. Inr [],
        \<lparr>ts = 2740000, providerName = ''NOAA/NWS'', precipMmHr = 0, pop = None,
         ptype = NoPrecip, temperatureC = None\<rparr>, 2740000, 12, 29)]) = True
   \<and> overrideUntil (evaluations
      (handleSetOn
         (newRainAccessory
            \<lparr>p_minOnMs = Num 300000, p_minOffMs = Num 300000, p_overrideMinutes = Some 30,
             quietSchedule = None\<rparr>
            \<lparr>atype = RainNow, thresholdMmPerHr = None, lookaheadMinutes = None,
             popThreshold = None, intensityThresholdMmPerHr = None\<rparr>)
         (BoolValue True) 1000000)
      [(\<lambda>l. Inr [],
        \<lparr>ts = 1600000, providerName = ''NOAA/NWS'', precipMmHr = 0, pop = None,
         ptype = NoPrecip, temperatureC = None\<rparr>, 1600000, 12, 10),
       (\<lambda>l. Inr [],
        \<lparr>ts = 2740000, providerName = ''NOAA/NWS'', precipMmHr = 0, pop = None,
         ptype = NoPrecip, temperatureC = None\<rparr>, 2740000, 12, 29)]) = 2800000
   \<and> currentState (snd (evaluate (evaluations
      (handleSetOn
         (newRainAccessory
            \<lparr>p_minOnMs = Num 300000, p_minOffMs = Num 300000, p_overrideMinutes = Some 30,
             quietSchedule = None\<rparr>
            \<lparr>atype = RainNow, thresholdMmPerHr = None, lookaheadMinutes = None,
             popThreshold = None, intensityThresholdMmPerHr = None\<rparr>)
         (BoolValue True) 1000000)
      [(\<lambda>l. Inr [],
        \<lparr>ts = 1600000, providerName = ''NOAA/NWS'', precipMmHr = 0, pop = None,
         ptype = NoPrecip, temperatureC = None\<rparr>, 1600000, 12, 10),
       (\<lambda>l. Inr [],
        \<lparr>ts = 2740000, providerName = ''NOAA/NWS'', precipMmHr = 0, pop = None,
         ptype = NoPrecip, temperatureC = None\<rparr>, 2740000, 12, 29)])
      (\<lambda>l. Inr [])
      \<lparr>ts = 2860000, providerName = ''NOAA/NWS'', precipMmHr = 0, pop = None,
       ptype = NoPrecip, temperatureC = None\<rparr> 2860000 12 31)) = False
   \<and> overrideUntil (snd (evaluate (evaluations
      (handleSetOn
         (newRainAccessory
            \<lparr>p_minOnMs = Num 300000, p_minOffMs = Num 300000, p_overrideMinutes = Some 30,
             quietSchedule = None\<rparr>
            \<lparr>atype = RainNow, thresholdMmPerHr = None, lookaheadMinutes = None,
             popThreshold = None, intensityThresholdMmPerHr = None\<rparr>)
         (BoolValue True) 1000000)
      [(\<lambda>l. Inr [],
        \<lparr>ts = 1600000, providerName = ''NOAA/NWS'', precipMmHr = 0, pop = None,
         ptype = NoPrecip, temperatureC = None\<rparr>, 1600000, 12, 10),
       (\<lambda>l. Inr [],
        \<lparr>ts = 2740000, providerName = ''NOAA/NWS'', precipMmHr = 0, pop = None,
         ptype = NoPrecip, temperatureC = None\<rparr>, 2740000, 12, 29)])
      (\<lambda>l. Inr [])
      \<lparr>ts = 2860000, providerName = ''NOAA/NWS'', precipMmHr = 0, pop = None,
       ptype = NoPrecip, temperatureC = None\<rparr> 2860000 12 31)) = 0
   \<and> overrideUntil (handleSetOn
         (newRainAccessory
            \<lparr>p_minOnMs = Num 300000, p_minOffMs = Num 300000, p_overrideMinutes = None,
             quietSchedule = None\<rparr>
            \<lparr>atype = RainNow, thresholdMmPerHr = None, lookaheadMinutes = None,
             popThreshold = None, intensityThresholdMmPerHr = None\<rparr>)
         (BoolValue True) 1000000) = 0
   \<and> hysteresis (handleSetOn
         (newRainAccessory
            \<lparr>p_minOnMs = Num 300000, p_minOffMs = Num 300000, p_overrideMinutes = None,
             quietSchedule = None\<rparr>
            \<lparr>atype = RainNow, thresholdMmPerHr = None, lookaheadMinutes = None,
             popThreshold = None, intensityThresholdMmPerHr = None\<rparr>)
         (BoolValue True) 1000000)
       = \<lparr>minOn = 300000, minOff = 300000, state = True, lastFlip = Num 0\<rparr>
   \<and> hysteresis (evaluations
      (handleSetOn
         (newRainAccessory
            \<lparr>p_minOnMs = Num 300000, p_minOffMs = Num 300000, p_overrideMinutes = Some 30,
             quietSchedule = None\<rparr>
            \<lparr>atype = RainNow, thresholdMmPerHr = None, lookaheadMinutes = None,
             popThreshold = None, intensityThresholdMmPerHr = None\<rparr>)
         (BoolValue True) 1000000)
      [(\<lambda>l. Inr [],
        \<lparr>ts = 1600000, providerName = ''NOAA/NWS'', precipMmHr = 0, pop = None,
         ptype = NoPrecip, temperatureC = None\<rparr>, 1600000, 12, 10),
       (\<lambda>l. Inr [],
        \<lparr>ts = 2740000, providerName = ''NOAA/NWS'', precipMmHr = 0, pop = None,
         ptype = NoPrecip, temperatureC = None\<rparr>, 2740000, 12, 29)])
       = \<lparr>minOn = 300000, minOff = 300000, state = True, lastFlip = Num 0\<rparr>"
proof -
  let ?pf = "\<lparr>p_minOnMs = Num 300000, p_minOffMs = Num 300000, p_overrideMinutes = Some 30,
             quietSchedule = None\<rparr>"
  let ?pn = "\<lparr>p_minOnMs = Num 300000, p_minOffMs = Num 300000, p_overrideMinutes = None,
             quietSchedule = None\<rparr>"
  let ?cfg = "\<lparr>atype = RainNow, thresholdMmPerHr = None, lookaheadMinutes = None,
             popThreshold = None, intensityThresholdMmPerHr = None\<rparr>"
  let ?f = "\<lambda>l::real. Inr [] :: error + WeatherForecastSlice list"
  let ?es = "[(?f,
        \<lparr>ts = 1600000, providerName = ''NOAA/NWS'', precipMmHr = 0, pop = None,
         ptype = NoPrecip, temperatureC = None\<rparr>, 1600000, 12, 10),
       (?f,
        \<lparr>ts = 2740000, providerName = ''NOAA/NWS'', precipMmHr = 0, pop = None,
         ptype = NoPrecip, temperatureC = None\<rparr>, 2740000, 12, 29)]"
  let ?dry = "\<lparr>ts = 2860000, providerName = ''NOAA/NWS'', precipMmHr = 0, pop = None,
       ptype = NoPrecip, temperatureC = None\<rparr>"
  let ?a = "newRainAccessory ?pf ?cfg"
  let ?n = "newRainAccessory ?pn ?cfg"
  let ?b = "evaluations (handleSetOn ?a (BoolValue True) 1000000) ?es"
  note T = manual_override_between_evaluations
             [where a = ?a and m = 30 and ?t0.0 = 1000000 and d = True and v = "BoolValue True"
                and es = ?es and b = ?b and now = 2860000 and d' = True and forecast = ?f
                and weather = ?dry and hours = 12 and mins = 31 and x = False]
  have h1: "overrideMinutes ?a = Some 30 \<and> (30::real) > 0 \<and> (0::real) \<le> 1000000
      \<and> True = (BoolValue True = BoolValue True \<or> BoolValue True = NumberValue 1)"
    by (simp add: newRainAccessory_def)
  have h2: "\<forall>e \<in> set ?es. evalTime e < 1000000 + 30 * 60000" by simp
  note W = T [THEN conjunct1, THEN mp, OF h1, THEN conjunct2, THEN conjunct2, THEN conjunct2,
              THEN conjunct2, THEN mp, OF h2]
  from W have w1: "currentState ?b = True" by blast
  from W have w2: "overrideUntil ?b = 2800000" by simp
  have c0: "config (handleSetOn ?a (BoolValue True) 1000000) = ?cfg"
    "platform (handleSetOn ?a (BoolValue True) 1000000) = ?pf"
    by (simp_all add: handleSetOn_def Let_def newRainAccessory_def)
  have cfg: "config ?b = ?cfg" "platform ?b = ?pf"
    using evaluations_keep_config [of "handleSetOn ?a (BoolValue True) 1000000" ?es] c0
    by (simp_all del: evaluations.simps)
  have h3: "overrideUntil ?b \<noteq> 0 \<and> 2860000 \<ge> overrideUntil ?b"
    by (simp add: w2 del: evaluations.simps)
  have h4: "\<not> isWithinQuietHours (platform ?b) 12 31
        \<and> desiredSignal ?b ?f ?dry = Inr False"
    by (simp add: cfg isWithinQuietHours_def desiredSignal_def isRain_def
          del: evaluations.simps)
  note E = T [THEN conjunct2, THEN conjunct2, THEN conjunct1, THEN mp, OF h3]
  from E have e1: "overrideUntil (snd (evaluate ?b ?f ?dry 2860000 12 31)) = 0" by blast
  from E [THEN conjunct2, THEN conjunct2, THEN conjunct2, THEN mp, OF h4]
  have e2: "currentState (snd (evaluate ?b ?f ?dry 2860000 12 31)) = False" by blast
  note P = manual_override_between_evaluations
             [where a = ?n and m = 30 and ?t0.0 = 1000000 and d = True and v = "BoolValue True"
                and es = ?es and b = ?b and now = 2860000 and d' = True and forecast = ?f
                and weather = ?dry and hours = 12 and mins = 31 and x = False]
  have h5: "overrideMinutes ?n = None \<or> (overrideMinutes ?n = Some 30 \<and> (30::real) \<le> 0)"
    by (simp add: newRainAccessory_def)
  note Q = P [THEN conjunct2, THEN conjunct2, THEN conjunct2, THEN mp, OF h5]
  from Q have p1: "overrideUntil (handleSetOn ?n (BoolValue True) 1000000) = 0"
    by (simp add: newRainAccessory_def)
  have g0: "hysteresis ?n = \<lparr>minOn = 300000, minOff = 300000, state = False, lastFlip = Num 0\<rparr>"
    "hysteresis ?a = \<lparr>minOn = 300000, minOff = 300000, state = False, lastFlip = Num 0\<rparr>"
    by (simp_all add: newRainAccessory_def makeHysteresis_def getHysteresisConfig_def)
  from Q have p2: "hysteresis (handleSetOn ?n (BoolValue True) 1000000)
      = \<lparr>minOn = 300000, minOff = 300000, state = True, lastFlip = Num 0\<rparr>"
    by (simp add: g0)
  from W have w3: "hysteresis ?b
      = \<lparr>minOn = 300000, minOff = 300000, state = True, lastFlip = Num 0\<rparr>"
    by (simp add: g0 del: evaluations.simps)
  from w1 w2 e1 e2 p1 p2 w3 show ?thesis by (intro conjI)
qed


text \<open>
  An evaluation that nothing interrupts is the part before the \<open>await\<close> followed at once
  by the part after it.
\<close>

lemma evaluate_finishEvaluate:
  assumes "\<not> (overrideUntil a \<noteq> 0 \<and> now < overrideUntil a \<and> overrideState a \<noteq> None)"
  shows "evaluate a forecast weather now hours mins =
     finishEvaluate
       (if overrideUntil a \<noteq> 0 \<and> now \<ge> overrideUntil a
        then (stamp a weather now)\<lparr>overrideUntil := 0, overrideState := None,
               hysteresis := gate_reset (hysteresis (stamp a weather now))
                               (currentState (stamp a weather now))\<rparr>
        else stamp a weather now)
       forecast weather (isWithinQuietHours (platform a) hours mins) now"
proof -
  have o: "overrideUntil (stamp a weather now) = overrideUntil a"
    "overrideState (stamp a weather now) = overrideState a"
    by (simp_all add: stamp_def)
  show ?thesis
    unfolding evaluate_def finishEvaluate_def Let_def o
    by (simp only: assms if_False)
qed

text \<open>
  Claim C4. A manual toggle with a configured override duration is to pin the output at
  the toggled value for the whole override window. The code does not do so when the toggle
  arrives while \<open>evaluate\<close> waits for the forecast. A rain-soon accessory with a 30 minute
  override duration, off and never toggled, begins an evaluation at time 1000000, outside
  quiet hours; the forecast it is waiting for holds a rain slice 30 minutes ahead, with
  probability 50 and intensity 0.3 mm/h, which triggers. The user switches the accessory
  off at time 1000500, before the forecast arrives. When \<open>evaluate\<close> resumes, the override
  is in force (off, until 2800500) and the gate has just been reset by the toggle, so it
  adopts the desired signal: the state and the \<open>On\<close> characteristic are set to on, 500 ms
  into a window that was to hold them off. The next evaluation, one minute later, sets
  both back to off. Had the toggle arrived after the same evaluation returned, the state
  would have been off throughout.
\<close>

theorem toggle_during_forecast_await_is_overwritten:
  "fst (evaluateInterrupted
      (newRainAccessory
         \<lparr>p_minOnMs = Num 300000, p_minOffMs = Num 300000, p_overrideMinutes = Some 30,
          quietSchedule = None\<rparr>
         \<lparr>atype = RainSoon, thresholdMmPerHr = None, lookaheadMinutes = None,
          popThreshold = None, intensityThresholdMmPerHr = None\<rparr>)
      (\<lambda>l. Inr [\<lparr>slice_ts = 2800000, minutesFromNow = 30, slice_providerName = ''NOAA/NWS'',
                  slice_precipMmHr = 3 / 10, slice_pop = Some 50, slice_type = Rain\<rparr>])
      \<lparr>ts = 1000000, providerName = ''NOAA/NWS'', precipMmHr = 0, pop = None,
       ptype = NoPrecip, temperatureC = None\<rparr>
      1000000 12 0 (BoolValue False) 1000500) = Inr ()
   \<and> overrideState (snd (evaluateInterrupted
      (newRainAccessory
         \<lparr>p_minOnMs = Num 300000, p_minOffMs = Num 300000, p_overrideMinutes = Some 30,
          quietSchedule = None\<rparr>
         \<lparr>atype = RainSoon, thresholdMmPerHr = None, lookaheadMinutes = None,
          popThreshold = None, intensityThresholdMmPerHr = None\<rparr>)
      (\<lambda>l. Inr [\<lparr>slice_ts = 2800000, minutesFromNow = 30, slice_providerName = ''NOAA/NWS'',
                  slice_precipMmHr = 3 / 10, slice_pop = Some 50, slice_type = Rain\<rparr>])
      \<lparr>ts = 1000000, providerName = ''NOAA/NWS'', precipMmHr = 0, pop = None,
       ptype = NoPrecip, temperatureC = None\<rparr>
      1000000 12 0 (BoolValue False) 1000500)) = Some False
   \<and> overrideUntil (snd (evaluateInterrupted
      (newRainAccessory
         \<lparr>p_minOnMs = Num 300000, p_minOffMs = Num 300000, p_overrideMinutes = Some 30,
          quietSchedule = None\<rparr>
         \<lparr>atype = RainSoon, thresholdMmPerHr = None, lookaheadMinutes = None,
          popThreshold = None, intensityThresholdMmPerHr = None\<rparr>)
      (\<lambda>l. Inr [\<lparr>slice_ts = 2800000, minutesFromNow = 30, slice_providerName = ''NOAA/NWS'',
                  slice_precipMmHr = 3 / 10, slice_pop = Some 50, slice_type = Rain\<rparr>])
      \<lparr>ts = 1000000, providerName = ''NOAA/NWS'', precipMmHr = 0, pop = None,
       ptype = NoPrecip, temperatureC = None\<rparr>
      1000000 12 0 (BoolValue False) 1000500)) = 2800500
   \<and> currentState (snd (evaluateInterrupted
      (newRainAccessory
         \<lparr>p_minOnMs = Num 300000, p_minOffMs = Num 300000, p_overrideMinutes = Some 30,
          quietSchedule = None\<rparr>
         \<lparr>atype = RainSoon, thresholdMmPerHr = None, lookaheadMinutes = None,
          popThreshold = None, intensityThresholdMmPerHr = None\<rparr>)
      (\<lambda>l. Inr [\<lparr>slice_ts = 2800000, minutesFromNow = 30, slice_providerName = ''NOAA/NWS'',
                  slice_precipMmHr = 3 / 10, slice_pop = Some 50, slice_type = Rain\<rparr>])
      \<lparr>ts = 1000000, providerName = ''NOAA/NWS'', precipMmHr = 0, pop = None,
       ptype = NoPrecip, temperatureC = None\<rparr>
      1000000 12 0 (BoolValue False) 1000500)) = True
   \<and> characteristicOn (snd (evaluateInterrupted
      (newRainAccessory
         \<lparr>p_minOnMs = Num 300000, p_minOffMs = Num 300000, p_overrideMinutes = Some 30,
          quietSchedule = None\<rparr>
         \<lparr>atype = RainSoon, thresholdMmPerHr = None, lookaheadMinutes = None,
          popThreshold = None, intensityThresholdMmPerHr = None\<rparr>)
      (\<lambda>l. Inr [\<lparr>slice_ts = 2800000, minutesFromNow = 30, slice_providerName = ''NOAA/NWS'',
                  slice_precipMmHr = 3 / 10, slice_pop = Some 50, slice_type = Rain\<rparr>])
      \<lparr>ts = 1000000, providerName = ''NOAA/NWS'', precipMmHr = 0, pop = None,
       ptype = NoPrecip, temperatureC = None\<rparr>
      1000000 12 0 (BoolValue False) 1000500)) = True
   \<and> currentState (snd (evaluate (snd (evaluateInterrupted
      (newRainAccessory
         \<lparr>p_minOnMs = Num 300000, p_minOffMs = Num 300000, p_overrideMinutes = Some 30,
          quietSchedule = None\<rparr>
         \<lparr>atype = RainSoon, thresholdMmPerHr = None, lookaheadMinutes = None,
          popThreshold = None, intensityThresholdMmPerHr = None\<rparr>)
      (\<lambda>l. Inr [\<lparr>slice_ts = 2800000, minutesFromNow = 30, slice_providerName = ''NOAA/NWS'',
                  slice_precipMmHr = 3 / 10, slice_pop = Some 50, slice_type = Rain\<rparr>])
      \<lparr>ts = 1000000, providerName = ''NOAA/NWS'', precipMmHr = 0, pop = None,
       ptype = NoPrecip, temperatureC = None\<rparr>
      1000000 12 0 (BoolValue False) 1000500))
      (\<lambda>l. Inr [\<lparr>slice_ts = 2800000, minutesFromNow = 29, slice_providerName = ''NOAA/NWS'',
                  slice_precipMmHr = 3 / 10, slice_pop = Some 50, slice_type = Rain\<rparr>])
      \<lparr>ts = 1060000, providerName = ''NOAA/NWS'', precipMmHr = 0, pop = None,
       ptype = NoPrecip, temperatureC = None\<rparr>
      1060000 12 1)) = False
   \<and> currentState (handleSetOn (snd (evaluate
      (newRainAccessory
         \<lparr>p_minOnMs = Num 300000, p_minOffMs = Num 300000, p_overrideMinutes = Some 30,
          quietSchedule = None\<rparr>
         \<lparr>atype = RainSoon, thresholdMmPerHr = None, lookaheadMinutes = None,
          popThreshold = None, intensityThresholdMmPerHr = None\<rparr>)
      (\<lambda>l. Inr [\<lparr>slice_ts = 2800000, minutesFromNow = 30, slice_providerName = ''NOAA/NWS'',
                  slice_precipMmHr = 3 / 10, slice_pop = Some 50, slice_type = Rain\<rparr>])
      \<lparr>ts = 1000000, providerName = ''NOAA/NWS'', precipMmHr = 0, pop = None,
       ptype = NoPrecip, temperatureC = None\<rparr>
      1000000 12 0)) (BoolValue False) 1000500) = False"
proof -
  let ?pf = "\<lparr>p_minOnMs = Num 300000, p_minOffMs = Num 300000, p_overrideMinutes = Some 30,
          quietSchedule = None\<rparr>"
  let ?cfg = "\<lparr>atype = RainSoon, thresholdMmPerHr = None, lookaheadMinutes = None,
          popThreshold = None, intensityThresholdMmPerHr = None\<rparr>"
  let ?f = "\<lambda>l::real. Inr [\<lparr>slice_ts = 2800000, minutesFromNow = 30,
                  slice_providerName = ''NOAA/NWS'',
                  slice_precipMmHr = 3 / 10, slice_pop = Some 50, slice_type = Rain\<rparr>]
                :: error + WeatherForecastSlice list"
  let ?w = "\<lparr>ts = 1000000, providerName = ''NOAA/NWS'', precipMmHr = 0, pop = None,
       ptype = NoPrecip, temperatureC = None\<rparr>"
  let ?a = "newRainAccessory ?pf ?cfg"
  let ?r = "evaluateInterrupted ?a ?f ?w 1000000 12 0 (BoolValue False) 1000500"
  let ?t = "handleSetOn (stamp ?a ?w 1000000) (BoolValue False) 1000500"
  have q: "\<not> isWithinQuietHours ?pf 12 0"
    by (simp add: isWithinQuietHours_def)
  have t: "config ?t = ?cfg" "overrideState ?t = Some False" "overrideUntil ?t = 2800500"
    "hysteresis ?t = \<lparr>minOn = 300000, minOff = 300000, state = False, lastFlip = Num 0\<rparr>"
    "currentState ?t = False"
    by (simp_all add: handleSetOn_def gate_reset_def Let_def stamp_def newRainAccessory_def
          makeHysteresis_def getHysteresisConfig_def)
  have d: "desiredSignal ?t ?f ?w = Inr True"
    by (simp add: desiredSignal_def evaluateForecast_def sliceTriggers_def t(1) Let_def
          DEFAULT_LOOKAHEAD_MINUTES_def DEFAULT_POP_THRESHOLD_def
          DEFAULT_INTENSITY_THRESHOLD_def)
  have r: "?r = finishEvaluate ?t ?f ?w False 1000000"
    using q by (simp add: evaluateInterrupted_def Let_def stamp_def newRainAccessory_def)
  have g: "gate_next (hysteresis ?t) True (Num 1000000)
      = \<lparr>minOn = 300000, minOff = 300000, state = True, lastFlip = Num 1000000\<rparr>"
    unfolding t(4) by (simp add: gate_next_def)
  have fin: "finishEvaluate ?t ?f ?w False 1000000
      = (Inr (), clearFault (updateState
           (?t\<lparr>hysteresis := \<lparr>minOn = 300000, minOff = 300000, state = True,
                                 lastFlip = Num 1000000\<rparr>\<rparr>) True))"
    unfolding finishEvaluate_def d by (simp add: g Let_def)
  have c1: "fst ?r = Inr ()" unfolding r fin by simp
  have c2: "overrideState (snd ?r) = Some False"
    unfolding r fin using t(2) by (simp add: clearFault_def updateState_def)
  have c3: "overrideUntil (snd ?r) = 2800500"
    unfolding r fin using t(3) by (simp add: clearFault_def updateState_def)
  have c4: "currentState (snd ?r) = True"
    unfolding r fin by (simp add: clearFault_def updateState_def)
  have c5: "characteristicOn (snd ?r) = True"
    unfolding r fin by (simp add: clearFault_def updateState_def)
  have c6: "currentState (snd (evaluate (snd ?r)
      (\<lambda>l. Inr [\<lparr>slice_ts = 2800000, minutesFromNow = 29, slice_providerName = ''NOAA/NWS'',
                  slice_precipMmHr = 3 / 10, slice_pop = Some 50, slice_type = Rain\<rparr>])
      \<lparr>ts = 1060000, providerName = ''NOAA/NWS'', precipMmHr = 0, pop = None,
       ptype = NoPrecip, temperatureC = None\<rparr>
      1060000 12 1)) = False"
  proof -
    have nz: "overrideUntil (snd ?r) \<noteq> 0" and lt: "(1060000::real) < overrideUntil (snd ?r)"
      by (simp_all add: c3)
    show ?thesis
      unfolding evaluate_in_window [OF nz lt c2] by simp
  qed
  have c7: "currentState (handleSetOn (snd (evaluate ?a ?f ?w 1000000 12 0))
              (BoolValue False) 1000500) = False"
    by (simp add: handleSetOn_def Let_def split: option.splits)
  from c1 c2 c3 c4 c5 c6 c7 show ?thesis by (intro conjI)
qed

section \<open>Properties of the forecast cache\<close>

lemma pickProvider_opts:
  "pickProvider c fn now = (r, c', called) \<Longrightarrow>
     opts c' = opts c \<and> forecastCache c' = forecastCache c \<and> nowcastCache c' = nowcastCache c
     \<and> providers c' = providers c"
  by (auto simp: pickProvider_def advanceBackoff_def Let_def split: prod.splits sum.splits)

lemma getForecast_fills_cache:
  assumes "getForecast c l force ffn now later = (Inr d, c', called)" and "called \<noteq> []"
  shows "forecastCache c' (roundLookahead l) = Some (d, later) \<and> opts c' = opts c"
proof -
  obtain r c1 called1 where p: "pickProvider c (\<lambda>p. ffn p (roundLookahead l)) later = (r, c1, called1)"
    by (cases "pickProvider c (\<lambda>p. ffn p (roundLookahead l)) later") auto
  from pickProvider_opts [OF p] have o: "opts c1 = opts c" by simp
  from assms p o show ?thesis
    by (auto simp: getForecast_def Let_def split: if_splits option.splits sum.splits)
qed

lemma getForecast_cache_hit:
  assumes "forecastCache c (roundLookahead l) = Some (d, t)"
    and "now - t < cacheTtlSeconds (opts c) * 1000"
  shows "getForecast c l False ffn now later = (Inr d, c, [])"
  using assms by (simp add: getForecast_def Let_def isCacheValid_def)

lemma roundLookahead_least:
  "5 \<le> roundLookahead l \<and> l \<le> roundLookahead l
   \<and> roundLookahead l = of_int (max 1 \<lceil>l / 5\<rceil>) * 5
   \<and> (l \<le> of_int k * 5 \<and> 1 \<le> k \<longrightarrow> roundLookahead l \<le> of_int k * 5)"
proof -
  have up: "l \<le> of_int \<lceil>l / 5\<rceil> * 5"
  proof -
    have "l / 5 \<le> of_int \<lceil>l / 5\<rceil>" by (rule le_of_int_ceiling)
    then show ?thesis by linarith
  qed
  have eq: "roundLookahead l = of_int (max 1 \<lceil>l / 5\<rceil>) * 5"
    by (simp add: roundLookahead_def max_def)
  have least: "l \<le> of_int k * 5 \<and> 1 \<le> k \<longrightarrow> roundLookahead l \<le> of_int k * 5"
  proof
    assume h: "l \<le> of_int k * 5 \<and> 1 \<le> k"
    then have "l / 5 \<le> of_int k" by simp
    then have "\<lceil>l / 5\<rceil> \<le> k" by (simp add: ceiling_le_iff)
    with h have "max 1 \<lceil>l / 5\<rceil> \<le> k" by simp
    then have "(of_int (max 1 \<lceil>l / 5\<rceil>) :: real) \<le> of_int k" by (simp only: of_int_le_iff)
    then show "roundLookahead l \<le> of_int k * 5" unfolding eq by simp
  qed
  have "5 \<le> roundLookahead l" by (simp add: roundLookahead_def)
  moreover have "l \<le> roundLookahead l" using up unfolding roundLookahead_def by linarith
  ultimately show ?thesis using eq least by (intro conjI)
qed

lemma pickLoop_first_answer:
  assumes "\<forall>p \<in> set pre. isl (withTimeout (fn p) tmo)"
    and "withTimeout (fn q) tmo = Inr d"
  shows "pickLoop tmo fn (pre @ q # post) lastError = (Inr d, pre @ [q])"
  using assms(1)
proof (induction pre arbitrary: lastError)
  case Nil
  show ?case using assms(2) by simp
next
  case (Cons p pre)
  from Cons.prems obtain e where e: "withTimeout (fn p) tmo = Inl e"
    by (cases "withTimeout (fn p) tmo") auto
  from Cons.prems have "\<forall>p \<in> set pre. isl (withTimeout (fn p) tmo)" by simp
  from Cons.IH [OF this, of "Some e"] show ?case by (simp add: e)
qed

lemma getForecast_first_answer:
  assumes "providers c = pre @ q # post"
    and "\<forall>p \<in> set pre. isl (withTimeout (ffn p (roundLookahead l)) (timeoutMs (opts c)))"
    and "withTimeout (ffn q (roundLookahead l)) (timeoutMs (opts c)) = Inr d"
    and "force \<or> \<not> isCacheValid (opts c) now (forecastCache c (roundLookahead l))"
    and "\<not> backoffActive c now"
  shows "getForecast c l force ffn now later =
     (Inr d,
      c\<lparr>backoffIndex := 0, nextAllowedTs := Some 0,
        forecastCache := (forecastCache c)(roundLookahead l \<mapsto> (d, later))\<rparr>,
      pre @ [q])"
proof -
  have "pickLoop (timeoutMs (opts c)) (\<lambda>p. ffn p (roundLookahead l)) (pre @ q # post) None
          = (Inr d, pre @ [q])"
    by (rule pickLoop_first_answer) (use assms(2,3) in simp_all)
  then have "pickProvider c (\<lambda>p. ffn p (roundLookahead l)) later
          = (Inr d, c\<lparr>backoffIndex := 0, nextAllowedTs := Some 0\<rparr>, pre @ [q])"
    by (simp add: pickProvider_def assms(1))
  with assms(4,5) show ?thesis
    by (auto simp: getForecast_def Let_def)
qed

text \<open>
  Claim C6, as the code has it. \<open>getForecast\<close> works on the requested lookahead rounded up
  to the next multiple of 5, and at least 5: the least multiple of 5, from 5 on, that is
  not below the request; 62 and 63 both give 65. Two requests with the same rounded
  lookahead are the same call. After a call that went to the providers and succeeded, the
  result is in the cache under the rounded lookahead with the time of the answer, and an
  unforced call made after that one has returned, whose lookahead rounds to the same value
  and which begins before the TTL has passed since the answer, returns the same slices,
  calls no provider and leaves the chain unchanged. The call that went to the providers
  called them in the order of the chain up to the first that answered: when the providers
  before \<open>q\<close> all fail or time out and \<open>q\<close> answers, it calls each of them once and then
  \<open>q\<close>, and nothing after \<open>q\<close>. The two calls together make exactly one upstream call
  exactly when the first provider of the chain is the one that answers.
\<close>

theorem forecast_cache_keyed_by_rounded_lookahead:
  "5 \<le> roundLookahead l \<and> l \<le> roundLookahead l
   \<and> roundLookahead l = of_int (max 1 \<lceil>l / 5\<rceil>) * 5
   \<and> (l \<le> of_int k * 5 \<and> 1 \<le> k \<longrightarrow> roundLookahead l \<le> of_int k * 5)
   \<and> roundLookahead 62 = 65 \<and> roundLookahead 63 = 65
   \<and> (roundLookahead l2 = roundLookahead l \<longrightarrow>
        getForecast c l2 force ffn now later = getForecast c l force ffn now later)
   \<and> (getForecast c l force ffn now later = (Inr d, c', called) \<and> called \<noteq> []
        \<and> roundLookahead l2 = roundLookahead l
        \<and> now2 - later < cacheTtlSeconds (opts c) * 1000 \<longrightarrow>
          forecastCache c' (roundLookahead l) = Some (d, later)
        \<and> getForecast c' l2 False ffn2 now2 later2 = (Inr d, c', []))
   \<and> (providers c = pre @ q # post
        \<and> (\<forall>p \<in> set pre. isl (withTimeout (ffn p (roundLookahead l)) (timeoutMs (opts c))))
        \<and> withTimeout (ffn q (roundLookahead l)) (timeoutMs (opts c)) = Inr d
        \<and> (force \<or> \<not> isCacheValid (opts c) now (forecastCache c (roundLookahead l)))
        \<and> \<not> backoffActive c now
        \<and> roundLookahead l2 = roundLookahead l
        \<and> now2 - later < cacheTtlSeconds (opts c) * 1000 \<longrightarrow>
          getForecast c l force ffn now later =
            (Inr d,
             c\<lparr>backoffIndex := 0, nextAllowedTs := Some 0,
               forecastCache := (forecastCache c)(roundLookahead l \<mapsto> (d, later))\<rparr>,
             pre @ [q])
        \<and> getForecast
             (c\<lparr>backoffIndex := 0, nextAllowedTs := Some 0,
                forecastCache := (forecastCache c)(roundLookahead l \<mapsto> (d, later))\<rparr>)
             l2 False ffn2 now2 later2 =
            (Inr d,
             c\<lparr>backoffIndex := 0, nextAllowedTs := Some 0,
               forecastCache := (forecastCache c)(roundLookahead l \<mapsto> (d, later))\<rparr>,
             [])
        \<and> length (snd (snd (getForecast c l force ffn now later)))
            + length (snd (snd (getForecast
                (fst (snd (getForecast c l force ffn now later)))
                l2 False ffn2 now2 later2)))
            = length pre + 1
        \<and> ((length (snd (snd (getForecast c l force ffn now later)))
            + length (snd (snd (getForecast
                (fst (snd (getForecast c l force ffn now later)))
                l2 False ffn2 now2 later2))) = 1) = (pre = [])))"
proof -
  have r: "roundLookahead 62 = 65" "roundLookahead 63 = 65"
    by (simp_all add: roundLookahead_def)
  have same: "roundLookahead l2 = roundLookahead l \<longrightarrow>
        getForecast c l2 force ffn now later = getForecast c l force ffn now later"
    by (simp add: getForecast_def)
  have hit: "getForecast c l force ffn now later = (Inr d, c', called) \<and> called \<noteq> []
        \<and> roundLookahead l2 = roundLookahead l
        \<and> now2 - later < cacheTtlSeconds (opts c) * 1000 \<longrightarrow>
          forecastCache c' (roundLookahead l) = Some (d, later)
        \<and> getForecast c' l2 False ffn2 now2 later2 = (Inr d, c', [])"
  proof
    assume h: "getForecast c l force ffn now later = (Inr d, c', called) \<and> called \<noteq> []
        \<and> roundLookahead l2 = roundLookahead l
        \<and> now2 - later < cacheTtlSeconds (opts c) * 1000"
    then have f: "forecastCache c' (roundLookahead l) = Some (d, later)" "opts c' = opts c"
      using getForecast_fills_cache [of c l force ffn now later d c' called] by simp_all
    from h f have "forecastCache c' (roundLookahead l2) = Some (d, later)"
      "now2 - later < cacheTtlSeconds (opts c') * 1000" by simp_all
    then have "getForecast c' l2 False ffn2 now2 later2 = (Inr d, c', [])"
      by (rule getForecast_cache_hit)
    with f show "forecastCache c' (roundLookahead l) = Some (d, later)
        \<and> getForecast c' l2 False ffn2 now2 later2 = (Inr d, c', [])" by simp
  qed
  let ?c1 = "c\<lparr>backoffIndex := 0, nextAllowedTs := Some 0,
               forecastCache := (forecastCache c)(roundLookahead l \<mapsto> (d, later))\<rparr>"
  have calls: "providers c = pre @ q # post
        \<and> (\<forall>p \<in> set pre. isl (withTimeout (ffn p (roundLookahead l)) (timeoutMs (opts c))))
        \<and> withTimeout (ffn q (roundLookahead l)) (timeoutMs (opts c)) = Inr d
        \<and> (force \<or> \<not> isCacheValid (opts c) now (forecastCache c (roundLookahead l)))
        \<and> \<not> backoffActive c now
        \<and> roundLookahead l2 = roundLookahead l
        \<and> now2 - later < cacheTtlSeconds (opts c) * 1000 \<longrightarrow>
          getForecast c l force ffn now later = (Inr d, ?c1, pre @ [q])
        \<and> getForecast ?c1 l2 False ffn2 now2 later2 = (Inr d, ?c1, [])
        \<and> length (snd (snd (getForecast c l force ffn now later)))
            + length (snd (snd (getForecast
                (fst (snd (getForecast c l force ffn now later)))
                l2 False ffn2 now2 later2)))
            = length pre + 1
        \<and> ((length (snd (snd (getForecast c l force ffn now later)))
            + length (snd (snd (getForecast
                (fst (snd (getForecast c l force ffn now later)))
                l2 False ffn2 now2 later2))) = 1) = (pre = []))"
  proof
    assume h: "providers c = pre @ q # post
        \<and> (\<forall>p \<in> set pre. isl (withTimeout (ffn p (roundLookahead l)) (timeoutMs (opts c))))
        \<and> withTimeout (ffn q (roundLookahead l)) (timeoutMs (opts c)) = Inr d
        \<and> (force \<or> \<not> isCacheValid (opts c) now (forecastCache c (roundLookahead l)))
        \<and> \<not> backoffActive c now
        \<and> roundLookahead l2 = roundLookahead l
        \<and> now2 - later < cacheTtlSeconds (opts c) * 1000"
    have first: "getForecast c l force ffn now later = (Inr d, ?c1, pre @ [q])"
      by (rule getForecast_first_answer) (use h in simp_all)
    have "forecastCache ?c1 (roundLookahead l2) = Some (d, later)"
      "now2 - later < cacheTtlSeconds (opts ?c1) * 1000"
      using h by simp_all
    then have second: "getForecast ?c1 l2 False ffn2 now2 later2 = (Inr d, ?c1, [])"
      by (rule getForecast_cache_hit)
    have n: "length (snd (snd (getForecast c l force ffn now later)))
            + length (snd (snd (getForecast
                (fst (snd (getForecast c l force ffn now later)))
                l2 False ffn2 now2 later2)))
            = length pre + 1"
      unfolding first by (simp add: second)
    have one: "(length (snd (snd (getForecast c l force ffn now later)))
            + length (snd (snd (getForecast
                (fst (snd (getForecast c l force ffn now later)))
                l2 False ffn2 now2 later2))) = 1) = (pre = [])"
      unfolding n by simp
    from first second n one
    show "getForecast c l force ffn now later = (Inr d, ?c1, pre @ [q])
        \<and> getForecast ?c1 l2 False ffn2 now2 later2 = (Inr d, ?c1, [])
        \<and> length (snd (snd (getForecast c l force ffn now later)))
            + length (snd (snd (getForecast
                (fst (snd (getForecast c l force ffn now later)))
                l2 False ffn2 now2 later2)))
            = length pre + 1
        \<and> ((length (snd (snd (getForecast c l force ffn now later)))
            + length (snd (snd (getForecast
                (fst (snd (getForecast c l force ffn now later)))
                l2 False ffn2 now2 later2))) = 1) = (pre = []))"
      by (intro conjI)
  qed
  from roundLookahead_least [of l k] r same hit calls show ?thesis by (intro conjI) blast+
qed

theorem forecast_cache_keyed_by_rounded_lookahead_witness:
  "getForecast
      \<lparr>opts = DEFAULT_OPTIONS,
       providers = [WeatherKitProvider, OpenWeatherMapProvider, NwsProvider, TomorrowProvider],
       nowcastCache = None, forecastCache = Map.empty, backoffIndex = 0,
       nextAllowedTs = Some 0\<rparr>
      62 False
      (\<lambda>p l. if p = WeatherKitProvider then Pending
              else if p = OpenWeatherMapProvider then Rejected (UpstreamError ''HTTP 503'')
              else Resolved [\<lparr>slice_ts = 1801200, minutesFromNow = 30,
                               slice_providerName = name p, slice_precipMmHr = l,
                               slice_pop = Some 50, slice_type = Rain\<rparr>])
      1000 6200
    = (Inr [\<lparr>slice_ts = 1801200, minutesFromNow = 30, slice_providerName = ''NOAA/NWS'',
              slice_precipMmHr = 65, slice_pop = Some 50, slice_type = Rain\<rparr>],
       \<lparr>opts = DEFAULT_OPTIONS,
        providers = [WeatherKitProvider, OpenWeatherMapProvider, NwsProvider, TomorrowProvider],
        nowcastCache = None,
        forecastCache = [65 \<mapsto>
          ([\<lparr>slice_ts = 1801200, minutesFromNow = 30, slice_providerName = ''NOAA/NWS'',
              slice_precipMmHr = 65, slice_pop = Some 50, slice_type = Rain\<rparr>], 6200)],
        backoffIndex = 0, nextAllowedTs = Some 0\<rparr>,
       [WeatherKitProvider, OpenWeatherMapProvider, NwsProvider])
   \<and> getForecast
      \<lparr>opts = DEFAULT_OPTIONS,
       providers = [WeatherKitProvider, OpenWeatherMapProvider, NwsProvider, TomorrowProvider],
       nowcastCache = None,
       forecastCache = [65 \<mapsto>
          ([\<lparr>slice_ts = 1801200, minutesFromNow = 30, slice_providerName = ''NOAA/NWS'',
              slice_precipMmHr = 65, slice_pop = Some 50, slice_type = Rain\<rparr>], 6200)],
       backoffIndex = 0, nextAllowedTs = Some 0\<rparr>
      63 False (\<lambda>p l. Rejected (UpstreamError ''not called'')) 30000 30100
    = (Inr [\<lparr>slice_ts = 1801200, minutesFromNow = 30, slice_providerName = ''NOAA/NWS'',
              slice_precipMmHr = 65, slice_pop = Some 50, slice_type = Rain\<rparr>],
       \<lparr>opts = DEFAULT_OPTIONS,
        providers = [WeatherKitProvider, OpenWeatherMapProvider, NwsProvider, TomorrowProvider],
        nowcastCache = None,
        forecastCache = [65 \<mapsto>
          ([\<lparr>slice_ts = 1801200, minutesFromNow = 30, slice_providerName = ''NOAA/NWS'',
              slice_precipMmHr = 65, slice_pop = Some 50, slice_type = Rain\<rparr>], 6200)],
        backoffIndex = 0, nextAllowedTs = Some 0\<rparr>,
       [])"
proof -
  let ?ps = "[WeatherKitProvider, OpenWeatherMapProvider, NwsProvider, TomorrowProvider]"
  let ?c0 = "\<lparr>opts = DEFAULT_OPTIONS, providers = ?ps, nowcastCache = None,
       forecastCache = Map.empty, backoffIndex = 0, nextAllowedTs = Some 0\<rparr>"
  let ?d = "[\<lparr>slice_ts = 1801200, minutesFromNow = 30, slice_providerName = ''NOAA/NWS'',
              slice_precipMmHr = 65, slice_pop = Some 50, slice_type = Rain\<rparr>]"
  let ?c1 = "\<lparr>opts = DEFAULT_OPTIONS, providers = ?ps, nowcastCache = None,
        forecastCache = [65 \<mapsto> (?d, 6200)], backoffIndex = 0, nextAllowedTs = Some 0\<rparr>"
  let ?ffn = "\<lambda>p l. if p = WeatherKitProvider then Pending
              else if p = OpenWeatherMapProvider then Rejected (UpstreamError ''HTTP 503'')
              else Resolved [\<lparr>slice_ts = 1801200, minutesFromNow = 30,
                               slice_providerName = name p, slice_precipMmHr = l,
                               slice_pop = Some 50, slice_type = Rain\<rparr>]"
  let ?no = "\<lambda>(p::WeatherProvider) (l::real).
               Rejected (UpstreamError ''not called'') :: WeatherForecastSlice list promise"
  have r: "roundLookahead 62 = 65" "roundLookahead 63 = 65"
    by (simp_all add: roundLookahead_def)
  have u: "?c0\<lparr>backoffIndex := 0, nextAllowedTs := Some 0,
               forecastCache := (forecastCache ?c0)(roundLookahead 62 \<mapsto> (?d, 6200))\<rparr> = ?c1"
    by (simp add: r)
  have h: "providers ?c0 = [WeatherKitProvider, OpenWeatherMapProvider] @ NwsProvider # [TomorrowProvider]
        \<and> (\<forall>p \<in> set [WeatherKitProvider, OpenWeatherMapProvider].
              isl (withTimeout (?ffn p (roundLookahead 62)) (timeoutMs (opts ?c0))))
        \<and> withTimeout (?ffn NwsProvider (roundLookahead 62)) (timeoutMs (opts ?c0)) = Inr ?d
        \<and> (False \<or> \<not> isCacheValid (opts ?c0) 1000 (forecastCache ?c0 (roundLookahead 62)))
        \<and> \<not> backoffActive ?c0 1000
        \<and> roundLookahead 63 = roundLookahead 62
        \<and> (30000::real) - 6200 < cacheTtlSeconds (opts ?c0) * 1000"
    by (simp add: r isCacheValid_def backoffActive_def DEFAULT_OPTIONS_def)
  note T = forecast_cache_keyed_by_rounded_lookahead
             [where l = 62 and ?l2.0 = 63 and c = ?c0 and force = False and ffn = ?ffn
                and now = 1000 and later = 6200 and d = ?d
                and pre = "[WeatherKitProvider, OpenWeatherMapProvider]" and q = NwsProvider
                and post = "[TomorrowProvider]" and ?now2.0 = 30000 and ?ffn2.0 = ?no
                and ?later2.0 = 30100 and k = 13]
  note C = T [THEN conjunct2, THEN conjunct2, THEN conjunct2, THEN conjunct2, THEN conjunct2,
              THEN conjunct2, THEN conjunct2, THEN conjunct2, THEN mp, OF h]
  from C [THEN conjunct1] have first:
    "getForecast ?c0 62 False ?ffn 1000 6200
       = (Inr ?d, ?c1, [WeatherKitProvider, OpenWeatherMapProvider, NwsProvider])"
    unfolding u by simp
  from C [THEN conjunct2, THEN conjunct1] have second:
    "getForecast ?c1 63 False ?no 30000 30100 = (Inr ?d, ?c1, [])"
    unfolding u by simp
  from first second show ?thesis by (intro conjI)
qed

text \<open>
  Claim C6 as stated fails where an earlier provider of the chain fails before a later
  one answers: with OpenWeatherMap rejecting and NWS answering, the request for 62 minutes
  calls both, the request for 63 minutes made 28.8 s after the answer is served from the
  slot for 65, and the two requests have caused two upstream calls, not one.
\<close>

theorem forecast_fallback_two_upstream_calls_counterexample:
  "fst (getForecast
       \<lparr>opts = DEFAULT_OPTIONS, providers = [OpenWeatherMapProvider, NwsProvider],
        nowcastCache = None, forecastCache = Map.empty, backoffIndex = 0,
        nextAllowedTs = Some 0\<rparr>
       62 False
       (\<lambda>p l. if p = OpenWeatherMapProvider then Rejected (UpstreamError ''HTTP 503'')
               else Resolved [\<lparr>slice_ts = 1801200, minutesFromNow = 30,
                                slice_providerName = name p, slice_precipMmHr = l,
                                slice_pop = Some 50, slice_type = Rain\<rparr>])
       1000 1200)
     = Inr [\<lparr>slice_ts = 1801200, minutesFromNow = 30, slice_providerName = ''NOAA/NWS'',
              slice_precipMmHr = 65, slice_pop = Some 50, slice_type = Rain\<rparr>]
   \<and> snd (snd (getForecast
       \<lparr>opts = DEFAULT_OPTIONS, providers = [OpenWeatherMapProvider, NwsProvider],
        nowcastCache = None, forecastCache = Map.empty, backoffIndex = 0,
        nextAllowedTs = Some 0\<rparr>
       62 False
       (\<lambda>p l. if p = OpenWeatherMapProvider then Rejected (UpstreamError ''HTTP 503'')
               else Resolved [\<lparr>slice_ts = 1801200, minutesFromNow = 30,
                                slice_providerName = name p, slice_precipMmHr = l,
                                slice_pop = Some 50, slice_type = Rain\<rparr>])
       1000 1200))
     = [OpenWeatherMapProvider, NwsProvider]
   \<and> fst (getForecast
       (fst (snd (getForecast
       \<lparr>opts = DEFAULT_OPTIONS, providers = [OpenWeatherMapProvider, NwsProvider],
        nowcastCache = None, forecastCache = Map.empty, backoffIndex = 0,
        nextAllowedTs = Some 0\<rparr>
       62 False
       (\<lambda>p l. if p = OpenWeatherMapProvider then Rejected (UpstreamError ''HTTP 503'')
               else Resolved [\<lparr>slice_ts = 1801200, minutesFromNow = 30,
                                slice_providerName = name p, slice_precipMmHr = l,
                                slice_pop = Some 50, slice_type = Rain\<rparr>])
       1000 1200)))
       63 False
       (\<lambda>p l. if p = OpenWeatherMapProvider then Rejected (UpstreamError ''HTTP 503'')
               else Resolved [\<lparr>slice_ts = 1801200, minutesFromNow = 30,
                                slice_providerName = name p, slice_precipMmHr = l,
                                slice_pop = Some 50, slice_type = Rain\<rparr>])
       30000 30100)
     = Inr [\<lparr>slice_ts = 1801200, minutesFromNow = 30, slice_providerName = ''NOAA/NWS'',
              slice_precipMmHr = 65, slice_pop = Some 50, slice_type = Rain\<rparr>]
   \<and> snd (snd (getForecast
       (fst (snd (getForecast
       \<lparr>opts = DEFAULT_OPTIONS, providers = [OpenWeatherMapProvider, NwsProvider],
        nowcastCache = None, forecastCache = Map.empty, backoffIndex = 0,
        nextAllowedTs = Some 0\<rparr>
       62 False
       (\<lambda>p l. if p = OpenWeatherMapProvider then Rejected (UpstreamError ''HTTP 503'')
               else Resolved [\<lparr>slice_ts = 1801200, minutesFromNow = 30,
                                slice_providerName = name p, slice_precipMmHr = l,
                                slice_pop = Some 50, slice_type = Rain\<rparr>])
       1000 1200)))
       63 False
       (\<lambda>p l. if p = OpenWeatherMapProvider then Rejected (UpstreamError ''HTTP 503'')
               else Resolved [\<lparr>slice_ts = 1801200, minutesFromNow = 30,
                                slice_providerName = name p, slice_precipMmHr = l,
                                slice_pop = Some 50, slice_type = Rain\<rparr>])
       30000 30100))
     = []
   \<and> roundLookahead 62 = roundLookahead 63
   \<and> (30000::real) - 1200 < cacheTtlSeconds DEFAULT_OPTIONS * 1000
   \<and> \<not> (length (snd (snd (getForecast
       \<lparr>opts = DEFAULT_OPTIONS, providers = [OpenWeatherMapProvider, NwsProvider],
        nowcastCache = None, forecastCache = Map.empty, backoffIndex = 0,
        nextAllowedTs = Some 0\<rparr>
       62 False
       (\<lambda>p l. if p = OpenWeatherMapProvider then Rejected (UpstreamError ''HTTP 503'')
               else Resolved [\<lparr>slice_ts = 1801200, minutesFromNow = 30,
                                slice_providerName = name p, slice_precipMmHr = l,
                                slice_pop = Some 50, slice_type = Rain\<rparr>])
       1000 1200)))
           + length (snd (snd (getForecast
       (fst (snd (getForecast
       \<lparr>opts = DEFAULT_OPTIONS, providers = [OpenWeatherMapProvider, NwsProvider],
        nowcastCache = None, forecastCache = Map.empty, backoffIndex = 0,
        nextAllowedTs = Some 0\<rparr>
       62 False
       (\<lambda>p l. if p = OpenWeatherMapProvider then Rejected (UpstreamError ''HTTP 503'')
               else Resolved [\<lparr>slice_ts = 1801200, minutesFromNow = 30,
                                slice_providerName = name p, slice_precipMmHr = l,
                                slice_pop = Some 50, slice_type = Rain\<rparr>])
       1000 1200)))
       63 False
       (\<lambda>p l. if p = OpenWeatherMapProvider then Rejected (UpstreamError ''HTTP 503'')
               else Resolved [\<lparr>slice_ts = 1801200, minutesFromNow = 30,
                                slice_providerName = name p, slice_precipMmHr = l,
                                slice_pop = Some 50, slice_type = Rain\<rparr>])
       30000 30100))) = 1)"
proof -
  let ?c0 = "\<lparr>opts = DEFAULT_OPTIONS, providers = [OpenWeatherMapProvider, NwsProvider],
        nowcastCache = None, forecastCache = Map.empty, backoffIndex = 0,
        nextAllowedTs = Some 0\<rparr>"
  let ?f = "\<lambda>p l. if p = OpenWeatherMapProvider then Rejected (UpstreamError ''HTTP 503'')
               else Resolved [\<lparr>slice_ts = 1801200, minutesFromNow = 30,
                                slice_providerName = name p, slice_precipMmHr = l,
                                slice_pop = Some 50, slice_type = Rain\<rparr>]"
  let ?d = "[\<lparr>slice_ts = 1801200, minutesFromNow = 30, slice_providerName = ''NOAA/NWS'',
              slice_precipMmHr = 65, slice_pop = Some 50, slice_type = Rain\<rparr>]"
  let ?c1 = "\<lparr>opts = DEFAULT_OPTIONS, providers = [OpenWeatherMapProvider, NwsProvider],
        nowcastCache = None, forecastCache = [65 \<mapsto> (?d, 1200)], backoffIndex = 0,
        nextAllowedTs = Some 0\<rparr>"
  have first: "getForecast ?c0 62 False ?f 1000 1200
      = (Inr ?d, ?c1, [OpenWeatherMapProvider, NwsProvider])"
    by (simp add: getForecast_def Let_def roundLookahead_def isCacheValid_def backoffActive_def
        pickProvider_def)
  have second: "getForecast ?c1 63 False ?f 30000 30100 = (Inr ?d, ?c1, [])"
    by (simp add: getForecast_def Let_def roundLookahead_def isCacheValid_def
        DEFAULT_OPTIONS_def)
  have r: "roundLookahead 62 = roundLookahead 63" by (simp add: roundLookahead_def)
  have t: "(30000::real) - 1200 < cacheTtlSeconds DEFAULT_OPTIONS * 1000"
    by (simp add: DEFAULT_OPTIONS_def)
  show ?thesis
    unfolding first fst_conv snd_conv second using r t by simp
qed

section \<open>Properties of the provider adapters\<close>

lemma includesStr_sublist: "includesStr s needle = sublist needle s"
  by (induction s) (auto simp: sublist_Cons_right)

lemma conditionsLoop_skips:
  "\<forall>p \<in> set pre. silent p \<Longrightarrow> conditionsLoop (pre @ rest) = conditionsLoop rest"
  by (induction pre) (auto simp: silent_def)

lemma determineWeatherType_first_decides:
  assumes "\<forall>p \<in> set pre. silent p"
  shows "determineWeatherType (Some (pre @ c # post)) = conditionsLoop (c # post)"
  using conditionsLoop_skips [OF assms, of "c # post"]
  by (simp add: determineWeatherType_def)

text \<open>
  Claim C8, as the code has it. Within one condition string snow has precedence: when
  the lower-cased string contains \<open>snow\<close>, the WeatherKit mapping, the OpenWeatherMap text
  rule and an NWS entry give snow, whatever rain or sleet words the string also contains.
  An NWS weather value is scanned entry by entry, and it maps to snow when the first
  entry that names snow or rain contains \<open>snow\<close>, whatever the later entries say. In the
  OpenWeatherMap adapter a measured snow amount above 0.01 gives snow whatever the rain
  amount and the text are, a measured rain amount above 0.01 comes next, and the text of
  the first weather entry is consulted only when neither amount is above 0.01. The
  Tomorrow.io adapter maps a numeric code: 1 rain, 2 snow, 3 and 4 sleet.
\<close>

theorem snow_precedence_within_a_condition:
  "(s \<noteq> [] \<and> includesStr (toLowerCase s) ''snow'' \<longrightarrow> resolvePrecipType (Some s) = Snow)
 \<and> ((\<forall>p \<in> set pre. silent p) \<and> includesStr (conditionText c) ''snow'' \<longrightarrow>
       determineWeatherType (Some (pre @ c # post)) = Snow)
 \<and> (orElse snow 0 > 1 / 100 \<longrightarrow> resolveType entries rain snow = Snow)
 \<and> (orElse snow 0 \<le> 1 / 100 \<and> orElse rain 0 > 1 / 100 \<longrightarrow>
       resolveType entries rain snow = Rain)
 \<and> (orElse snow 0 \<le> 1 / 100 \<and> orElse rain 0 \<le> 1 / 100
       \<and> includesStr (toLowerCase (orElse (owm_main e) (orElse (owm_description e) []))) ''snow'' \<longrightarrow>
       resolveType (Some (e # es)) rain snow = Snow)
 \<and> mapPrecipitationType (Some 1) = Rain \<and> mapPrecipitationType (Some 2) = Snow
 \<and> mapPrecipitationType (Some 3) = Sleet \<and> mapPrecipitationType (Some 4) = Sleet"
proof -
  have wk: "s \<noteq> [] \<and> includesStr (toLowerCase s) ''snow'' \<longrightarrow>
      resolvePrecipType (Some s) = Snow"
    by (simp add: resolvePrecipType_def Let_def)
  have nws_snow: "(\<forall>p \<in> set pre. silent p) \<and> includesStr (conditionText c) ''snow'' \<longrightarrow>
       determineWeatherType (Some (pre @ c # post)) = Snow"
  proof
    assume h: "(\<forall>p \<in> set pre. silent p) \<and> includesStr (conditionText c) ''snow''"
    then have "determineWeatherType (Some (pre @ c # post)) = conditionsLoop (c # post)"
      by (simp add: determineWeatherType_first_decides)
    with h show "determineWeatherType (Some (pre @ c # post)) = Snow" by simp
  qed
  have owm_snow: "orElse snow 0 > 1 / 100 \<longrightarrow> resolveType entries rain snow = Snow"
    by (simp add: resolveType_def)
  have owm_rain: "orElse snow 0 \<le> 1 / 100 \<and> orElse rain 0 > 1 / 100 \<longrightarrow>
       resolveType entries rain snow = Rain"
    by (simp add: resolveType_def)
  have owm_text: "orElse snow 0 \<le> 1 / 100 \<and> orElse rain 0 \<le> 1 / 100
       \<and> includesStr (toLowerCase (orElse (owm_main e) (orElse (owm_description e) []))) ''snow'' \<longrightarrow>
       resolveType (Some (e # es)) rain snow = Snow"
    by (simp add: resolveType_def Let_def)
  have tm: "mapPrecipitationType (Some 1) = Rain" "mapPrecipitationType (Some 2) = Snow"
    "mapPrecipitationType (Some 3) = Sleet" "mapPrecipitationType (Some 4) = Sleet"
    by (simp_all add: mapPrecipitationType_def)
  from wk nws_snow owm_snow owm_rain owm_text tm show ?thesis by (intro conjI)
qed

text \<open>
  The claim as worded fails for the NWS adapter: a weather value whose first entry is
  rain showers and whose second entry is snow showers maps to rain. It also fails for
  OpenWeatherMap when rain is measured and the text says snow.
\<close>

theorem nws_rain_entry_before_snow_counterexample:
  "includesStr (conditionText \<lparr>c_weather = Some ''snow_showers'', c_coverage = Some ''chance''\<rparr>)
      ''snow''
   \<and> determineWeatherType
        (Some [\<lparr>c_weather = Some ''rain_showers'', c_coverage = Some ''likely''\<rparr>,
               \<lparr>c_weather = Some ''snow_showers'', c_coverage = Some ''chance''\<rparr>]) = Rain
   \<and> determineWeatherType
        (Some [\<lparr>c_weather = Some ''rain_showers'', c_coverage = Some ''likely''\<rparr>,
               \<lparr>c_weather = Some ''snow_showers'', c_coverage = Some ''chance''\<rparr>]) \<noteq> Snow
   \<and> resolveType (Some [\<lparr>owm_main = Some ''Snow'', owm_description = Some ''light snow''\<rparr>])
        (Some 2) None = Rain"
  by (simp add: determineWeatherType_def conditionText_def toLowerCase_def toLowerChar_def
      resolveType_def)

theorem snow_precedence_within_a_condition_witness:
  "resolvePrecipType (Some ''MixedRainAndSnow'') = Snow
   \<and> determineWeatherType
        (Some [\<lparr>c_weather = Some ''fog'', c_coverage = Some ''patchy''\<rparr>,
               \<lparr>c_weather = Some ''Rain and Snow'', c_coverage = None\<rparr>,
               \<lparr>c_weather = Some ''rain_showers'', c_coverage = None\<rparr>]) = Snow
   \<and> resolveType (Some [\<lparr>owm_main = Some ''Rain'', owm_description = None\<rparr>])
        (Some 2) (Some (1 / 2)) = Snow
   \<and> resolveType (Some [\<lparr>owm_main = Some ''Snow'', owm_description = None\<rparr>])
        (Some 2) None = Rain
   \<and> resolveType (Some [\<lparr>owm_main = None, owm_description = Some ''Rain and SNOW''\<rparr>])
        None None = Snow"
proof -
  let ?fog = "\<lparr>c_weather = Some ''fog'', c_coverage = Some ''patchy''\<rparr>"
  let ?mix = "\<lparr>c_weather = Some ''Rain and Snow'', c_coverage = None\<rparr>"
  let ?rain = "\<lparr>c_weather = Some ''rain_showers'', c_coverage = None\<rparr>"
  let ?snow = "\<lparr>c_weather = Some ''snow_showers'', c_coverage = None\<rparr>"
  let ?e1 = "\<lparr>owm_main = Some ''Rain'', owm_description = None\<rparr>"
  let ?e2 = "\<lparr>owm_main = Some ''Snow'', owm_description = None\<rparr>"
  let ?e3 = "\<lparr>owm_main = None, owm_description = Some ''Rain and SNOW''\<rparr>"
  note defs = conditionText_def toLowerCase_def toLowerChar_def silent_def
  note A = snow_precedence_within_a_condition
             [where s = "''MixedRainAndSnow''" and pre = "[?fog]" and c = ?mix and post = "[?rain]"
                and snow = "Some (1 / 2)" and rain = "Some 2" and entries = "Some [?e1]"
                and e = ?e3 and es = "[]"]
  note B = snow_precedence_within_a_condition
             [where s = "''MixedRainAndSnow''" and pre = "[?fog]" and c = ?rain and post = "[?snow]"
                and snow = None and rain = "Some 2" and entries = "Some [?e2]"
                and e = ?e3 and es = "[]"]
  note C = snow_precedence_within_a_condition
             [where s = "''MixedRainAndSnow''" and pre = "[?fog]" and c = ?rain and post = "[?snow]"
                and snow = None and rain = None and entries = "Some [?e2]"
                and e = ?e3 and es = "[]"]
  have h1: "''MixedRainAndSnow'' \<noteq> [] \<and> includesStr (toLowerCase ''MixedRainAndSnow'') ''snow''"
    by (simp add: defs)
  have h2: "(\<forall>p \<in> set [?fog]. silent p) \<and> includesStr (conditionText ?mix) ''snow''"
    by (simp add: defs)
  have h4: "orElse (Some (1 / 2 :: real)) 0 > 1 / 100" by simp
  have h5: "orElse (None :: real option) 0 \<le> 1 / 100 \<and> orElse (Some (2::real)) 0 > 1 / 100"
    by simp
  have h6: "orElse (None :: real option) 0 \<le> 1 / 100 \<and> orElse (None :: real option) 0 \<le> 1 / 100
       \<and> includesStr (toLowerCase (orElse (owm_main ?e3) (orElse (owm_description ?e3) []))) ''snow''"
    by (simp add: defs)
  from A [THEN conjunct1, THEN mp, OF h1]
  have r1: "resolvePrecipType (Some ''MixedRainAndSnow'') = Snow" .
  from A [THEN conjunct2, THEN conjunct1, THEN mp, OF h2]
  have r2: "determineWeatherType (Some [?fog, ?mix, ?rain]) = Snow" by simp
  from A [THEN conjunct2, THEN conjunct2, THEN conjunct1, THEN mp, OF h4]
  have r4: "resolveType (Some [?e1]) (Some 2) (Some (1 / 2)) = Snow" .
  from B [THEN conjunct2, THEN conjunct2, THEN conjunct2, THEN conjunct1, THEN mp, OF h5]
  have r5: "resolveType (Some [?e2]) (Some 2) None = Rain" .
  from C [THEN conjunct2, THEN conjunct2, THEN conjunct2, THEN conjunct2, THEN conjunct1,
          THEN mp, OF h6]
  have r6: "resolveType (Some [?e3]) None None = Snow" .
  from r1 r2 r4 r5 r6 show ?thesis by (intro conjI)
qed

section \<open>Properties of the location resolver\<close>

lemma loadCache_writable:
  "writable (snd (loadCache fs storagePath)) = writable fs"
  by (simp add: loadCache_def saveCache_def split: fileState.splits)

lemma loadCache_object:
  "files fs (getCacheFile storagePath) = Unreadable
   \<or> (files fs (getCacheFile storagePath) = Missing
       \<and> (truthy storagePath \<longrightarrow> (\<forall>v. files fs LegacyCacheFile \<noteq> Holds v)))
   \<Longrightarrow> fst (loadCache fs storagePath) = CacheObject Map.empty"
  by (auto simp: loadCache_def split: fileState.splits)

text \<open>
  Explicit coordinates on a cache that is a JSON object. When the location configuration
  holds two finite coordinates and the cache that \<open>loadCache\<close> returns is an object (an
  empty one when there is no cache file or it cannot be read or parsed),
  \<open>resolveLocation\<close> returns the coordinates with the source \<open>config\<close> and sends no
  request, whatever address or mode is also configured and whatever the object holds; and
  where the file system takes the write, the cache file afterwards is that object with the
  key \<open>explicit\<close> set to these coordinates, the source \<open>config\<close> and the current time.
\<close>

theorem explicit_coordinates_on_object_cache:
  "(cfg_lat c = Some (Num la) \<and> cfg_lon c = Some (Num lo)
      \<and> fst (loadCache fs storagePath) = CacheObject m \<longrightarrow>
      fst (resolveLocation fs net (Some c) storagePath now)
        = Inr (Some \<lparr>lat = la, lon = lo, source = ''config''\<rparr>)
    \<and> snd (snd (resolveLocation fs net (Some c) storagePath now)) = []
    \<and> (writable fs \<longrightarrow>
          files (fst (snd (resolveLocation fs net (Some c) storagePath now)))
                (getCacheFile storagePath)
            = Holds (CacheObject
                       (m(''explicit'' \<mapsto> \<lparr>entry_lat = la, entry_lon = lo,
                                            entry_source = ''config'', entry_ts = now\<rparr>)))))"
proof (intro impI)
  assume h: "cfg_lat c = Some (Num la) \<and> cfg_lon c = Some (Num lo)
      \<and> fst (loadCache fs storagePath) = CacheObject m"
  obtain fs1 where l: "loadCache fs storagePath = (CacheObject m, fs1)"
    using h by (cases "loadCache fs storagePath") simp
  have w1: "writable fs1 = writable fs"
    using loadCache_writable [of fs storagePath] l by simp
  have r: "resolveLocation fs net (Some c) storagePath now
      = (Inr (Some \<lparr>lat = la, lon = lo, source = ''config''\<rparr>),
         saveCache fs1 storagePath
           (CacheObject (m(''explicit'' \<mapsto> \<lparr>entry_lat = la, entry_lon = lo,
                                            entry_source = ''config'', entry_ts = now\<rparr>))),
         [])"
    using h l by (simp add: resolveLocation_def)
  show "fst (resolveLocation fs net (Some c) storagePath now)
        = Inr (Some \<lparr>lat = la, lon = lo, source = ''config''\<rparr>)
    \<and> snd (snd (resolveLocation fs net (Some c) storagePath now)) = []
    \<and> (writable fs \<longrightarrow>
          files (fst (snd (resolveLocation fs net (Some c) storagePath now)))
                (getCacheFile storagePath)
            = Holds (CacheObject
                       (m(''explicit'' \<mapsto> \<lparr>entry_lat = la, entry_lon = lo,
                                            entry_source = ''config'', entry_ts = now\<rparr>))))"
    unfolding r using w1 by (simp add: saveCache_def)
qed

theorem explicit_coordinates_on_object_cache_witness:
  "fst (resolveLocation \<lparr>files = (\<lambda>p. Missing), writable = True\<rparr>
          \<lparr>geocode = (\<lambda>a. Inr [(Num 1, Num 2)]),
           ipapi = Inr \<lparr>ip_latitude = Some (Num 3), ip_longitude = Some (Num 4),
                         ip_lat = None, ip_lon = None\<rparr>\<rparr>
          (Some \<lparr>cfg_lat = Some (Num 40), cfg_lon = Some (Num (- 73)),
                 address = Some ''1 Main St'', loc_mode = Some LocAuto\<rparr>)
          (Some ''/var/lib/homebridge'') 5000)
     = Inr (Some \<lparr>lat = 40, lon = - 73, source = ''config''\<rparr>)
   \<and> snd (snd (resolveLocation \<lparr>files = (\<lambda>p. Missing), writable = True\<rparr>
          \<lparr>geocode = (\<lambda>a. Inr [(Num 1, Num 2)]),
           ipapi = Inr \<lparr>ip_latitude = Some (Num 3), ip_longitude = Some (Num 4),
                         ip_lat = None, ip_lon = None\<rparr>\<rparr>
          (Some \<lparr>cfg_lat = Some (Num 40), cfg_lon = Some (Num (- 73)),
                 address = Some ''1 Main St'', loc_mode = Some LocAuto\<rparr>)
          (Some ''/var/lib/homebridge'') 5000)) = []
   \<and> files (fst (snd (resolveLocation \<lparr>files = (\<lambda>p. Missing), writable = True\<rparr>
          \<lparr>geocode = (\<lambda>a. Inr [(Num 1, Num 2)]),
           ipapi = Inr \<lparr>ip_latitude = Some (Num 3), ip_longitude = Some (Num 4),
                         ip_lat = None, ip_lon = None\<rparr>\<rparr>
          (Some \<lparr>cfg_lat = Some (Num 40), cfg_lon = Some (Num (- 73)),
                 address = Some ''1 Main St'', loc_mode = Some LocAuto\<rparr>)
          (Some ''/var/lib/homebridge'') 5000)))
       (StorageCacheFile ''/var/lib/homebridge'')
     = Holds (CacheObject [''explicit'' \<mapsto> \<lparr>entry_lat = 40, entry_lon = - 73,
                                  entry_source = ''config'', entry_ts = 5000\<rparr>])"
proof -
  let ?fs = "\<lparr>files = (\<lambda>p. Missing), writable = True\<rparr>"
  let ?net = "\<lparr>geocode = (\<lambda>a. Inr [(Num 1, Num 2)]),
           ipapi = Inr \<lparr>ip_latitude = Some (Num 3), ip_longitude = Some (Num 4),
                         ip_lat = None, ip_lon = None\<rparr>\<rparr>"
  let ?c = "\<lparr>cfg_lat = Some (Num 40), cfg_lon = Some (Num (- 73)),
                 address = Some ''1 Main St'', loc_mode = Some LocAuto\<rparr>"
  let ?sp = "Some ''/var/lib/homebridge''"
  have p: "getCacheFile ?sp = StorageCacheFile ''/var/lib/homebridge''"
    by (simp add: getCacheFile_def)
  have l: "fst (loadCache ?fs ?sp) = CacheObject Map.empty"
    by (rule loadCache_object) simp
  have h: "cfg_lat ?c = Some (Num 40) \<and> cfg_lon ?c = Some (Num (- 73))
      \<and> fst (loadCache ?fs ?sp) = CacheObject Map.empty"
    using l by simp
  note T = explicit_coordinates_on_object_cache
             [where c = ?c and la = 40 and lo = "- 73" and fs = ?fs and net = ?net
                and storagePath = ?sp and now = 5000 and m = Map.empty, THEN mp, OF h]
  have w: "writable ?fs" by simp
  from T have r1: "fst (resolveLocation ?fs ?net (Some ?c) ?sp 5000)
     = Inr (Some \<lparr>lat = 40, lon = - 73, source = ''config''\<rparr>)" by blast
  from T have r2: "snd (snd (resolveLocation ?fs ?net (Some ?c) ?sp 5000)) = []" by blast
  from T [THEN conjunct2, THEN conjunct2, THEN mp, OF w]
  have r3: "files (fst (snd (resolveLocation ?fs ?net (Some ?c) ?sp 5000)))
       (StorageCacheFile ''/var/lib/homebridge'')
     = Holds (CacheObject [''explicit'' \<mapsto> \<lparr>entry_lat = 40, entry_lon = - 73,
                                  entry_source = ''config'', entry_ts = 5000\<rparr>])"
    unfolding p .
  from r1 r2 r3 show ?thesis by (intro conjI)
qed

text \<open>
  Claim C9. With the explicit coordinates 40.0 and -73.0 configured, \<open>resolveLocation\<close> is
  to return \<open>{40.0, -73.0, "config"}\<close> without a network call and to write a cache entry
  under the key \<open>explicit\<close>. The code does not do so when the cache file holds JSON that
  is not an object. \<open>loadCache\<close> returns what \<open>JSON.parse\<close> gives without looking at it,
  and the assignment \<open>cache['explicit'] = ...\<close> is outside any \<open>try\<close>: on a file holding
  \<open>null\<close>, or a number, a string or a boolean, the assignment throws a \<open>TypeError\<close>, so
  the call returns no location and leaves the file as it was; on a file holding an array
  the call returns the coordinates, but the file written is the array, with no \<open>explicit\<close>
  entry. A cache file that cannot be parsed at all is treated as empty by the \<open>catch\<close> of
  \<open>loadCache\<close>, and the coordinates are then returned and stored.
\<close>

theorem explicit_coordinates_on_non_object_cache_file:
  "resolveLocation
      \<lparr>files = (\<lambda>p. if p = StorageCacheFile ''/var/lib/homebridge''
                      then Holds CacheNull else Missing),
       writable = True\<rparr>
      \<lparr>geocode = (\<lambda>a. Inr [(Num 1, Num 2)]),
       ipapi = Inr \<lparr>ip_latitude = Some (Num 3), ip_longitude = Some (Num 4),
                     ip_lat = None, ip_lon = None\<rparr>\<rparr>
      (Some \<lparr>cfg_lat = Some (Num 40), cfg_lon = Some (Num (- 73)),
             address = None, loc_mode = None\<rparr>)
      (Some ''/var/lib/homebridge'') 5000
    = (Inl TypeError,
       \<lparr>files = (\<lambda>p. if p = StorageCacheFile ''/var/lib/homebridge''
                       then Holds CacheNull else Missing),
        writable = True\<rparr>,
       [])
   \<and> resolveLocation
      \<lparr>files = (\<lambda>p. if p = StorageCacheFile ''/var/lib/homebridge''
                      then Holds CachePrimitive else Missing),
       writable = True\<rparr>
      \<lparr>geocode = (\<lambda>a. Inr [(Num 1, Num 2)]),
       ipapi = Inr \<lparr>ip_latitude = Some (Num 3), ip_longitude = Some (Num 4),
                     ip_lat = None, ip_lon = None\<rparr>\<rparr>
      (Some \<lparr>cfg_lat = Some (Num 40), cfg_lon = Some (Num (- 73)),
             address = None, loc_mode = None\<rparr>)
      (Some ''/var/lib/homebridge'') 5000
    = (Inl TypeError,
       \<lparr>files = (\<lambda>p. if p = StorageCacheFile ''/var/lib/homebridge''
                       then Holds CachePrimitive else Missing),
        writable = True\<rparr>,
       [])
   \<and> fst (resolveLocation
      \<lparr>files = (\<lambda>p. if p = StorageCacheFile ''/var/lib/homebridge''
                      then Holds CacheArray else Missing),
       writable = True\<rparr>
      \<lparr>geocode = (\<lambda>a. Inr [(Num 1, Num 2)]),
       ipapi = Inr \<lparr>ip_latitude = Some (Num 3), ip_longitude = Some (Num 4),
                     ip_lat = None, ip_lon = None\<rparr>\<rparr>
      (Some \<lparr>cfg_lat = Some (Num 40), cfg_lon = Some (Num (- 73)),
             address = None, loc_mode = None\<rparr>)
      (Some ''/var/lib/homebridge'') 5000)
    = Inr (Some \<lparr>lat = 40, lon = - 73, source = ''config''\<rparr>)
   \<and> files (fst (snd (resolveLocation
      \<lparr>files = (\<lambda>p. if p = StorageCacheFile ''/var/lib/homebridge''
                      then Holds CacheArray else Missing),
       writable = True\<rparr>
      \<lparr>geocode = (\<lambda>a. Inr [(Num 1, Num 2)]),
       ipapi = Inr \<lparr>ip_latitude = Some (Num 3), ip_longitude = Some (Num 4),
                     ip_lat = None, ip_lon = None\<rparr>\<rparr>
      (Some \<lparr>cfg_lat = Some (Num 40), cfg_lon = Some (Num (- 73)),
             address = None, loc_mode = None\<rparr>)
      (Some ''/var/lib/homebridge'') 5000)))
      (StorageCacheFile ''/var/lib/homebridge'')
    = Holds CacheArray
   \<and> resolveLocation
      \<lparr>files = (\<lambda>p. if p = StorageCacheFile ''/var/lib/homebridge''
                      then Unreadable else Missing),
       writable = True\<rparr>
      \<lparr>geocode = (\<lambda>a. Inr [(Num 1, Num 2)]),
       ipapi = Inr \<lparr>ip_latitude = Some (Num 3), ip_longitude = Some (Num 4),
                     ip_lat = None, ip_lon = None\<rparr>\<rparr>
      (Some \<lparr>cfg_lat = Some (Num 40), cfg_lon = Some (Num (- 73)),
             address = None, loc_mode = None\<rparr>)
      (Some ''/var/lib/homebridge'') 5000
    = (Inr (Some \<lparr>lat = 40, lon = - 73, source = ''config''\<rparr>),
       \<lparr>files = (\<lambda>p. if p = StorageCacheFile ''/var/lib/homebridge''
                       then Unreadable else Missing)
                  (StorageCacheFile ''/var/lib/homebridge'' :=
                     Holds (CacheObject [''explicit'' \<mapsto>
                       \<lparr>entry_lat = 40, entry_lon = - 73, entry_source = ''config'',
                        entry_ts = 5000\<rparr>])),
        writable = True\<rparr>,
       [])"
proof -
  have p: "getCacheFile (Some ''/var/lib/homebridge'') = StorageCacheFile ''/var/lib/homebridge''"
    by (simp add: getCacheFile_def)
  show ?thesis
    by (simp add: resolveLocation_def loadCache_def saveCache_def p)
qed

end
